(* ===== verification/Prelude.thy ===== *)
theory Prelude
  imports Complex_Main "HOL-Library.AList" "HOL-Library.Multiset"
begin

text \<open>
  Shared vocabulary of the development: the types that name the server's data (user
  ids, timestamps, session ids), JSON values as the request and response bodies carry
  them, JavaScript objects as association lists with the spread/assignment semantics
  of \<open>{...body, k: v}\<close>, and the SQL \<open>ORDER BY ... DESC\<close> / \<open>LIMIT\<close> combinators
  with the generic lemmas about them that the storage proofs share.
\<close>

section \<open>Names of the model's types\<close>

type_synonym user_id = int \<comment> \<open>\<open>serial\<close> column values; JavaScript numbers\<close>
type_synonym timestamp = nat \<comment> \<open>milliseconds, as \<open>new Date()\<close> and \<open>defaultNow()\<close> give them\<close>
type_synonym sid = nat \<comment> \<open>the opaque session id carried by the \<open>connect.sid\<close> cookie\<close>

section \<open>JSON values and JavaScript objects\<close>

text \<open>
  A parsed request body (\<open>express.json()\<close>) or a response body. A number is a
  rational (the client's prices are integers, its ratings have one decimal); a number
  bound for an \<open>integer\<close> column is converted by the database (\<open>as_int\<close>).
  There is no \<open>Date\<close> constructor: JSON has none, which matters for the
  \<open>timestamp\<close> columns (see \<open>Validation\<close>).
\<close>

datatype json =
    JNull
  | JBool bool
  | JNum rat
  | JStr string
  | JArr "json list"
  | JObj "(string \<times> json) list"

type_synonym jobj = "(string \<times> json) list"

text \<open>Property read \<open>obj[k]\<close> (\<open>None\<close> is \<open>undefined\<close>) and assignment \<open>obj[k] = v\<close>,
  which keeps the key's position when it exists and appends it otherwise.\<close>

definition jget :: "jobj \<Rightarrow> string \<Rightarrow> json option" where
  "jget obj k = map_of obj k"

definition jset :: "string \<Rightarrow> json \<Rightarrow> jobj \<Rightarrow> jobj" where
  "jset k v obj = AList.update k v obj"

text \<open>\<open>{...obj, k: v}\<close>: the spread copies \<open>obj\<close>, the later key overrides.\<close>

definition spread_with :: "jobj \<Rightarrow> string \<Rightarrow> json \<Rightarrow> jobj" where
  "spread_with obj k v = jset k v obj"

text \<open>\<open>const { k, ...rest } = obj\<close>: the rest object, without key \<open>k\<close>.\<close>

definition omit_key :: "string \<Rightarrow> jobj \<Rightarrow> jobj" where
  "omit_key k obj = filter (\<lambda>p. fst p \<noteq> k) obj"

text \<open>PostgreSQL's conversion of a parameter to an \<open>integer\<close> column: integral values
  only.\<close>

definition as_int :: "rat \<Rightarrow> int option" where
  "as_int q = (if of_int \<lfloor>q\<rfloor> = q then Some \<lfloor>q\<rfloor> else None)"

fun opt_as_int :: "rat option \<Rightarrow> int option option" where
  "opt_as_int None = Some None"
| "opt_as_int (Some q) = map_option Some (as_int q)"

section \<open>SQL ordering and limits\<close>

text \<open>
  \<open>.orderBy(desc(col))\<close>: rows by descending column value. SQL leaves the order of
  ties open; the model fixes it to the storage order (the sort is stable), and every
  theorem below that speaks of the order only uses the descending property.
\<close>

definition sort_desc :: "('a \<Rightarrow> nat) \<Rightarrow> 'a list \<Rightarrow> 'a list" where
  "sort_desc f xs = sort_key (\<lambda>x. - int (f x)) xs"

definition newest_first :: "('a \<Rightarrow> nat) \<Rightarrow> 'a list \<Rightarrow> bool" where
  "newest_first f xs \<longleftrightarrow> sorted_wrt (\<lambda>a b. f b \<le> f a) xs"

named_theorems json_simps "evaluation rules for JSON objects"

lemma jget_jset [simp, json_simps]:
  "jget (jset k v obj) k' = (if k' = k then Some v else jget obj k')"
  by (simp add: jget_def jset_def update_conv')

lemma jget_Nil [simp, json_simps]: "jget [] k = None"
  by (simp add: jget_def)

lemma jget_Cons [simp, json_simps]:
  "jget ((k', v) # obj) k = (if k = k' then Some v else jget obj k)"
  by (simp add: jget_def)

lemma jget_spread_with [simp, json_simps]:
  "jget (spread_with obj k v) k' = (if k' = k then Some v else jget obj k')"
  by (simp add: spread_with_def)

lemma map_of_omit_key: "map_of (omit_key k obj) k = None"
  by (induction obj) (auto simp: omit_key_def)

lemma omit_key_keys [simp]: "k \<notin> fst ` set (omit_key k obj)"
  by (auto simp: omit_key_def)

lemma as_int_of_int [simp]: "as_int (of_int i) = Some i"
  by (simp add: as_int_def)

lemma as_int_Some: "as_int q = Some i \<Longrightarrow> q = of_int i"
  by (auto simp: as_int_def split: if_splits)

lemma as_int_numeral [simp]: "as_int (numeral n) = Some (numeral n)" "as_int 0 = Some 0" "as_int 1 = Some 1"
  using as_int_of_int[of "numeral n"] as_int_of_int[of 0] as_int_of_int[of 1] by simp_all

lemma opt_as_int_Some: "opt_as_int q = Some v \<Longrightarrow> q = map_option of_int v"
  by (cases q) (auto dest: as_int_Some)

subsection \<open>Generic lemmas on the descending sort\<close>

lemma mset_sort_desc [simp]: "mset (sort_desc f xs) = mset xs"
  by (simp add: sort_desc_def)

lemma set_sort_desc [simp]: "set (sort_desc f xs) = set xs"
  by (simp add: sort_desc_def)

lemma length_sort_desc [simp]: "length (sort_desc f xs) = length xs"
  by (simp add: sort_desc_def)

lemma filter_sort_desc: "filter P (sort_desc f xs) = sort_desc f (filter P xs)"
  by (simp add: sort_desc_def filter_sort)

lemma sort_desc_Nil [simp]: "sort_desc f [] = []"
  by (simp add: sort_desc_def)

lemma newest_first_sort_desc [simp]: "newest_first f (sort_desc f xs)"
proof -
  have "sorted (map (\<lambda>x. - int (f x)) (sort_key (\<lambda>x. - int (f x)) xs))"
    by (rule sorted_sort_key)
  then have "sorted_wrt (\<lambda>a b. - int (f a) \<le> - int (f b)) (sort_key (\<lambda>x. - int (f x)) xs)"
    by (simp add: sorted_map)
  then show ?thesis
    unfolding newest_first_def sort_desc_def
    by (rule sorted_wrt_mono_rel[rotated]) simp
qed

lemma newest_first_take: "newest_first f xs \<Longrightarrow> newest_first f (take k xs)"
  by (simp add: newest_first_def sorted_wrt_take)

lemma in_set_drop_if_not_take: "x \<in> set xs \<Longrightarrow> x \<notin> set (take k xs) \<Longrightarrow> x \<in> set (drop k xs)"
  by (metis Un_iff append_take_drop_id set_append)

text \<open>\<open>LIMIT k\<close> after a descending sort keeps the \<open>k\<close> newest rows: every row it
  drops is no newer than every row it keeps.\<close>

lemma take_newest_first_dropped:
  assumes "newest_first f xs" and "x \<in> set (drop k xs)" and "y \<in> set (take k xs)"
  shows "f x \<le> f y"
proof -
  have "sorted_wrt (\<lambda>a b. f b \<le> f a) (take k xs @ drop k xs)"
    using assms(1) by (simp add: newest_first_def)
  then have "\<forall>a\<in>set (take k xs). \<forall>b\<in>set (drop k xs). f b \<le> f a"
    by (simp only: sorted_wrt_append) blast
  then show ?thesis
    using assms(2,3) by blast
qed

end
