(* ===== verification/Validation.thy ===== *)
theory Validation
  imports Prelude
begin

text \<open>
  The request schemas of \<open>src/shared/schema.ts\<close>: the hand-written zod schemas
  (\<open>signUpSchema\<close>, \<open>signInSchema\<close>, the \<open>extend\<close> of \<open>updateUserProfileSchema\<close>)
  and the ones \<open>createInsertSchema\<close> derives from the table columns
  (\<open>insertSavedOptionSchema\<close>, \<open>insertSearchHistorySchema\<close>, the picked profile
  columns). A schema is a parser from the parsed JSON body to either the list of zod
  issues (the \<open>ZodError\<close> the routes turn into a 400) or the validated object.
  The column-to-validator rules are those of drizzle-zod: \<open>varchar\<close> is
  \<open>z.string()\<close>, \<open>integer\<close> is \<open>z.number()\<close>, \<open>timestamp\<close> is \<open>z.date()\<close>,
  \<open>jsonb\<close> accepts any JSON value; a column without \<open>notNull()\<close> becomes
  \<open>.nullable().optional()\<close>. Zod checks every field and reports all issues; unknown
  keys are stripped.
\<close>

section \<open>Zod results and field validators\<close>

datatype zissue = ZIssue string string \<comment> \<open>path, message\<close>

type_synonym 'a zres = "zissue list + 'a"

text \<open>A key of the parsed object: absent (\<open>undefined\<close>, so drizzle leaves the column
  alone) or present with its value.\<close>

datatype 'a upd = Keep | Put 'a

definition issues :: "'a zres \<Rightarrow> zissue list" where
  "issues r = (case r of Inl is \<Rightarrow> is | Inr _ \<Rightarrow> [])"

fun z_string :: "string \<Rightarrow> json option \<Rightarrow> string zres" where
  "z_string k None = Inl [ZIssue k ''Required'']"
| "z_string k (Some (JStr s)) = Inr s"
| "z_string k (Some _) = Inl [ZIssue k ''Expected string'']"

text \<open>\<open>z.string().min(n, msg)\<close>: zod compares \<open>input.length\<close>, the number of UTF-16
  code units; the model's strings are character lists, so this is exact for ASCII
  input.\<close>

definition z_string_min :: "nat \<Rightarrow> string \<Rightarrow> string \<Rightarrow> json option \<Rightarrow> string zres" where
  "z_string_min n msg k v =
     (case z_string k v of
        Inl is \<Rightarrow> Inl is
      | Inr s \<Rightarrow> if length s < n then Inl [ZIssue k msg] else Inr s)"

fun z_number :: "string \<Rightarrow> json option \<Rightarrow> rat zres" where
  "z_number k None = Inl [ZIssue k ''Required'']"
| "z_number k (Some (JNum i)) = Inr i"
| "z_number k (Some _) = Inl [ZIssue k ''Expected number'']"

text \<open>\<open>z.date()\<close> accepts \<open>Date\<close> instances only. A JSON body holds none, so every
  defined value is an issue (zod reports \<open>invalid_type\<close>, expected date).\<close>

fun z_date :: "string \<Rightarrow> json option \<Rightarrow> timestamp zres" where
  "z_date k None = Inl [ZIssue k ''Required'']"
| "z_date k (Some _) = Inl [ZIssue k ''Expected date'']"

text \<open>The \<open>jsonb\<close> schema of drizzle-zod: a union of literals (including \<open>null\<close>),
  arrays and records, that is, any JSON value.\<close>

fun z_json :: "string \<Rightarrow> json option \<Rightarrow> json zres" where
  "z_json k None = Inl [ZIssue k ''Required'']"
| "z_json k (Some j) = Inr j"

text \<open>\<open>.nullable().optional()\<close>: absent stays absent, \<open>null\<close> is kept as \<open>null\<close>.\<close>

fun z_nullish :: "(string \<Rightarrow> json option \<Rightarrow> 'a zres) \<Rightarrow> string \<Rightarrow> json option \<Rightarrow> 'a option upd zres" where
  "z_nullish f k None = Inr Keep"
| "z_nullish f k (Some JNull) = Inr (Put None)"
| "z_nullish f k (Some j) = (case f k (Some j) of Inl is \<Rightarrow> Inl is | Inr x \<Rightarrow> Inr (Put (Some x)))"

text \<open>For an insert, an absent key and \<open>null\<close> both store SQL \<open>NULL\<close>.\<close>

fun upd_value :: "'a option upd \<Rightarrow> 'a option" where
  "upd_value Keep = None"
| "upd_value (Put v) = v"

subsection \<open>The email check\<close>

text \<open>
  \<open>z.string().email()\<close> is zod's regular expression
  \<^verbatim>\<open>^(?!\.)(?!.*\.\.)([A-Z0-9_'+\-\.]*)[A-Z0-9_+-]@([A-Z0-9][A-Z0-9\-]*\.)+[A-Z]{2,}$\<close>
  (case-insensitive), written out: a local part of the allowed characters that does not
  start with a dot and ends in a letter, digit, \<open>_\<close>, \<open>+\<close> or \<open>-\<close>; one \<open>@\<close>; at
  least one domain label (starting with a letter or digit, then letters, digits and
  dashes) followed by a dot; a top-level label of at least two letters; and no two
  consecutive dots anywhere.
\<close>

definition is_letter :: "char \<Rightarrow> bool" where
  "is_letter c \<longleftrightarrow> (let n = (of_char c :: nat) in (65 \<le> n \<and> n \<le> 90) \<or> (97 \<le> n \<and> n \<le> 122))"

definition is_digit :: "char \<Rightarrow> bool" where
  "is_digit c \<longleftrightarrow> (let n = (of_char c :: nat) in 48 \<le> n \<and> n \<le> 57)"

definition is_alnum :: "char \<Rightarrow> bool" where
  "is_alnum c \<longleftrightarrow> is_letter c \<or> is_digit c"

fun split_on :: "char \<Rightarrow> string \<Rightarrow> string list" where
  "split_on d [] = [[]]"
| "split_on d (c # cs) =
     (if c = d then [] # split_on d cs
      else (case split_on d cs of w # ws \<Rightarrow> (c # w) # ws | [] \<Rightarrow> [[c]]))"

fun has_double_dot :: "string \<Rightarrow> bool" where
  "has_double_dot (a # b # cs) = ((a = CHR ''.'' \<and> b = CHR ''.'') \<or> has_double_dot (b # cs))"
| "has_double_dot _ = False"

definition email_local_ok :: "string \<Rightarrow> bool" where
  "email_local_ok l \<longleftrightarrow>
     l \<noteq> [] \<and> hd l \<noteq> CHR ''.'' \<and>
     list_all (\<lambda>c. is_alnum c \<or> c \<in> set ''_'+-.'') l \<and>
     (is_alnum (last l) \<or> last l \<in> set ''_+-'')"

definition domain_label_ok :: "string \<Rightarrow> bool" where
  "domain_label_ok w \<longleftrightarrow> w \<noteq> [] \<and> is_alnum (hd w) \<and> list_all (\<lambda>c. is_alnum c \<or> c = CHR ''-'') w"

definition email_domain_ok :: "string \<Rightarrow> bool" where
  "email_domain_ok d \<longleftrightarrow>
     (let ws = split_on (CHR ''.'') d
      in 2 \<le> length ws \<and> list_all domain_label_ok (butlast ws) \<and>
         2 \<le> length (last ws) \<and> list_all is_letter (last ws))"

definition zod_email :: "string \<Rightarrow> bool" where
  "zod_email s \<longleftrightarrow>
     \<not> has_double_dot s \<and>
     (case split_on (CHR ''@'') s of
        [l, d] \<Rightarrow> email_local_ok l \<and> email_domain_ok d
      | _ \<Rightarrow> False)"

definition z_email :: "string \<Rightarrow> string \<Rightarrow> json option \<Rightarrow> string zres" where
  "z_email msg k v =
     (case z_string k v of
        Inl is \<Rightarrow> Inl is
      | Inr s \<Rightarrow> if zod_email s then Inr s else Inl [ZIssue k msg])"

section \<open>The schemas\<close>

subsection \<open>Authentication\<close>

record signup_data =
  su_username :: string
  su_email :: string
  su_password :: string
  su_firstName :: string
  su_lastName :: string

definition signUpSchema_parse :: "jobj \<Rightarrow> signup_data zres" where
  "signUpSchema_parse b =
     (let u = z_string_min 3 ''Username must be at least 3 characters'' ''username'' (jget b ''username'');
          e = z_email ''Invalid email address'' ''email'' (jget b ''email'');
          p = z_string_min 6 ''Password must be at least 6 characters'' ''password'' (jget b ''password'');
          f = z_string_min 1 ''First name is required'' ''firstName'' (jget b ''firstName'');
          l = z_string_min 1 ''Last name is required'' ''lastName'' (jget b ''lastName'')
      in case (u, e, p, f, l) of
           (Inr u, Inr e, Inr p, Inr f, Inr l) \<Rightarrow>
             Inr \<lparr>su_username = u, su_email = e, su_password = p, su_firstName = f, su_lastName = l\<rparr>
         | _ \<Rightarrow> Inl (issues u @ issues e @ issues p @ issues f @ issues l))"

record signin_data =
  si_username :: string
  si_password :: string

definition signInSchema_parse :: "jobj \<Rightarrow> signin_data zres" where
  "signInSchema_parse b =
     (let u = z_string_min 1 ''Username is required'' ''username'' (jget b ''username'');
          p = z_string_min 1 ''Password is required'' ''password'' (jget b ''password'')
      in case (u, p) of
           (Inr u, Inr p) \<Rightarrow> Inr \<lparr>si_username = u, si_password = p\<rparr>
         | _ \<Rightarrow> Inl (issues u @ issues p))"

subsection \<open>Saved options and search history\<close>

text \<open>\<open>createInsertSchema(savedOptions).omit({id, createdAt})\<close>.\<close>

record saved_option_insert =
  ins_userId :: rat
  ins_optionId :: string
  ins_optionType :: string
  ins_optionData :: json

definition insertSavedOptionSchema_parse :: "jobj \<Rightarrow> saved_option_insert zres" where
  "insertSavedOptionSchema_parse b =
     (let u = z_number ''userId'' (jget b ''userId'');
          i = z_string ''optionId'' (jget b ''optionId'');
          t = z_string ''optionType'' (jget b ''optionType'');
          d = z_json ''optionData'' (jget b ''optionData'')
      in case (u, i, t, d) of
           (Inr u, Inr i, Inr t, Inr d) \<Rightarrow>
             Inr \<lparr>ins_userId = u, ins_optionId = i, ins_optionType = t, ins_optionData = d\<rparr>
         | _ \<Rightarrow> Inl (issues u @ issues i @ issues t @ issues d))"

text \<open>\<open>createInsertSchema(searchHistory).omit({id, createdAt})\<close>: \<open>userId\<close>,
  \<open>checkin\<close>, \<open>checkout\<close> and \<open>travelers\<close> have no \<open>notNull()\<close>.\<close>

record history_insert =
  hi_userId :: "rat option"
  hi_destination :: string
  hi_checkin :: "timestamp option"
  hi_checkout :: "timestamp option"
  hi_travelers :: "rat option"

definition insertSearchHistorySchema_parse :: "jobj \<Rightarrow> history_insert zres" where
  "insertSearchHistorySchema_parse b =
     (let u = z_nullish z_number ''userId'' (jget b ''userId'');
          d = z_string ''destination'' (jget b ''destination'');
          ci = z_nullish z_date ''checkin'' (jget b ''checkin'');
          co = z_nullish z_date ''checkout'' (jget b ''checkout'');
          t = z_nullish z_number ''travelers'' (jget b ''travelers'')
      in case (u, d, ci, co, t) of
           (Inr u, Inr d, Inr ci, Inr co, Inr t) \<Rightarrow>
             Inr \<lparr>hi_userId = upd_value u, hi_destination = d, hi_checkin = upd_value ci,
                  hi_checkout = upd_value co, hi_travelers = upd_value t\<rparr>
         | _ \<Rightarrow> Inl (issues u @ issues d @ issues ci @ issues co @ issues t))"

subsection \<open>Profile\<close>

text \<open>\<open>createInsertSchema(users).pick({...}).extend({firstName, lastName})\<close>: the two
  names are required non-empty strings, the other picked columns are nullable and
  optional. \<open>username\<close>, \<open>email\<close> and \<open>passwordHash\<close> are not picked, so zod
  strips them.\<close>

record profile_update =
  pu_firstName :: string
  pu_lastName :: string
  pu_phone :: "string option upd"
  pu_budgetRange :: "string option upd"
  pu_travelStyle :: "string option upd"
  pu_interests :: "json option upd"

definition updateUserProfileSchema_parse :: "jobj \<Rightarrow> profile_update zres" where
  "updateUserProfileSchema_parse b =
     (let f = z_string_min 1 ''First name is required'' ''firstName'' (jget b ''firstName'');
          l = z_string_min 1 ''Last name is required'' ''lastName'' (jget b ''lastName'');
          p = z_nullish z_string ''phone'' (jget b ''phone'');
          br = z_nullish z_string ''budgetRange'' (jget b ''budgetRange'');
          ts = z_nullish z_string ''travelStyle'' (jget b ''travelStyle'');
          i = z_nullish z_json ''interests'' (jget b ''interests'')
      in case (f, l, p, br, ts, i) of
           (Inr f, Inr l, Inr p, Inr br, Inr ts, Inr i) \<Rightarrow>
             Inr \<lparr>pu_firstName = f, pu_lastName = l, pu_phone = p, pu_budgetRange = br,
                  pu_travelStyle = ts, pu_interests = i\<rparr>
         | _ \<Rightarrow> Inl (issues f @ issues l @ issues p @ issues br @ issues ts @ issues i))"

end
