(* ===== verification/Storage.thy ===== *)
theory Storage
  imports Validation
begin

text \<open>
  \<open>src/server/storage.ts\<close>: the \<open>DatabaseStorage\<close> implementation of \<open>IStorage\<close>
  over the tables of \<open>src/shared/schema.ts\<close>. The database is a record of the three
  tables (lists of rows in insertion order) and the three \<open>serial\<close> sequences. An
  insert draws the next value of its sequence before the constraints are checked, as
  PostgreSQL does, so a failed insert still advances the sequence; a constraint
  violation is a \<open>db_error\<close>, the exception drizzle rethrows. \<open>defaultNow()\<close>
  is the request's clock, passed in as \<open>now\<close>.
\<close>

section \<open>Rows and the database\<close>

text \<open>\<open>bcrypt.hash(pw, 10)\<close> and \<open>bcrypt.compare\<close>, as an abstract one-way image of the
  password: the hash records the cost and what it was made from, and comparing succeeds
  exactly for that password. The salt and the digest are not modelled.\<close>

datatype pw_hash = BcryptHash nat string

definition bcrypt_hash :: "string \<Rightarrow> nat \<Rightarrow> pw_hash" where
  "bcrypt_hash pw cost = BcryptHash cost pw"

fun bcrypt_compare :: "string \<Rightarrow> pw_hash \<Rightarrow> bool" where
  "bcrypt_compare pw (BcryptHash _ p) \<longleftrightarrow> p = pw"

text \<open>\<open>users\<close>: \<open>User\<close>, the select type of the table.\<close>

record user =
  uid :: user_id
  username :: string
  email :: string
  passwordHash :: pw_hash
  firstName :: "string option"
  lastName :: "string option"
  phone :: "string option"
  budgetRange :: "string option"
  travelStyle :: "string option"
  interests :: "json option"
  u_createdAt :: timestamp
  updatedAt :: timestamp

text \<open>\<open>saved_options\<close>: \<open>SavedOption\<close>.\<close>

record saved_option =
  so_id :: int
  so_userId :: user_id
  optionId :: string
  optionType :: string
  optionData :: json
  so_createdAt :: timestamp

text \<open>\<open>search_history\<close>: \<open>SearchHistory\<close>; \<open>user_id\<close> is nullable.\<close>

record search_history =
  sh_id :: int
  sh_userId :: "user_id option"
  destination :: string
  checkin :: "timestamp option"
  checkout :: "timestamp option"
  travelers :: "int option"
  sh_createdAt :: timestamp

record db =
  users :: "user list"
  savedOptions :: "saved_option list"
  searchHistory :: "search_history list"
  users_seq :: int
  saved_seq :: int
  history_seq :: int

definition empty_db :: db where
  "empty_db = \<lparr>users = [], savedOptions = [], searchHistory = [],
               users_seq = 1, saved_seq = 1, history_seq = 1\<rparr>"

datatype db_error = UniqueViolation string | ForeignKeyViolation string | InvalidInteger string

type_synonym 'a db_result = "(db_error + 'a) \<times> db"

section \<open>User operations\<close>

text \<open>\<open>const [user] = await db.select()...where(eq(col, v))\<close>: the first matching row,
  \<open>undefined\<close> when there is none.\<close>

definition getUserById :: "user_id \<Rightarrow> db \<Rightarrow> user option" where
  "getUserById i d = find (\<lambda>u. uid u = i) (users d)"

definition getUserByUsername :: "string \<Rightarrow> db \<Rightarrow> user option" where
  "getUserByUsername n d = find (\<lambda>u. username u = n) (users d)"

text \<open>The insert of \<open>createUser\<close>: \<open>id\<close> from the sequence, the primary key and the two
  \<open>unique()\<close> columns checked by the database, the optional profile columns
  \<open>NULL\<close>.\<close>

definition new_user :: "user_id \<Rightarrow> signup_data \<Rightarrow> timestamp \<Rightarrow> user" where
  "new_user i sd now =
     \<lparr>uid = i, username = su_username sd, email = su_email sd,
      passwordHash = bcrypt_hash (su_password sd) 10,
      firstName = Some (su_firstName sd), lastName = Some (su_lastName sd),
      phone = None, budgetRange = None, travelStyle = None, interests = None,
      u_createdAt = now, updatedAt = now\<rparr>"

definition createUser :: "signup_data \<Rightarrow> timestamp \<Rightarrow> db \<Rightarrow> user db_result" where
  "createUser sd now d =
     (let i = users_seq d; d' = d\<lparr>users_seq := i + 1\<rparr>; u = new_user i sd now
      in if list_ex (\<lambda>v. uid v = i) (users d) then (Inl (UniqueViolation ''users_pkey''), d')
         else if list_ex (\<lambda>v. username v = username u) (users d)
           then (Inl (UniqueViolation ''users_username_unique''), d')
         else if list_ex (\<lambda>v. email v = email u) (users d)
           then (Inl (UniqueViolation ''users_email_unique''), d')
         else (Inr u, d'\<lparr>users := users d @ [u]\<rparr>))"

text \<open>\<open>.set({...data, updatedAt: new Date()})\<close>: the two names are always set, an
  absent optional key leaves its column alone, \<open>updated_at\<close> is stamped.\<close>

fun apply_upd :: "'a upd \<Rightarrow> 'a \<Rightarrow> 'a" where
  "apply_upd Keep x = x"
| "apply_upd (Put v) x = v"

definition apply_profile :: "profile_update \<Rightarrow> timestamp \<Rightarrow> user \<Rightarrow> user" where
  "apply_profile pu now u =
     u\<lparr>firstName := Some (pu_firstName pu), lastName := Some (pu_lastName pu),
       phone := apply_upd (pu_phone pu) (phone u),
       budgetRange := apply_upd (pu_budgetRange pu) (budgetRange u),
       travelStyle := apply_upd (pu_travelStyle pu) (travelStyle u),
       interests := apply_upd (pu_interests pu) (interests u),
       updatedAt := now\<rparr>"

definition updateUserProfile :: "user_id \<Rightarrow> profile_update \<Rightarrow> timestamp \<Rightarrow> db \<Rightarrow> user option \<times> db" where
  "updateUserProfile i pu now d =
     (let d' = d\<lparr>users := map (\<lambda>u. if uid u = i then apply_profile pu now u else u) (users d)\<rparr>
      in (find (\<lambda>u. uid u = i) (users d'), d'))"

section \<open>Saved options\<close>

definition owned_by :: "user_id \<Rightarrow> saved_option \<Rightarrow> bool" where
  "owned_by i r \<longleftrightarrow> so_userId r = i"

definition getSavedOptions :: "user_id \<Rightarrow> db \<Rightarrow> saved_option list" where
  "getSavedOptions i d = sort_desc so_createdAt (filter (owned_by i) (savedOptions d))"

text \<open>\<open>.insert(savedOptions).values(data)\<close>: the \<open>userId\<close> parameter is converted to
  the \<open>integer\<close> column first (a non-integral number is refused before the insert
  runs), then the row gets the next id and the primary and foreign keys are checked.\<close>

definition saveOption :: "saved_option_insert \<Rightarrow> timestamp \<Rightarrow> db \<Rightarrow> saved_option db_result" where
  "saveOption ins now d =
     (case as_int (ins_userId ins) of
        None \<Rightarrow> (Inl (InvalidInteger ''user_id''), d)
      | Some u \<Rightarrow>
          (let i = saved_seq d; d' = d\<lparr>saved_seq := i + 1\<rparr>;
               r = \<lparr>so_id = i, so_userId = u, optionId = ins_optionId ins,
                    optionType = ins_optionType ins, optionData = ins_optionData ins,
                    so_createdAt = now\<rparr>
           in if list_ex (\<lambda>v. so_id v = i) (savedOptions d)
                then (Inl (UniqueViolation ''saved_options_pkey''), d')
              else if \<not> list_ex (\<lambda>v. uid v = u) (users d)
                then (Inl (ForeignKeyViolation ''saved_options_user_id_users_id_fk''), d')
              else (Inr r, d'\<lparr>savedOptions := savedOptions d @ [r]\<rparr>)))"

definition matches_option :: "user_id \<Rightarrow> string \<Rightarrow> saved_option \<Rightarrow> bool" where
  "matches_option i oid r \<longleftrightarrow> so_userId r = i \<and> optionId r = oid"

definition removeSavedOption :: "user_id \<Rightarrow> string \<Rightarrow> db \<Rightarrow> db" where
  "removeSavedOption i oid d =
     d\<lparr>savedOptions := filter (\<lambda>r. \<not> matches_option i oid r) (savedOptions d)\<rparr>"

definition isSavedOption :: "user_id \<Rightarrow> string \<Rightarrow> db \<Rightarrow> bool" where
  "isSavedOption i oid d = list_ex (matches_option i oid) (savedOptions d)"

section \<open>Search history\<close>

definition history_limit :: nat where
  "history_limit = 10"

definition getSearchHistory :: "user_id \<Rightarrow> db \<Rightarrow> search_history list" where
  "getSearchHistory i d =
     take history_limit (sort_desc sh_createdAt (filter (\<lambda>r. sh_userId r = Some i) (searchHistory d)))"

definition saveSearchHistory :: "history_insert \<Rightarrow> timestamp \<Rightarrow> db \<Rightarrow> search_history db_result" where
  "saveSearchHistory hi now d =
     (case (opt_as_int (hi_userId hi), opt_as_int (hi_travelers hi)) of
        (None, _) \<Rightarrow> (Inl (InvalidInteger ''user_id''), d)
      | (_, None) \<Rightarrow> (Inl (InvalidInteger ''travelers''), d)
      | (Some uo, Some tr) \<Rightarrow>
          (let i = history_seq d; d' = d\<lparr>history_seq := i + 1\<rparr>;
               r = \<lparr>sh_id = i, sh_userId = uo, destination = hi_destination hi,
                    checkin = hi_checkin hi, checkout = hi_checkout hi,
                    travelers = tr, sh_createdAt = now\<rparr>
           in if list_ex (\<lambda>v. sh_id v = i) (searchHistory d)
                then (Inl (UniqueViolation ''search_history_pkey''), d')
              else if (case uo of None \<Rightarrow> False | Some u \<Rightarrow> \<not> list_ex (\<lambda>v. uid v = u) (users d))
                then (Inl (ForeignKeyViolation ''search_history_user_id_users_id_fk''), d')
              else (Inr r, d'\<lparr>searchHistory := searchHistory d @ [r]\<rparr>)))"

section \<open>Abstract view of the saved options\<close>

text \<open>What a user's trip plan is, independently of row ids, timestamps and order: the
  multiset of \<open>(optionId, optionType, optionData)\<close> the user owns. Duplicates count,
  since \<open>saveOption\<close> does not deduplicate.\<close>

definition saved_item :: "saved_option \<Rightarrow> string \<times> string \<times> json" where
  "saved_item r = (optionId r, optionType r, optionData r)"

definition saved_view :: "db \<Rightarrow> user_id \<Rightarrow> (string \<times> string \<times> json) multiset" where
  "saved_view d i = image_mset saved_item (filter_mset (owned_by i) (mset (savedOptions d)))"

section \<open>JSON form of rows\<close>

text \<open>\<open>res.json(row)\<close>: the row's columns under their JavaScript names. Dates
  are written as their millisecond value; a bcrypt hash is written as a fixed-format
  text (the salt and digest are not modelled).\<close>

fun opt_json :: "('a \<Rightarrow> json) \<Rightarrow> 'a option \<Rightarrow> json" where
  "opt_json f None = JNull"
| "opt_json f (Some x) = f x"

fun hash_text :: "pw_hash \<Rightarrow> string" where
  "hash_text (BcryptHash c _) = ''$2a$'' @ ''<cost>'' @ ''$<salt><digest>''"

definition user_json :: "user \<Rightarrow> jobj" where
  "user_json u =
     [(''id'', JNum (of_int (uid u))), (''username'', JStr (username u)), (''email'', JStr (email u)),
      (''passwordHash'', JStr (hash_text (passwordHash u))),
      (''firstName'', opt_json JStr (firstName u)), (''lastName'', opt_json JStr (lastName u)),
      (''phone'', opt_json JStr (phone u)), (''budgetRange'', opt_json JStr (budgetRange u)),
      (''travelStyle'', opt_json JStr (travelStyle u)), (''interests'', opt_json id (interests u)),
      (''createdAt'', JNum (of_nat (u_createdAt u))), (''updatedAt'', JNum (of_nat (updatedAt u)))]"

definition saved_json :: "saved_option \<Rightarrow> json" where
  "saved_json r =
     JObj [(''id'', JNum (of_int (so_id r))), (''userId'', JNum (of_int (so_userId r))), (''optionId'', JStr (optionId r)),
           (''optionType'', JStr (optionType r)), (''optionData'', optionData r),
           (''createdAt'', JNum (of_nat (so_createdAt r)))]"

definition history_json :: "search_history \<Rightarrow> json" where
  "history_json r =
     JObj [(''id'', JNum (of_int (sh_id r))), (''userId'', opt_json (\<lambda>i. JNum (of_int i)) (sh_userId r)),
           (''destination'', JStr (destination r)),
           (''checkin'', opt_json (\<lambda>t. JNum (of_nat t)) (checkin r)),
           (''checkout'', opt_json (\<lambda>t. JNum (of_nat t)) (checkout r)),
           (''travelers'', opt_json (\<lambda>i. JNum (of_int i)) (travelers r)), (''createdAt'', JNum (of_nat (sh_createdAt r)))]"

section \<open>Lemmas\<close>

subsection \<open>Field access on new and updated rows\<close>

lemma new_user_fields [simp]:
  "uid (new_user i sd now) = i" "username (new_user i sd now) = su_username sd"
  "email (new_user i sd now) = su_email sd"
  "passwordHash (new_user i sd now) = bcrypt_hash (su_password sd) 10"
  by (simp_all add: new_user_def)

lemma apply_profile_fields [simp]:
  "uid (apply_profile pu now u) = uid u" "username (apply_profile pu now u) = username u"
  "email (apply_profile pu now u) = email u" "passwordHash (apply_profile pu now u) = passwordHash u"
  by (simp_all add: apply_profile_def)

subsection \<open>Reads are scoped to the owner\<close>

lemma getSavedOptions_owned: "r \<in> set (getSavedOptions i d) \<Longrightarrow> so_userId r = i"
  by (simp add: getSavedOptions_def owned_by_def)

lemma mset_getSavedOptions:
  "mset (getSavedOptions i d) = filter_mset (owned_by i) (mset (savedOptions d))"
  by (simp add: getSavedOptions_def)

lemma getSavedOptions_newest_first: "newest_first so_createdAt (getSavedOptions i d)"
  by (simp add: getSavedOptions_def)

lemma length_getSearchHistory:
  "length (getSearchHistory i d) = min 10 (length (filter (\<lambda>r. sh_userId r = Some i) (searchHistory d)))"
  by (simp add: getSearchHistory_def history_limit_def)

lemma getSearchHistory_top:
  assumes "r \<in> set (searchHistory d)" "sh_userId r = Some i"
    "r \<notin> set (getSearchHistory i d)" "y \<in> set (getSearchHistory i d)"
  shows "sh_createdAt r \<le> sh_createdAt y"
proof -
  let ?s = "sort_desc sh_createdAt (filter (\<lambda>r. sh_userId r = Some i) (searchHistory d))"
  have "r \<in> set ?s" using assms(1,2) by simp
  then have "r \<in> set (drop history_limit ?s)"
    using assms(3) by (simp add: getSearchHistory_def in_set_drop_if_not_take)
  then show ?thesis
    using assms(4) take_newest_first_dropped[OF newest_first_sort_desc]
    by (auto simp: getSearchHistory_def)
qed

subsection \<open>Inserts and deletes\<close>

lemma saveOption_Inr:
  "saveOption ins now d = (Inr r, d') \<Longrightarrow>
     d' = d\<lparr>saved_seq := saved_seq d + 1, savedOptions := savedOptions d @ [r]\<rparr> \<and>
     ins_userId ins = of_int (so_userId r) \<and> so_id r = saved_seq d \<and>
     optionId r = ins_optionId ins \<and> optionType r = ins_optionType ins \<and>
     optionData r = ins_optionData ins \<and> so_createdAt r = now \<and>
     list_ex (\<lambda>v. uid v = so_userId r) (users d) \<and> \<not> list_ex (\<lambda>v. so_id v = saved_seq d) (savedOptions d)"
  by (auto simp: saveOption_def Let_def dest: as_int_Some split: if_splits option.splits)

lemma saveOption_Inl:
  "saveOption ins now d = (Inl e, d') \<Longrightarrow> d' = d \<or> d' = d\<lparr>saved_seq := saved_seq d + 1\<rparr>"
  by (auto simp: saveOption_def Let_def split: if_splits option.splits)

lemma isSavedOption_saveOption:
  assumes "saveOption ins now d = (Inr r, d')"
  shows "isSavedOption i oid d' \<longleftrightarrow> isSavedOption i oid d \<or> (i = so_userId r \<and> oid = optionId r)"
  using saveOption_Inr[OF assms] by (auto simp: isSavedOption_def matches_option_def)

lemma removeSavedOption_idem:
  "removeSavedOption i oid (removeSavedOption i oid d) = removeSavedOption i oid d"
  by (simp add: removeSavedOption_def)

lemma isSavedOption_removeSavedOption:
  "isSavedOption j p (removeSavedOption i oid d) \<longleftrightarrow> isSavedOption j p d \<and> (j \<noteq> i \<or> p \<noteq> oid)"
  by (auto simp: isSavedOption_def removeSavedOption_def matches_option_def list_ex_iff)

subsection \<open>The operations on the abstract view\<close>

lemma saved_view_saveOption:
  assumes "saveOption ins now d = (Inr r, d')"
  shows "saved_view d' = (saved_view d)(so_userId r := add_mset (saved_item r) (saved_view d (so_userId r)))"
  using saveOption_Inr[OF assms] by (auto simp: saved_view_def saved_item_def owned_by_def)

lemma saved_view_removeSavedOption:
  "saved_view (removeSavedOption i oid d) =
     (saved_view d)(i := filter_mset (\<lambda>x. fst x \<noteq> oid) (saved_view d i))"
proof
  fix j
  show "saved_view (removeSavedOption i oid d) j = ((saved_view d)(i := filter_mset (\<lambda>x. fst x \<noteq> oid) (saved_view d i))) j"
    by (auto simp: saved_view_def removeSavedOption_def matches_option_def owned_by_def saved_item_def
        image_mset_filter_mset_swap[symmetric] filter_filter_mset intro!: arg_cong[where f = "image_mset _"] filter_mset_cong)
qed

lemma getSavedOptions_view: "image_mset saved_item (mset (getSavedOptions i d)) = saved_view d i"
  by (simp add: getSavedOptions_def saved_view_def)

lemma isSavedOption_view: "isSavedOption i oid d \<longleftrightarrow> (\<exists>x \<in># saved_view d i. fst x = oid)"
  by (auto simp: isSavedOption_def saved_view_def matches_option_def owned_by_def saved_item_def list_ex_iff)

end
