(* ===== verification/Session.thy ===== *)
theory Session
  imports Storage
begin

text \<open>
  The session layer of \<open>src/server/auth.ts\<close>: \<open>setupSession\<close> installs
  express-session with \<open>resave: false\<close>, \<open>saveUninitialized: false\<close>, a 24-hour
  \<open>cookie.maxAge\<close> and no \<open>store\<close> option, so sessions live in express-session's
  default MemoryStore, a map from session id to session data. (The \<open>sessions\<close> table
  of \<open>schema.ts\<close> is declared but never used.) A request's cookie selects a stored
  session; the MemoryStore treats a session whose expiry has passed as absent and deletes
  it; a session that is used is touched, which moves its expiry 24 hours past the
  request. Because of \<open>saveUninitialized: false\<close>, a new session is stored only once a
  handler writes \<open>req.session.userId\<close>.

  The whole server state lives here too: the database, the session store, the supply
  of fresh session ids and the clock.
\<close>

record sess =
  sess_userId :: "user_id option"
  sess_expires :: timestamp

record server =
  db :: db
  sessions :: "sid \<rightharpoonup> sess"
  next_sid :: sid
  clock :: timestamp

definition init_server :: server where
  "init_server = \<lparr>db = empty_db, sessions = Map.empty, next_sid = 0, clock = 0\<rparr>"

text \<open>\<open>maxAge: 24 * 60 * 60 * 1000\<close>.\<close>

definition maxAge :: nat where
  "maxAge = 24 * 60 * 60 * 1000"

section \<open>Loading the request's session\<close>

text \<open>
  The session middleware at the start of a request: the cookie's session if the store
  has it and it has not expired (then touched), nothing otherwise (an expired session
  is removed from the store).
\<close>

definition load_session :: "sid option \<Rightarrow> server \<Rightarrow> (sid \<times> sess) option \<times> server" where
  "load_session c st =
     (case c of
        None \<Rightarrow> (None, st)
      | Some s \<Rightarrow>
          (case sessions st s of
             None \<Rightarrow> (None, st)
           | Some se \<Rightarrow>
               if clock st < sess_expires se
               then (let se' = se\<lparr>sess_expires := clock st + maxAge\<rparr>
                     in (Some (s, se'), st\<lparr>sessions := (sessions st)(s \<mapsto> se')\<rparr>))
               else (None, st\<lparr>sessions := (sessions st)(s := None)\<rparr>)))"

text \<open>\<open>req.session.userId\<close> as the handlers see it.\<close>

definition session_user :: "(sid \<times> sess) option \<Rightarrow> user_id option" where
  "session_user cur = (case cur of None \<Rightarrow> None | Some (_, se) \<Rightarrow> sess_userId se)"

section \<open>What a handler does to its session\<close>

text \<open>A handler leaves the session alone, writes \<open>req.session.userId = id\<close>, or calls
  \<open>req.session.destroy\<close>.\<close>

datatype sess_action = NoChange | SetUser user_id | Destroy

text \<open>
  The session middleware at the end of the request. Writing the user id saves the
  session: under the cookie's id when the request came with a live session (the id is
  not regenerated), under a fresh id otherwise; the cookie is (re)sent. Destroying
  removes the loaded session; with none loaded there is nothing to remove and no
  error. The result is the \<open>Set-Cookie\<close> session id, if any, and the new state.
\<close>

definition commit_session :: "(sid \<times> sess) option \<Rightarrow> sess_action \<Rightarrow> server \<Rightarrow> sid option \<times> server" where
  "commit_session cur a st =
     (case a of
        NoChange \<Rightarrow> (None, st)
      | SetUser u \<Rightarrow>
          (let se = \<lparr>sess_userId = Some u, sess_expires = clock st + maxAge\<rparr>
           in case cur of
                Some (s, _) \<Rightarrow> (Some s, st\<lparr>sessions := (sessions st)(s \<mapsto> se)\<rparr>)
              | None \<Rightarrow> (let s = next_sid st
                         in (Some s, st\<lparr>sessions := (sessions st)(s \<mapsto> se), next_sid := s + 1\<rparr>)))
      | Destroy \<Rightarrow>
          (case cur of
             Some (s, _) \<Rightarrow> (None, st\<lparr>sessions := (sessions st)(s := None)\<rparr>)
           | None \<Rightarrow> (None, st)))"

section \<open>Lemmas\<close>

lemma load_session_db [simp]: "db (snd (load_session c st)) = db st"
  by (simp add: load_session_def Let_def split: option.splits)

lemma load_session_clock [simp]: "clock (snd (load_session c st)) = clock st"
  by (simp add: load_session_def Let_def split: option.splits)

lemma load_session_next_sid [simp]: "next_sid (snd (load_session c st)) = next_sid st"
  by (simp add: load_session_def Let_def split: option.splits)

lemma commit_session_db [simp]: "db (snd (commit_session cur a st)) = db st"
  by (simp add: commit_session_def Let_def split: sess_action.splits option.splits prod.splits)

lemma commit_session_clock [simp]: "clock (snd (commit_session cur a st)) = clock st"
  by (simp add: commit_session_def Let_def split: sess_action.splits option.splits prod.splits)

lemma load_session_eqD:
  "load_session c st = (cur, st1) \<Longrightarrow> db st1 = db st \<and> clock st1 = clock st \<and> next_sid st1 = next_sid st"
  using load_session_db[of c st] load_session_clock[of c st] load_session_next_sid[of c st] by simp

lemma commit_session_eqD:
  "commit_session cur a st = (sc, st2) \<Longrightarrow> db st2 = db st \<and> clock st2 = clock st"
  using commit_session_db[of cur a st] commit_session_clock[of cur a st] by simp

text \<open>A loaded session is one the store holds under the cookie's id, live at the
  request's time.\<close>

lemma load_session_Some:
  "fst (load_session c st) = Some (s, se) \<Longrightarrow>
     c = Some s \<and> (\<exists>se0. sessions st s = Some se0 \<and> clock st < sess_expires se0 \<and>
                   se = se0\<lparr>sess_expires := clock st + maxAge\<rparr>)"
  by (auto simp: load_session_def Let_def split: option.splits if_splits)

lemma load_session_None_iff:
  "fst (load_session c st) = None \<longleftrightarrow>
     (case c of None \<Rightarrow> True
      | Some s \<Rightarrow> (case sessions st s of None \<Rightarrow> True | Some se \<Rightarrow> \<not> clock st < sess_expires se))"
  by (simp add: load_session_def Let_def split: option.splits)

lemma load_session_sessions:
  "sessions (snd (load_session c st)) s' \<noteq> None \<Longrightarrow> sessions st s' \<noteq> None"
  by (auto simp: load_session_def Let_def split: option.splits if_splits)

lemma commit_session_SetUser:
  "\<exists>s. fst (commit_session cur (SetUser u) st) = Some s \<and>
       sessions (snd (commit_session cur (SetUser u) st)) s = Some \<lparr>sess_userId = Some u, sess_expires = clock st + maxAge\<rparr>"
  by (auto simp: commit_session_def Let_def split: option.splits prod.splits)

end
