(* ===== verification/Auth.thy ===== *)
theory Auth
  imports Session
begin

text \<open>
  \<open>src/server/auth.ts\<close> after the session set-up: the \<open>isAuthenticated\<close> gate and
  the four handlers of \<open>setupAuthRoutes\<close>. A handler is a function of the request's
  clock, the session's \<open>userId\<close>, the parsed body and the database, returning the
  response (status and JSON body), what it does to the session, and the new database.
  The \<open>try\<close>/\<open>catch\<close> of each handler is the case split on the zod result and on
  the storage result; every \<open>return res.status(...)\<close> is a branch.
\<close>

type_synonym reply = "nat \<times> json"
type_synonym hresult = "reply \<times> sess_action \<times> db"
type_synonym handler = "timestamp \<Rightarrow> user_id option \<Rightarrow> jobj \<Rightarrow> db \<Rightarrow> hresult"

section \<open>Response bodies\<close>

definition msg_json :: "string \<Rightarrow> json" where
  "msg_json m = JObj [(''message'', JStr m)]"

fun issue_json :: "zissue \<Rightarrow> json" where
  "issue_json (ZIssue p m) = JObj [(''path'', JArr [JStr p]), (''message'', JStr m)]"

text \<open>\<open>res.status(400).json({ message: "Invalid data", errors: error.errors })\<close>.\<close>

definition invalid_data :: "zissue list \<Rightarrow> reply" where
  "invalid_data is = (400, JObj [(''message'', JStr ''Invalid data''), (''errors'', JArr (map issue_json is))])"

text \<open>\<open>const { passwordHash, ...userWithoutPassword } = user\<close>.\<close>

definition user_without_password :: "user \<Rightarrow> json" where
  "user_without_password u = JObj (omit_key ''passwordHash'' (user_json u))"

section \<open>The gate\<close>

text \<open>\<open>if (req.session.userId) return next(); res.status(401)...\<close>: the test is
  JavaScript truthiness of a number, false for \<open>undefined\<close> and for \<open>0\<close>.\<close>

definition isAuthenticated :: "user_id option \<Rightarrow> bool" where
  "isAuthenticated su = (case su of None \<Rightarrow> False | Some u \<Rightarrow> u \<noteq> 0)"

definition unauthorized :: "db \<Rightarrow> hresult" where
  "unauthorized d = ((401, msg_json ''Unauthorized''), NoChange, d)"

text \<open>A route registered as \<open>app.METHOD(path, isAuthenticated, h)\<close>: the handler runs
  with the session's user id only when the gate calls \<open>next()\<close>.\<close>

definition gated :: "(timestamp \<Rightarrow> user_id \<Rightarrow> jobj \<Rightarrow> db \<Rightarrow> hresult) \<Rightarrow> handler" where
  "gated h now su b d =
     (case su of
        None \<Rightarrow> unauthorized d
      | Some u \<Rightarrow> if u \<noteq> 0 then h now u b d else unauthorized d)"

section \<open>The handlers\<close>

text \<open>\<open>POST /api/auth/signup\<close>.\<close>

definition signup_handler :: handler where
  "signup_handler now su b d =
     (case signUpSchema_parse b of
        Inl is \<Rightarrow> (invalid_data is, NoChange, d)
      | Inr sd \<Rightarrow>
          (case getUserByUsername (su_username sd) d of
             Some _ \<Rightarrow> ((400, msg_json ''Username already exists''), NoChange, d)
           | None \<Rightarrow>
               (case createUser sd now d of
                  (Inl _, d') \<Rightarrow> ((500, msg_json ''Failed to create account''), NoChange, d')
                | (Inr u, d') \<Rightarrow> ((200, user_without_password u), SetUser (uid u), d'))))"

text \<open>\<open>POST /api/auth/signin\<close>.\<close>

definition invalid_credentials :: reply where
  "invalid_credentials = (401, msg_json ''Invalid username or password'')"

definition signin_handler :: handler where
  "signin_handler now su b d =
     (case signInSchema_parse b of
        Inl is \<Rightarrow> (invalid_data is, NoChange, d)
      | Inr si \<Rightarrow>
          (case getUserByUsername (si_username si) d of
             None \<Rightarrow> (invalid_credentials, NoChange, d)
           | Some u \<Rightarrow>
               if \<not> bcrypt_compare (si_password si) (passwordHash u)
               then (invalid_credentials, NoChange, d)
               else ((200, user_without_password u), SetUser (uid u), d)))"

text \<open>\<open>GET /api/auth/user\<close>, behind the gate.\<close>

definition getUser_handler :: "timestamp \<Rightarrow> user_id \<Rightarrow> jobj \<Rightarrow> db \<Rightarrow> hresult" where
  "getUser_handler now u b d =
     (case getUserById u d of
        None \<Rightarrow> ((404, msg_json ''User not found''), NoChange, d)
      | Some usr \<Rightarrow> ((200, user_without_password usr), NoChange, d))"

text \<open>\<open>POST /api/auth/signout\<close>, not behind the gate. The MemoryStore's \<open>destroy\<close>
  never reports an error, so the \<open>500\<close> branch of the callback is not reachable.\<close>

definition signout_handler :: handler where
  "signout_handler now su b d = ((200, msg_json ''Signed out successfully''), Destroy, d)"

text \<open>A response body that does not carry the \<open>passwordHash\<close> key.\<close>

definition hides_hash :: "json \<Rightarrow> bool" where
  "hides_hash j = (case j of JObj obj \<Rightarrow> ''passwordHash'' \<notin> fst ` set obj | _ \<Rightarrow> True)"

section \<open>Example data\<close>

text \<open>A sign-up payload, the request bodies the client's forms send, and the database
  after that sign-up; the witnesses below run the handlers on them.\<close>

definition alice :: signup_data where
  "alice = \<lparr>su_username = ''alice'', su_email = ''alice@example.com'', su_password = ''secret1'',
            su_firstName = ''Alice'', su_lastName = ''Liddell''\<rparr>"

definition signup_body :: "signup_data \<Rightarrow> jobj" where
  "signup_body sd =
     [(''username'', JStr (su_username sd)), (''email'', JStr (su_email sd)),
      (''password'', JStr (su_password sd)), (''firstName'', JStr (su_firstName sd)),
      (''lastName'', JStr (su_lastName sd))]"

definition signin_body :: "string \<Rightarrow> string \<Rightarrow> jobj" where
  "signin_body u p = [(''username'', JStr u), (''password'', JStr p)]"

definition alice_db :: db where
  "alice_db = snd (createUser alice 0 empty_db)"

section \<open>Lemmas\<close>

lemma user_without_password_keys:
  "user_without_password u = JObj obj \<Longrightarrow> ''passwordHash'' \<notin> fst ` set obj"
  by (auto simp: user_without_password_def omit_key_def)

lemma gated_unauth: "\<not> isAuthenticated su \<Longrightarrow> gated h now su b d = unauthorized d"
  by (auto simp: gated_def isAuthenticated_def split: option.splits)

lemma gated_auth: "isAuthenticated su \<Longrightarrow> gated h now su b d = h now (the su) b d"
  by (auto simp: gated_def isAuthenticated_def split: option.splits)

lemmas reply_defs = msg_json_def invalid_data_def invalid_credentials_def unauthorized_def

lemmas schema_simps = signUpSchema_parse_def signInSchema_parse_def z_string_min_def z_email_def
  zod_email_def email_local_ok_def email_domain_ok_def domain_label_ok_def
  is_alnum_def is_letter_def is_digit_def

lemma hides_hash_msg [simp]: "hides_hash (msg_json m)"
  by (simp add: hides_hash_def msg_json_def)

lemma hides_hash_invalid_data [simp]: "hides_hash (snd (invalid_data is))"
  by (simp add: hides_hash_def invalid_data_def)

lemma hides_hash_invalid_credentials [simp]: "hides_hash (snd invalid_credentials)"
  by (simp add: invalid_credentials_def)

lemma hides_hash_user_without_password [simp]: "hides_hash (user_without_password u)"
  by (auto simp: hides_hash_def user_without_password_def omit_key_def)

lemma alice_db_eq:
  "alice_db = \<lparr>users = [new_user 1 alice 0], savedOptions = [], searchHistory = [],
               users_seq = 2, saved_seq = 1, history_seq = 1\<rparr>"
  by (simp add: alice_db_def createUser_def empty_db_def Let_def)

lemma alice_user_eq:
  "new_user 1 alice 0 =
     \<lparr>uid = 1, username = ''alice'', email = ''alice@example.com'', passwordHash = BcryptHash 10 ''secret1'',
      firstName = Some ''Alice'', lastName = Some ''Liddell'', phone = None, budgetRange = None,
      travelStyle = None, interests = None, u_createdAt = 0, updatedAt = 0\<rparr>"
  by (simp add: new_user_def alice_def bcrypt_hash_def)

lemma parse_signup_body_alice: "signUpSchema_parse (signup_body alice) = Inr alice"
  by (simp add: schema_simps signup_body_def alice_def)

subsection \<open>Properties of the handlers\<close>

text \<open>C6: Sign-in fails with the same response, status 401 and the message
  ``Invalid username or password'', and changes nothing, whether the username is unknown
  or the password is wrong, so the response does not reveal which usernames exist.\<close>

theorem signin_failure_indistinguishable:
  assumes "signInSchema_parse b = Inr si"
    and "getUserByUsername (si_username si) d = None \<or>
         (\<exists>u. getUserByUsername (si_username si) d = Some u \<and> \<not> bcrypt_compare (si_password si) (passwordHash u))"
  shows "signin_handler now su b d = ((401, msg_json ''Invalid username or password''), NoChange, d)"
  using assms by (auto simp: signin_handler_def invalid_credentials_def)

theorem signin_failure_indistinguishable_witness:
  "signin_handler 5 None (signin_body ''alice'' ''wrongpw'') alice_db =
     ((401, msg_json ''Invalid username or password''), NoChange, alice_db)"
  by (rule signin_failure_indistinguishable[where si = "\<lparr>si_username = ''alice'', si_password = ''wrongpw''\<rparr>"])
     (simp_all add: schema_simps signin_body_def alice_db_eq getUserByUsername_def alice_user_eq)

text \<open>C7: A sign-up whose username is taken is refused with status 400 and the message
  ``Username already exists'', whatever the email, and changes nothing.\<close>

theorem signup_duplicate_username:
  assumes "signUpSchema_parse b = Inr sd" and "getUserByUsername (su_username sd) d \<noteq> None"
  shows "signup_handler now su b d = ((400, msg_json ''Username already exists''), NoChange, d)"
  using assms by (auto simp: signup_handler_def)

theorem signup_duplicate_username_witness:
  "signup_handler 7 None (signup_body (alice\<lparr>su_email := ''other@example.org''\<rparr>)) alice_db =
     ((400, msg_json ''Username already exists''), NoChange, alice_db)"
  by (rule signup_duplicate_username[where sd = "alice\<lparr>su_email := ''other@example.org''\<rparr>"])
     (simp_all add: schema_simps signup_body_def alice_def alice_db_eq getUserByUsername_def new_user_def)

text \<open>C8: No response of sign-up, sign-in or the current-user route carries the
  password hash: every JSON object these handlers send lacks the \<open>passwordHash\<close> key.\<close>

theorem auth_responses_hide_hash:
  "hides_hash (snd (fst (signup_handler now su b d))) \<and>
   hides_hash (snd (fst (signin_handler now su b d))) \<and>
   hides_hash (snd (fst (gated getUser_handler now su b d)))"
  by (simp add: signup_handler_def signin_handler_def getUser_handler_def gated_def unauthorized_def
      split: sum.split option.split prod.split)

text \<open>C25: A sign-up with a free username but an email that is already registered is
  not reported as a conflict: the database's unique constraint fails inside
  \<open>createUser\<close>, the handler answers 500 ``Failed to create account'', and the users
  sequence has still advanced.\<close>

theorem signup_duplicate_email_500:
  assumes "signUpSchema_parse b = Inr sd" and "getUserByUsername (su_username sd) d = None"
    and "list_ex (\<lambda>v. email v = su_email sd) (users d)"
  shows "signup_handler now su b d =
           ((500, msg_json ''Failed to create account''), NoChange, d\<lparr>users_seq := users_seq d + 1\<rparr>)"
  using assms by (simp add: signup_handler_def createUser_def new_user_def Let_def)

theorem signup_duplicate_email_500_witness:
  "signup_handler 9 None (signup_body (alice\<lparr>su_username := ''bob''\<rparr>)) alice_db =
     ((500, msg_json ''Failed to create account''), NoChange, alice_db\<lparr>users_seq := 3\<rparr>)"
  using signup_duplicate_email_500[of "signup_body (alice\<lparr>su_username := ''bob''\<rparr>)"
          "alice\<lparr>su_username := ''bob''\<rparr>" alice_db 9 None]
  by (simp add: schema_simps signup_body_def alice_def alice_db_eq getUserByUsername_def new_user_def)


end
