(* ===== verification/Routes.thy ===== *)
theory Routes
  imports Auth
begin

text \<open>
  \<open>src/server/routes.ts\<close>: the profile, saved-option and search-history handlers,
  each registered behind \<open>isAuthenticated\<close> and reading the user id from
  \<open>req.session.userId\<close>; then the route table of the whole API (these routes and the
  ones of \<open>setupAuthRoutes\<close>) and one request served end to end: the session is
  loaded, the route's handler runs (behind the gate where the route has it), the session
  is saved or destroyed.
\<close>

section \<open>Handlers\<close>

text \<open>\<open>PATCH /api/user/profile\<close>. The updated row is sent as it is:
  \<open>res.json(updatedUser)\<close>, with no \<open>passwordHash\<close> removal. When no row has the id,
  \<open>const [user]\<close> is \<open>undefined\<close> and \<open>res.json(undefined)\<close> sends an empty body,
  written \<open>JNull\<close> here.\<close>

definition profile_handler :: "timestamp \<Rightarrow> user_id \<Rightarrow> jobj \<Rightarrow> db \<Rightarrow> hresult" where
  "profile_handler now u b d =
     (case updateUserProfileSchema_parse b of
        Inl is \<Rightarrow> (invalid_data is, NoChange, d)
      | Inr pu \<Rightarrow>
          (case updateUserProfile u pu now d of
             (r, d') \<Rightarrow> ((200, opt_json (\<lambda>usr. JObj (user_json usr)) r), NoChange, d')))"

text \<open>\<open>GET /api/saved-options\<close>.\<close>

definition getSaved_handler :: "timestamp \<Rightarrow> user_id \<Rightarrow> jobj \<Rightarrow> db \<Rightarrow> hresult" where
  "getSaved_handler now u b d = ((200, JArr (map saved_json (getSavedOptions u d))), NoChange, d)"

text \<open>\<open>POST /api/saved-options\<close>: the body is validated as \<open>{...req.body, userId}\<close>,
  so the session's id overrides any \<open>userId\<close> the client sent.\<close>

definition postSaved_handler :: "timestamp \<Rightarrow> user_id \<Rightarrow> jobj \<Rightarrow> db \<Rightarrow> hresult" where
  "postSaved_handler now u b d =
     (case insertSavedOptionSchema_parse (spread_with b ''userId'' (JNum (of_int u))) of
        Inl is \<Rightarrow> (invalid_data is, NoChange, d)
      | Inr ins \<Rightarrow>
          (case saveOption ins now d of
             (Inl _, d') \<Rightarrow> ((500, msg_json ''Failed to save option''), NoChange, d')
           | (Inr r, d') \<Rightarrow> ((200, saved_json r), NoChange, d')))"

text \<open>\<open>DELETE /api/saved-options/:optionId\<close>.\<close>

definition deleteSaved_handler :: "string \<Rightarrow> timestamp \<Rightarrow> user_id \<Rightarrow> jobj \<Rightarrow> db \<Rightarrow> hresult" where
  "deleteSaved_handler oid now u b d =
     ((200, JObj [(''success'', JBool True)]), NoChange, removeSavedOption u oid d)"

text \<open>\<open>GET /api/saved-options/:optionId/check\<close>.\<close>

definition checkSaved_handler :: "string \<Rightarrow> timestamp \<Rightarrow> user_id \<Rightarrow> jobj \<Rightarrow> db \<Rightarrow> hresult" where
  "checkSaved_handler oid now u b d =
     ((200, JObj [(''isSaved'', JBool (isSavedOption u oid d))]), NoChange, d)"

text \<open>\<open>GET /api/search-history\<close>.\<close>

definition getHistory_handler :: "timestamp \<Rightarrow> user_id \<Rightarrow> jobj \<Rightarrow> db \<Rightarrow> hresult" where
  "getHistory_handler now u b d = ((200, JArr (map history_json (getSearchHistory u d))), NoChange, d)"

text \<open>\<open>POST /api/search-history\<close>, validated as \<open>{...req.body, userId}\<close>.\<close>

definition postHistory_handler :: "timestamp \<Rightarrow> user_id \<Rightarrow> jobj \<Rightarrow> db \<Rightarrow> hresult" where
  "postHistory_handler now u b d =
     (case insertSearchHistorySchema_parse (spread_with b ''userId'' (JNum (of_int u))) of
        Inl is \<Rightarrow> (invalid_data is, NoChange, d)
      | Inr hi \<Rightarrow>
          (case saveSearchHistory hi now d of
             (Inl _, d') \<Rightarrow> ((500, msg_json ''Failed to save search history''), NoChange, d')
           | (Inr r, d') \<Rightarrow> ((200, history_json r), NoChange, d')))"

section \<open>The route table\<close>

datatype route =
    SignUp | SignIn | GetAuthUser | SignOut
  | PatchProfile
  | GetSavedOptions | PostSavedOption | DeleteSavedOption string | CheckSavedOption string
  | GetSearchHistory | PostSearchHistory

text \<open>The registration of each route, with \<open>isAuthenticated\<close> where the source puts it.\<close>

fun handle :: "route \<Rightarrow> handler" where
  "handle SignUp = signup_handler"
| "handle SignIn = signin_handler"
| "handle GetAuthUser = gated getUser_handler"
| "handle SignOut = signout_handler"
| "handle PatchProfile = gated profile_handler"
| "handle GetSavedOptions = gated getSaved_handler"
| "handle PostSavedOption = gated postSaved_handler"
| "handle (DeleteSavedOption oid) = gated (deleteSaved_handler oid)"
| "handle (CheckSavedOption oid) = gated (checkSaved_handler oid)"
| "handle GetSearchHistory = gated getHistory_handler"
| "handle PostSearchHistory = gated postHistory_handler"

fun is_gated :: "route \<Rightarrow> bool" where
  "is_gated SignUp = False"
| "is_gated SignIn = False"
| "is_gated SignOut = False"
| "is_gated _ = True"

text \<open>
  Express's dispatch of a request line to the registered paths (the
  \<open>app.post/get/patch/delete(path, ...)\<close> calls of \<open>routes.ts\<close> and of
  \<open>setupAuthRoutes\<close> in \<open>auth.ts\<close>). A path is split at its slashes; with Express's
  default non-strict routing one trailing slash is ignored; a \<open>:optionId\<close> parameter
  matches one non-empty segment. A request line that matches no route gets no handler
  of the API. (Express also matches case-insensitively and percent-decodes parameters;
  the model compares exactly, which is the same for the lower-case paths and the
  alphanumeric option ids the client sends.)
\<close>

definition path_segments :: "string \<Rightarrow> string list option" where
  "path_segments p =
     (case p of
        c # q \<Rightarrow> if c = CHR ''/'' then
                   Some (let ws = split_on (CHR ''/'') q
                         in if 1 < length ws \<and> last ws = [] then butlast ws else ws)
                 else None
      | [] \<Rightarrow> None)"

definition fixed_routes :: "((string \<times> string list) \<times> route) list" where
  "fixed_routes =
     [((''POST'', [''api'', ''auth'', ''signup'']), SignUp),
      ((''POST'', [''api'', ''auth'', ''signin'']), SignIn),
      ((''GET'', [''api'', ''auth'', ''user'']), GetAuthUser),
      ((''POST'', [''api'', ''auth'', ''signout'']), SignOut),
      ((''PATCH'', [''api'', ''user'', ''profile'']), PatchProfile),
      ((''GET'', [''api'', ''saved-options'']), GetSavedOptions),
      ((''POST'', [''api'', ''saved-options'']), PostSavedOption),
      ((''GET'', [''api'', ''search-history'']), GetSearchHistory),
      ((''POST'', [''api'', ''search-history'']), PostSearchHistory)]"

fun param_route :: "string \<Rightarrow> string list \<Rightarrow> route option" where
  "param_route m [a, s, oid] =
     (if m = ''DELETE'' \<and> a = ''api'' \<and> s = ''saved-options'' \<and> oid \<noteq> []
      then Some (DeleteSavedOption oid) else None)"
| "param_route m [a, s, oid, c] =
     (if m = ''GET'' \<and> a = ''api'' \<and> s = ''saved-options'' \<and> oid \<noteq> [] \<and> c = ''check''
      then Some (CheckSavedOption oid) else None)"
| "param_route m _ = None"

definition route_of :: "string \<Rightarrow> string \<Rightarrow> route option" where
  "route_of m p =
     (case path_segments p of
        None \<Rightarrow> None
      | Some ws \<Rightarrow> (case map_of fixed_routes (m, ws) of Some r \<Rightarrow> Some r | None \<Rightarrow> param_route m ws))"

section \<open>Serving one request\<close>

record request =
  rq_cookie :: "sid option"
  rq_route :: route
  rq_body :: jobj

record response =
  status :: nat
  payload :: json
  set_cookie :: "sid option"

definition serve :: "request \<Rightarrow> server \<Rightarrow> response \<times> server" where
  "serve rq st =
     (case load_session (rq_cookie rq) st of
        (cur, st1) \<Rightarrow>
          (case handle (rq_route rq) (clock st1) (session_user cur) (rq_body rq) (db st1) of
             ((c, j), a, d') \<Rightarrow>
               (case commit_session cur a (st1\<lparr>db := d'\<rparr>) of
                  (sc, st2) \<Rightarrow> (\<lparr>status = c, payload = j, set_cookie = sc\<rparr>, st2))))"

text \<open>The credentials of a user row, which the profile route must never change.\<close>

definition credentials :: "user \<Rightarrow> user_id \<times> string \<times> string \<times> pw_hash" where
  "credentials u = (uid u, username u, email u, passwordHash u)"

text \<open>The state after a sign-out with cookie \<open>c\<close>: the cookie's session is gone.\<close>

definition drop_session :: "sid option \<Rightarrow> server \<Rightarrow> server" where
  "drop_session c st = (case c of None \<Rightarrow> st | Some s \<Rightarrow> st\<lparr>sessions := (sessions st)(s := None)\<rparr>)"

text \<open>An example request body: saving the first hotel of the search results.\<close>

definition hotel1_body :: jobj where
  "hotel1_body = [(''optionId'', JStr ''hotel1''), (''optionType'', JStr ''hotel''),
                  (''optionData'', JObj [(''id'', JStr ''hotel1''), (''name'', JStr ''Le Grand Hotel'')])]"

section \<open>Lemmas\<close>

lemma handle_gated: "is_gated r \<Longrightarrow> \<exists>h. handle r = gated h"
  by (cases r) auto

text \<open>\<open>serve\<close> in terms of its three stages.\<close>

lemma serve_eq:
  assumes "load_session (rq_cookie rq) st = (cur, st1)"
    and "handle (rq_route rq) (clock st) (session_user cur) (rq_body rq) (db st) = ((c, j), a, d')"
    and "commit_session cur a (st1\<lparr>db := d'\<rparr>) = (sc, st2)"
  shows "serve rq st = (\<lparr>status = c, payload = j, set_cookie = sc\<rparr>, st2)"
proof -
  have "clock st1 = clock st" "db st1 = db st"
    using load_session_clock[of "rq_cookie rq" st] load_session_db[of "rq_cookie rq" st] assms(1)
    by simp_all
  then show ?thesis
    using assms by (simp add: serve_def)
qed

lemma serve_db:
  "db (snd (serve rq st)) =
     snd (snd (handle (rq_route rq) (clock st) (session_user (fst (load_session (rq_cookie rq) st)))
                 (rq_body rq) (db st)))"
  by (auto simp: serve_def split: prod.splits dest!: load_session_eqD commit_session_eqD)

lemma serve_status:
  "status (fst (serve rq st)) =
     fst (fst (handle (rq_route rq) (clock st) (session_user (fst (load_session (rq_cookie rq) st)))
                 (rq_body rq) (db st)))"
  by (auto simp: serve_def split: prod.splits dest!: load_session_eqD)

lemma serve_clock [simp]: "clock (snd (serve rq st)) = clock st"
  by (auto simp: serve_def split: prod.splits dest!: load_session_eqD commit_session_eqD)

lemma insertSavedOptionSchema_parse_cong:
  "jget b = jget b' \<Longrightarrow> insertSavedOptionSchema_parse b = insertSavedOptionSchema_parse b'"
  by (simp add: insertSavedOptionSchema_parse_def)

lemma insertSavedOptionSchema_parse_Inr:
  "insertSavedOptionSchema_parse b = Inr ins \<Longrightarrow>
     jget b ''userId'' = Some (JNum (ins_userId ins)) \<and> jget b ''optionId'' = Some (JStr (ins_optionId ins)) \<and>
     jget b ''optionType'' = Some (JStr (ins_optionType ins)) \<and> jget b ''optionData'' = Some (ins_optionData ins)"
  unfolding insertSavedOptionSchema_parse_def Let_def
  by (auto split: sum.splits elim!: z_number.elims z_string.elims z_json.elims)

lemma postSaved_handler_200:
  assumes "postSaved_handler now u b d = ((200, j), a, d')"
  obtains ins r where "insertSavedOptionSchema_parse (spread_with b ''userId'' (JNum (of_int u))) = Inr ins"
    and "saveOption ins now d = (Inr r, d')" and "so_userId r = u"
    and "jget b ''optionId'' = Some (JStr (optionId r))"
proof -
  obtain ins r where p: "insertSavedOptionSchema_parse (spread_with b ''userId'' (JNum (of_int u))) = Inr ins"
    and s: "saveOption ins now d = (Inr r, d')"
    using assms by (auto simp: postSaved_handler_def invalid_data_def msg_json_def split: sum.splits prod.splits)
  have "so_userId r = u" and "jget b ''optionId'' = Some (JStr (optionId r))"
    using insertSavedOptionSchema_parse_Inr[OF p] saveOption_Inr[OF s] by auto
  with p s that show ?thesis by blast
qed

lemma updateUserProfileSchema_empty_first:
  "jget b ''firstName'' = Some (JStr []) \<Longrightarrow> \<exists>is. updateUserProfileSchema_parse b = Inl is"
  by (simp add: updateUserProfileSchema_parse_def z_string_min_def Let_def)

lemma credentials_apply_profile [simp]: "credentials (apply_profile pu now u) = credentials u"
  by (simp add: credentials_def apply_profile_def)

lemma updateUserProfile_credentials:
  "map credentials (users (snd (updateUserProfile i pu now d))) = map credentials (users d)"
  by (simp add: updateUserProfile_def Let_def)

lemma profile_handler_Inl:
  "updateUserProfileSchema_parse b = Inl is \<Longrightarrow> profile_handler now u b d = (invalid_data is, NoChange, d)"
  by (simp add: profile_handler_def)

lemma profile_handler_Inr:
  "updateUserProfileSchema_parse b = Inr pu \<Longrightarrow>
     profile_handler now u b d =
       ((200, opt_json (\<lambda>usr. JObj (user_json usr)) (fst (updateUserProfile u pu now d))), NoChange,
        snd (updateUserProfile u pu now d))"
  by (simp add: profile_handler_def split: prod.split)

lemma handle_unauth:
  "is_gated r \<Longrightarrow> \<not> isAuthenticated su \<Longrightarrow> handle r now su b d = unauthorized d"
  using handle_gated gated_unauth by metis

lemma serve_signout:
  assumes "rq_route rq = SignOut"
  shows "serve rq st = (\<lparr>status = 200, payload = msg_json ''Signed out successfully'', set_cookie = None\<rparr>,
                        drop_session (rq_cookie rq) st)"
  using assms
  by (auto simp: serve_def load_session_def commit_session_def signout_handler_def drop_session_def Let_def
      fun_upd_idem split: option.splits)

lemma signin_handler_200:
  "fst (fst (signin_handler now su b d)) = 200 \<Longrightarrow> \<exists>u. fst (snd (signin_handler now su b d)) = SetUser u"
  by (auto simp: signin_handler_def invalid_data_def invalid_credentials_def split: sum.splits option.splits)

subsection \<open>Properties of the routes\<close>

text \<open>C4: A successful \<open>POST /api/saved-options\<close> stores the option for the session's
  user: afterwards the check route reports it saved for that user, and for every other
  user every check answers as before.\<close>

theorem postSaved_scoped:
  assumes "postSaved_handler now u b d = ((200, j), a, d')"
    and "jget b ''optionId'' = Some (JStr oid)"
  shows "isSavedOption u oid d' \<and> (\<forall>v p. v \<noteq> u \<longrightarrow> isSavedOption v p d' = isSavedOption v p d)"
proof -
  obtain ins r where s: "saveOption ins now d = (Inr r, d')" and u: "so_userId r = u"
    and o: "jget b ''optionId'' = Some (JStr (optionId r))"
    using postSaved_handler_200[OF assms(1)] by blast
  show ?thesis
    using isSavedOption_saveOption[OF s] u o assms(2) by auto
qed

theorem postSaved_scoped_witness:
  "isSavedOption 1 ''hotel1'' (snd (snd (postSaved_handler 10 1 hotel1_body alice_db))) \<and>
   \<not> isSavedOption 2 ''hotel1'' (snd (snd (postSaved_handler 10 1 hotel1_body alice_db)))"
  using postSaved_scoped[of 10 1 hotel1_body alice_db "snd (fst (postSaved_handler 10 1 hotel1_body alice_db))"
          NoChange "snd (snd (postSaved_handler 10 1 hotel1_body alice_db))" "''hotel1''"]
  by (simp add: postSaved_handler_def insertSavedOptionSchema_parse_def hotel1_body_def alice_db_eq
      saveOption_def isSavedOption_def matches_option_def Let_def)

text \<open>C5: The saved-option route ignores any \<open>userId\<close> in the request body: its whole
  result is the same as for the body without it, since \<open>{...req.body, userId}\<close> puts the
  session's id last.\<close>

theorem postSaved_ignores_client_userId:
  "postSaved_handler now u (jset ''userId'' x b) d = postSaved_handler now u b d"
proof -
  have "jget (spread_with (jset ''userId'' x b) ''userId'' (JNum (of_int u))) = jget (spread_with b ''userId'' (JNum (of_int u)))"
    by (rule ext) simp
  then have "insertSavedOptionSchema_parse (spread_with (jset ''userId'' x b) ''userId'' (JNum (of_int u))) =
             insertSavedOptionSchema_parse (spread_with b ''userId'' (JNum (of_int u)))"
    by (rule insertSavedOptionSchema_parse_cong)
  then show ?thesis
    by (simp only: postSaved_handler_def)
qed

text \<open>C18: Deleting a saved option answers \<open>{success: true}\<close>; deleting it again answers
  the same and changes nothing, and afterwards the option is not saved for that user.\<close>

theorem deleteSaved_idempotent:
  "(case deleteSaved_handler oid now u b d of (r, a, d1) \<Rightarrow>
      r = (200, JObj [(''success'', JBool True)]) \<and> deleteSaved_handler oid now u b d1 = (r, a, d1) \<and>
      \<not> isSavedOption u oid d1)"
  by (simp add: deleteSaved_handler_def removeSavedOption_idem isSavedOption_removeSavedOption)

text \<open>C26: A profile update whose \<open>firstName\<close> is the empty string is refused with 400 and
  leaves the database unchanged.\<close>

theorem profile_empty_first_name_rejected:
  assumes "jget b ''firstName'' = Some (JStr [])"
  shows "fst (fst (profile_handler now u b d)) = 400 \<and> snd (snd (profile_handler now u b d)) = d"
  using updateUserProfileSchema_empty_first[OF assms]
  by (auto simp: profile_handler_def invalid_data_def)

theorem profile_empty_first_name_rejected_witness:
  "fst (fst (profile_handler 3 1 [(''firstName'', JStr ''''), (''lastName'', JStr ''L'')] alice_db)) = 400 \<and>
   snd (snd (profile_handler 3 1 [(''firstName'', JStr ''''), (''lastName'', JStr ''L'')] alice_db)) = alice_db"
  by (rule profile_empty_first_name_rejected) simp


text \<open>C28: The profile route never changes the id, username, email or password hash of any
  user.\<close>

theorem profile_keeps_credentials:
  "map credentials (users (snd (snd (profile_handler now u b d)))) = map credentials (users d)"
  by (cases "updateUserProfileSchema_parse b")
     (simp_all add: profile_handler_Inl profile_handler_Inr updateUserProfile_credentials)

text \<open>C9: The profile route answers with the full updated row, password hash included:
  every JSON object it sends with status 200 has the \<open>passwordHash\<close> key.\<close>

theorem profile_response_exposes_hash:
  assumes "profile_handler now u b d = ((200, JObj obj), a, d')"
  shows "''passwordHash'' \<in> fst ` set obj"
proof (cases "updateUserProfileSchema_parse b")
  case (Inl errs)
  then show ?thesis
    using assms by (simp add: profile_handler_Inl invalid_data_def)
next
  case (Inr pu)
  then show ?thesis
    using assms by (cases "fst (updateUserProfile u pu now d)") (auto simp: profile_handler_Inr user_json_def)
qed

theorem profile_response_exposes_hash_witness:
  "''passwordHash'' \<in> fst ` set (user_json (apply_profile
      \<lparr>pu_firstName = ''A'', pu_lastName = ''L'', pu_phone = Keep, pu_budgetRange = Keep,
       pu_travelStyle = Keep, pu_interests = Keep\<rparr> 4 (new_user 1 alice 0)))"
  using profile_response_exposes_hash[of 4 1 "[(''firstName'', JStr ''A''), (''lastName'', JStr ''L'')]" alice_db
          "user_json (apply_profile \<lparr>pu_firstName = ''A'', pu_lastName = ''L'', pu_phone = Keep,
             pu_budgetRange = Keep, pu_travelStyle = Keep, pu_interests = Keep\<rparr> 4 (new_user 1 alice 0))"
          NoChange "snd (updateUserProfile 1 \<lparr>pu_firstName = ''A'', pu_lastName = ''L'', pu_phone = Keep,
             pu_budgetRange = Keep, pu_travelStyle = Keep, pu_interests = Keep\<rparr> 4 alice_db)"]
  by (simp add: profile_handler_def updateUserProfileSchema_parse_def z_string_min_def updateUserProfile_def
      alice_db_eq Let_def)

text \<open>C23: Sign-out always answers 200 (``Signed out successfully''), also without a
  session; signing out again gives the same answer and the same state as the first
  sign-out.\<close>

theorem signout_idempotent:
  assumes "rq_route rq = SignOut"
  shows "status (fst (serve rq st)) = 200 \<and> serve rq (snd (serve rq st)) = serve rq st"
  using assms by (simp add: serve_signout drop_session_def split: option.split)

theorem signout_idempotent_witness:
  "status (fst (serve \<lparr>rq_cookie = Some 0, rq_route = SignOut, rq_body = []\<rparr> init_server)) = 200"
  using signout_idempotent[of "\<lparr>rq_cookie = Some 0, rq_route = SignOut, rq_body = []\<rparr>" init_server] by simp

text \<open>C24: Signing in with a live session keeps its session id: the successful response
  sets the cookie to the same id, now bound to the signed-in user; the id is not
  regenerated.\<close>

theorem signin_keeps_session_id:
  assumes "rq_route rq = SignIn" and "rq_cookie rq = Some s"
    and "sessions st s = Some se" and "clock st < sess_expires se"
    and "status (fst (serve rq st)) = 200"
  shows "set_cookie (fst (serve rq st)) = Some s"
proof -
  let ?se' = "se\<lparr>sess_expires := clock st + maxAge\<rparr>"
  have l: "load_session (rq_cookie rq) st = (Some (s, ?se'), st\<lparr>sessions := (sessions st)(s \<mapsto> ?se')\<rparr>)"
    using assms(2-4) by (simp add: load_session_def Let_def)
  obtain c j a d' where h: "signin_handler (clock st) (sess_userId se) (rq_body rq) (db st) = ((c, j), a, d')"
    by (metis prod.exhaust)
  have "c = 200"
    using assms(1,5) l h by (simp add: serve_def session_user_def split: prod.splits)
  then obtain u where "a = SetUser u"
    using signin_handler_200[of "clock st" "sess_userId se" "rq_body rq" "db st"] h by auto
  then show ?thesis
    using assms(1) l h by (simp add: serve_def session_user_def commit_session_def Let_def split: prod.splits)
qed

theorem signin_keeps_session_id_witness:
  "set_cookie (fst (serve \<lparr>rq_cookie = Some 0, rq_route = SignIn, rq_body = signin_body ''alice'' ''secret1''\<rparr>
     (init_server\<lparr>db := alice_db, sessions := [0 \<mapsto> \<lparr>sess_userId = Some 1, sess_expires = 10\<rparr>]\<rparr>))) = Some 0"
  by (rule signin_keeps_session_id[where se = "\<lparr>sess_userId = Some 1, sess_expires = 10\<rparr>"])
     (simp_all add: init_server_def serve_def load_session_def commit_session_def session_user_def signin_handler_def
      schema_simps signin_body_def alice_db_eq getUserByUsername_def alice_user_eq Let_def)

text \<open>C19: A request whose cookie names an expired session is unauthenticated on every
  gated route: 401, no change to the database, and the expired session is removed.\<close>

theorem expired_session_rejected:
  assumes "rq_cookie rq = Some s" and "sessions st s = Some se" and "sess_expires se \<le> clock st"
    and "is_gated (rq_route rq)"
  shows "status (fst (serve rq st)) = 401 \<and> db (snd (serve rq st)) = db st \<and> sessions (snd (serve rq st)) s = None"
proof -
  have l: "load_session (rq_cookie rq) st = (None, st\<lparr>sessions := (sessions st)(s := None)\<rparr>)"
    using assms(1-3) by (simp add: load_session_def)
  have "handle (rq_route rq) (clock st) None (rq_body rq) (db st) = unauthorized (db st)"
    using handle_unauth[OF assms(4)] by (simp add: isAuthenticated_def)
  then show ?thesis
    using l by (simp add: serve_def session_user_def unauthorized_def commit_session_def)
qed

theorem expired_session_rejected_witness:
  "status (fst (serve \<lparr>rq_cookie = Some 0, rq_route = GetSavedOptions, rq_body = []\<rparr>
     (init_server\<lparr>sessions := [0 \<mapsto> \<lparr>sess_userId = Some 1, sess_expires = 5\<rparr>], clock := maxAge\<rparr>))) = 401"
  using expired_session_rejected[of "\<lparr>rq_cookie = Some 0, rq_route = GetSavedOptions, rq_body = []\<rparr>" 0
          "init_server\<lparr>sessions := [0 \<mapsto> \<lparr>sess_userId = Some 1, sess_expires = 5\<rparr>], clock := maxAge\<rparr>"
          "\<lparr>sess_userId = Some 1, sess_expires = 5\<rparr>"]
  by (simp add: maxAge_def)

end
