(* ===== verification/Server.thy ===== *)
theory Server
  imports Routes
begin

text \<open>
  The running server: a state changes by serving one request (any route, any cookie,
  any body) or by the clock advancing. The reachable states are those of every
  interleaving of requests from all clients, starting from the empty database and
  session store. The invariant says what every reachable state keeps: ids drawn from
  their sequences, unique usernames and emails, every saved option and history entry
  owned by an existing user, and every stored session bound to an existing user.
\<close>

inductive server_step :: "server \<Rightarrow> server \<Rightarrow> bool" where
  request: "server_step st (snd (serve rq st))"
| tick: "server_step st (st\<lparr>clock := clock st + n\<rparr>)"

inductive reachable :: "server \<Rightarrow> bool" where
  init: "reachable init_server"
| step: "reachable st \<Longrightarrow> server_step st st' \<Longrightarrow> reachable st'"

definition uids :: "db \<Rightarrow> user_id set" where
  "uids d = set (map uid (users d))"

definition db_inv :: "db \<Rightarrow> bool" where
  "db_inv d \<longleftrightarrow>
     0 < users_seq d \<and>
     (\<forall>i \<in> uids d. 0 < i \<and> i < users_seq d) \<and>
     distinct (map uid (users d)) \<and> distinct (map username (users d)) \<and> distinct (map email (users d)) \<and>
     (\<forall>r \<in> set (savedOptions d). so_userId r \<in> uids d \<and> so_id r < saved_seq d) \<and>
     (\<forall>r \<in> set (searchHistory d). (case sh_userId r of None \<Rightarrow> True | Some v \<Rightarrow> v \<in> uids d) \<and>
                                  sh_id r < history_seq d)"

definition sess_bound :: "db \<Rightarrow> sess \<Rightarrow> bool" where
  "sess_bound d se \<longleftrightarrow> (case sess_userId se of None \<Rightarrow> False | Some u \<Rightarrow> u \<in> uids d)"

definition sessions_inv :: "server \<Rightarrow> bool" where
  "sessions_inv st \<longleftrightarrow>
     (\<forall>s se. sessions st s = Some se \<longrightarrow> s < next_sid st \<and> sess_bound (db st) se)"

definition server_inv :: "server \<Rightarrow> bool" where
  "server_inv st \<longleftrightarrow> db_inv (db st) \<and> sessions_inv st"

definition step_ok :: "db \<Rightarrow> hresult \<Rightarrow> bool" where
  "step_ok d r \<longleftrightarrow>
     (case r of (rep, a, d') \<Rightarrow> db_inv d' \<and> uids d \<subseteq> uids d' \<and> (\<forall>u. a = SetUser u \<longrightarrow> u \<in> uids d'))"

text \<open>The state after Alice signs up on a fresh server; its session id is 0.\<close>

definition alice_signup :: request where
  "alice_signup = \<lparr>rq_cookie = None, rq_route = SignUp, rq_body = signup_body alice\<rparr>"

definition after_signup :: server where
  "after_signup = snd (serve alice_signup init_server)"

lemma createUser_cases:
  assumes "createUser sd now d = (res, d')"
  shows "(res = Inr (new_user (users_seq d) sd now) \<and>
          d' = d\<lparr>users_seq := users_seq d + 1, users := users d @ [new_user (users_seq d) sd now]\<rparr> \<and>
          \<not> list_ex (\<lambda>v. uid v = users_seq d) (users d) \<and>
          \<not> list_ex (\<lambda>v. username v = su_username sd) (users d) \<and>
          \<not> list_ex (\<lambda>v. email v = su_email sd) (users d)) \<or>
         (\<exists>e. res = Inl e \<and> d' = d\<lparr>users_seq := users_seq d + 1\<rparr>)"
  using assms by (auto simp: createUser_def Let_def split: if_splits)

lemma db_inv_users_seq_inc: "db_inv d \<Longrightarrow> db_inv (d\<lparr>users_seq := users_seq d + 1\<rparr>)"
  by (fastforce simp: db_inv_def uids_def split: option.splits)

lemma db_inv_add_user:
  assumes "db_inv d" and "uid u = users_seq d"
    and "\<not> list_ex (\<lambda>v. username v = username u) (users d)"
    and "\<not> list_ex (\<lambda>v. email v = email u) (users d)"
  shows "db_inv (d\<lparr>users_seq := users_seq d + 1, users := users d @ [u]\<rparr>)"
proof -
  have ids: "\<forall>v \<in> set (users d). 0 < uid v \<and> uid v < users_seq d" and pos: "0 < users_seq d"
    using assms(1) by (auto simp: db_inv_def uids_def)
  then have "uid u \<notin> set (map uid (users d))"
    using assms(2) by auto
  moreover have "username u \<notin> set (map username (users d))" "email u \<notin> set (map email (users d))"
    using assms(3,4) by (auto simp: list_ex_iff)
  ultimately show ?thesis
    using assms(1,2) ids pos by (fastforce simp: db_inv_def uids_def split: option.splits)
qed

lemma createUser_inv:
  assumes "db_inv d" and "createUser sd now d = (res, d')"
  shows "db_inv d' \<and> uids d \<subseteq> uids d' \<and> (\<forall>u. res = Inr u \<longrightarrow> uid u \<in> uids d')"
  using createUser_cases[OF assms(2)]
proof
  assume ok: "res = Inr (new_user (users_seq d) sd now) \<and>
          d' = d\<lparr>users_seq := users_seq d + 1, users := users d @ [new_user (users_seq d) sd now]\<rparr> \<and>
          \<not> list_ex (\<lambda>v. uid v = users_seq d) (users d) \<and>
          \<not> list_ex (\<lambda>v. username v = su_username sd) (users d) \<and>
          \<not> list_ex (\<lambda>v. email v = su_email sd) (users d)"
  then show ?thesis
    using db_inv_add_user[OF assms(1), of "new_user (users_seq d) sd now"] by (auto simp: uids_def)
next
  assume "\<exists>e. res = Inl e \<and> d' = d\<lparr>users_seq := users_seq d + 1\<rparr>"
  then show ?thesis
    using db_inv_users_seq_inc[OF assms(1)] by (auto simp: uids_def)
qed

lemma db_inv_cong:
  assumes "map uid (users d') = map uid (users d)" "map username (users d') = map username (users d)"
    "map email (users d') = map email (users d)" "users_seq d' = users_seq d"
    "savedOptions d' = savedOptions d" "saved_seq d' = saved_seq d"
    "searchHistory d' = searchHistory d" "history_seq d' = history_seq d"
  shows "db_inv d' = db_inv d" and "uids d' = uids d"
proof -
  have u: "uids d' = uids d"
    using assms(1) by (simp only: uids_def)
  then show "uids d' = uids d" .
  show "db_inv d' = db_inv d"
    using assms u by (simp only: db_inv_def)
qed

lemma updateUserProfile_keys:
  "map uid (users (snd (updateUserProfile i pu now d))) = map uid (users d)"
  "map username (users (snd (updateUserProfile i pu now d))) = map username (users d)"
  "map email (users (snd (updateUserProfile i pu now d))) = map email (users d)"
  by (simp_all add: updateUserProfile_def Let_def)

lemma updateUserProfile_inv:
  "db_inv d \<Longrightarrow> db_inv (snd (updateUserProfile i pu now d)) \<and> uids (snd (updateUserProfile i pu now d)) = uids d"
  using db_inv_cong[OF updateUserProfile_keys] by (simp add: updateUserProfile_def Let_def)

lemma saveOption_fk: "saveOption ins now d = (Inr r, d') \<Longrightarrow> so_userId r \<in> uids d"
  by (drule saveOption_Inr) (force simp: uids_def list_ex_iff)

lemma saveOption_inv:
  assumes "db_inv d" and "saveOption ins now d = (res, d')"
  shows "db_inv d' \<and> uids d' = uids d"
proof (cases res)
  case (Inl e)
  then have "d' = d \<or> d' = d\<lparr>saved_seq := saved_seq d + 1\<rparr>"
    using assms(2) saveOption_Inl by blast
  then show ?thesis
    using assms(1) by (elim disjE) (fastforce simp: db_inv_def uids_def split: option.splits)+
next
  case (Inr r)
  then have "so_userId r \<in> uids d"
    using assms(2) saveOption_fk by blast
  then show ?thesis
    using assms(1) saveOption_Inr[OF assms(2)[unfolded Inr]]
    by (fastforce simp: db_inv_def uids_def split: option.splits)
qed

lemma saveSearchHistory_Inr:
  "saveSearchHistory hi now d = (Inr r, d') \<Longrightarrow>
     d' = d\<lparr>history_seq := history_seq d + 1, searchHistory := searchHistory d @ [r]\<rparr> \<and>
     sh_id r = history_seq d \<and> hi_userId hi = map_option of_int (sh_userId r) \<and>
     (case sh_userId r of None \<Rightarrow> True | Some u \<Rightarrow> list_ex (\<lambda>v. uid v = u) (users d))"
  by (auto simp: saveSearchHistory_def Let_def dest: opt_as_int_Some
      split: if_splits option.splits prod.splits)

lemma saveSearchHistory_Inl:
  "saveSearchHistory hi now d = (Inl e, d') \<Longrightarrow> d' = d \<or> d' = d\<lparr>history_seq := history_seq d + 1\<rparr>"
  by (auto simp: saveSearchHistory_def Let_def split: if_splits option.splits prod.splits)

lemma saveSearchHistory_inv:
  assumes "db_inv d" and "saveSearchHistory hi now d = (res, d')"
  shows "db_inv d' \<and> uids d' = uids d"
proof (cases res)
  case (Inl e)
  then have "d' = d \<or> d' = d\<lparr>history_seq := history_seq d + 1\<rparr>"
    using assms(2) saveSearchHistory_Inl by blast
  then show ?thesis
    using assms(1) by (elim disjE) (fastforce simp: db_inv_def uids_def split: option.splits)+
next
  case (Inr r)
  then show ?thesis
    using assms(1) saveSearchHistory_Inr[OF assms(2)[unfolded Inr]]
    by (fastforce simp: db_inv_def uids_def list_ex_iff split: option.splits)
qed

lemma removeSavedOption_inv:
  "db_inv d \<Longrightarrow> db_inv (removeSavedOption i oid d) \<and> uids (removeSavedOption i oid d) = uids d"
  by (auto simp: removeSavedOption_def db_inv_def uids_def split: option.splits)

lemma getUserByUsername_uid: "getUserByUsername n d = Some u \<Longrightarrow> uid u \<in> uids d"
  by (auto simp: getUserByUsername_def uids_def find_Some_iff)

lemma step_ok_same [simp]: "db_inv d \<Longrightarrow> step_ok d (rep, NoChange, d)" "db_inv d \<Longrightarrow> step_ok d (rep, Destroy, d)"
  by (simp_all add: step_ok_def)

lemma step_ok_signup: "db_inv d \<Longrightarrow> step_ok d (signup_handler now su b d)"
  by (auto simp: signup_handler_def step_ok_def split: sum.split option.split prod.split dest: createUser_inv)

lemma step_ok_signin: "db_inv d \<Longrightarrow> step_ok d (signin_handler now su b d)"
  by (auto simp: signin_handler_def step_ok_def split: sum.split option.split dest: getUserByUsername_uid)

lemma step_ok_gated:
  "db_inv d \<Longrightarrow> (\<And>u. step_ok d (h now u b d)) \<Longrightarrow> step_ok d (gated h now su b d)"
  by (simp add: gated_def unauthorized_def split: option.split)

lemma step_ok_profile: "db_inv d \<Longrightarrow> step_ok d (profile_handler now u b d)"
  by (cases "updateUserProfileSchema_parse b")
     (simp_all add: profile_handler_Inl profile_handler_Inr step_ok_def updateUserProfile_inv)

lemma step_ok_postSaved: "db_inv d \<Longrightarrow> step_ok d (postSaved_handler now u b d)"
  by (auto simp: postSaved_handler_def step_ok_def split: sum.split prod.split dest: saveOption_inv)

lemma step_ok_postHistory: "db_inv d \<Longrightarrow> step_ok d (postHistory_handler now u b d)"
  by (auto simp: postHistory_handler_def step_ok_def split: sum.split prod.split dest: saveSearchHistory_inv)

lemma step_ok_deleteSaved: "db_inv d \<Longrightarrow> step_ok d (deleteSaved_handler oid now u b d)"
  by (simp add: deleteSaved_handler_def step_ok_def removeSavedOption_inv)

lemma handle_step_ok: "db_inv d \<Longrightarrow> step_ok d (handle r now su b d)"
  by (cases r)
     (simp_all add: step_ok_signup step_ok_signin step_ok_gated step_ok_profile step_ok_postSaved
        step_ok_postHistory step_ok_deleteSaved getUser_handler_def getSaved_handler_def
        checkSaved_handler_def getHistory_handler_def signout_handler_def split: option.split)

lemma sess_bound_touch [simp]: "sess_bound d (se\<lparr>sess_expires := t\<rparr>) = sess_bound d se"
  by (simp add: sess_bound_def)

lemma sess_bound_new [simp]: "sess_bound d \<lparr>sess_userId = Some u, sess_expires = t\<rparr> \<longleftrightarrow> u \<in> uids d"
  by (simp add: sess_bound_def)

lemma sess_bound_mono: "sess_bound d se \<Longrightarrow> uids d \<subseteq> uids d' \<Longrightarrow> sess_bound d' se"
  by (auto simp: sess_bound_def split: option.splits)

lemma load_session_inv:
  assumes "sessions_inv st" and "load_session c st = (cur, st1)"
  shows "sessions_inv st1 \<and> db st1 = db st \<and> next_sid st1 = next_sid st \<and>
         (\<forall>s se. cur = Some (s, se) \<longrightarrow> s < next_sid st \<and> sess_bound (db st) se)"
  using assms
  by (auto simp: load_session_def sessions_inv_def Let_def split: option.splits if_splits)

lemma sessions_inv_db: "sessions_inv st \<Longrightarrow> uids (db st) \<subseteq> uids d' \<Longrightarrow> sessions_inv (st\<lparr>db := d'\<rparr>)"
  by (auto simp: sessions_inv_def intro: sess_bound_mono)

lemma commit_session_inv:
  assumes "sessions_inv st" and "\<forall>s se. cur = Some (s, se) \<longrightarrow> s < next_sid st"
    and "\<forall>u. a = SetUser u \<longrightarrow> u \<in> uids (db st)" and "commit_session cur a st = (sc, st2)"
  shows "sessions_inv st2"
  using assms
  by (auto simp: commit_session_def sessions_inv_def Let_def split: sess_action.splits option.splits if_splits)
     (use less_SucI in blast)

lemma serve_inv:
  assumes "server_inv st"
  shows "server_inv (snd (serve rq st))"
proof -
  obtain cur st1 where l: "load_session (rq_cookie rq) st = (cur, st1)"
    by fastforce
  obtain rep a d' where h: "handle (rq_route rq) (clock st) (session_user cur) (rq_body rq) (db st) = (rep, a, d')"
    by (metis prod.exhaust)
  obtain sc st2 where c: "commit_session cur a (st1\<lparr>db := d'\<rparr>) = (sc, st2)"
    by fastforce
  have inv: "db_inv (db st)" "sessions_inv st"
    using assms by (simp_all add: server_inv_def)
  have L: "sessions_inv st1" "db st1 = db st" "next_sid st1 = next_sid st" "clock st1 = clock st"
      "\<forall>s se. cur = Some (s, se) \<longrightarrow> s < next_sid st"
    using load_session_inv[OF inv(2) l] load_session_eqD[OF l] by auto
  have H: "db_inv d'" "uids (db st) \<subseteq> uids d'" "\<forall>u. a = SetUser u \<longrightarrow> u \<in> uids d'"
    using handle_step_ok[OF inv(1), of "rq_route rq" "clock st" "session_user cur" "rq_body rq"] h
    by (simp_all add: step_ok_def)
  have "sessions_inv (st1\<lparr>db := d'\<rparr>)"
    using sessions_inv_db[OF L(1)] L(2) H(2) by simp
  then have "sessions_inv st2"
    using commit_session_inv[OF _ _ _ c] L(3,5) H(3) by simp
  moreover have "db st2 = d'"
    using commit_session_eqD[OF c] by simp
  moreover have "snd (serve rq st) = st2"
    using l h c L(2,4) by (simp add: serve_def split: prod.splits)
  ultimately show ?thesis
    using H(1) by (simp add: server_inv_def)
qed

lemma init_server_inv: "server_inv init_server"
  by (simp add: server_inv_def db_inv_def sessions_inv_def init_server_def empty_db_def uids_def)

lemma reachable_inv: "reachable st \<Longrightarrow> server_inv st"
proof (induction rule: reachable.induct)
  case init
  then show ?case by (rule init_server_inv)
next
  case (step st st')
  from step.hyps(2) step.IH show ?case
  proof cases
    case (request rq)
    then show ?thesis using serve_inv step.IH by simp
  next
    case (tick n)
    then show ?thesis using step.IH by (simp add: server_inv_def sessions_inv_def sess_bound_def)
  qed
qed

lemma live_session_user:
  assumes "reachable st" and "fst (load_session c st) = Some (s, se)"
  shows "\<exists>u. sess_userId se = Some u \<and> u \<in> uids (db st) \<and> 0 < u"
proof -
  have inv: "db_inv (db st)" "sessions_inv st"
    using reachable_inv[OF assms(1)] by (simp_all add: server_inv_def)
  obtain st1 where l: "load_session c st = (Some (s, se), st1)"
    using assms(2) by (metis prod.collapse)
  have "sess_bound (db st) se"
    using load_session_inv[OF inv(2) l] by simp
  then obtain u where "sess_userId se = Some u" "u \<in> uids (db st)"
    by (auto simp: sess_bound_def split: option.splits)
  moreover have "0 < u"
    using inv(1) calculation(2) by (simp add: db_inv_def)
  ultimately show ?thesis by blast
qed

lemma getUserById_uids:
  assumes "u \<in> uids d"
  shows "\<exists>usr. getUserById u d = Some usr"
proof -
  have "\<exists>x \<in> set (users d). uid x = u"
    using assms by (auto simp: uids_def)
  then have "find (\<lambda>x. uid x = u) (users d) \<noteq> None"
    by (simp add: find_None_iff) blast
  then show ?thesis
    by (auto simp: getUserById_def)
qed

lemma saveOption_succeeds:
  assumes "db_inv d" and "ins_userId ins = of_int u" and "u \<in> uids d"
  shows "\<exists>r d'. saveOption ins now d = (Inr r, d')"
proof -
  have "\<not> list_ex (\<lambda>v. so_id v = saved_seq d) (savedOptions d)"
    using assms(1) by (auto simp: db_inv_def list_ex_iff)
  moreover have "list_ex (\<lambda>v. uid v = u) (users d)"
    using assms(3) by (auto simp: uids_def list_ex_iff)
  ultimately show ?thesis
    using assms(2) by (simp add: saveOption_def Let_def)
qed

lemma serve_live:
  assumes "load_session (rq_cookie rq) st = (Some (s, se), st1)" and "sess_userId se = Some u" and "0 < u"
  shows "serve rq st =
           (case handle (rq_route rq) (clock st) (Some u) (rq_body rq) (db st) of
              ((c, j), a, d') \<Rightarrow>
                (case commit_session (Some (s, se)) a (st1\<lparr>db := d'\<rparr>) of
                   (sc, st2) \<Rightarrow> (\<lparr>status = c, payload = j, set_cookie = sc\<rparr>, st2)))"
  using assms load_session_eqD[OF assms(1)] by (simp add: serve_def session_user_def)

lemma reachable_after_signup: "reachable after_signup"
  unfolding after_signup_def by (rule reachable.step[OF reachable.init server_step.request])

lemma after_signup_eq:
  "after_signup =
     init_server\<lparr>db := alice_db, sessions := [0 \<mapsto> \<lparr>sess_userId = Some 1, sess_expires = maxAge\<rparr>], next_sid := 1\<rparr>"
  by (simp add: after_signup_def alice_signup_def serve_def init_server_def load_session_def commit_session_def
      session_user_def signup_handler_def parse_signup_body_alice getUserByUsername_def alice_db_def
      createUser_def empty_db_def Let_def)

subsection \<open>Properties of the running server\<close>

text \<open>C3: In every reachable state of the server, usernames and emails are unique, user
  ids are positive and below the users sequence, every saved option and every search
  history entry with an owner belongs to an existing user, and every stored session is
  bound to an existing user.\<close>

theorem reachable_state_invariant:
  assumes "reachable st"
  shows "distinct (map username (users (db st))) \<and> distinct (map email (users (db st))) \<and>
         (\<forall>u \<in> set (users (db st)). 0 < uid u \<and> uid u < users_seq (db st)) \<and>
         (\<forall>r \<in> set (savedOptions (db st)). \<exists>u \<in> set (users (db st)). uid u = so_userId r) \<and>
         (\<forall>r \<in> set (searchHistory (db st)). \<forall>v. sh_userId r = Some v \<longrightarrow> (\<exists>u \<in> set (users (db st)). uid u = v)) \<and>
         (\<forall>s se. sessions st s = Some se \<longrightarrow> (\<exists>u \<in> set (users (db st)). sess_userId se = Some (uid u)))"
proof -
  have inv: "db_inv (db st)" "sessions_inv st"
    using reachable_inv[OF assms] by (simp_all add: server_inv_def)
  show ?thesis
    using inv by (fastforce simp: db_inv_def sessions_inv_def sess_bound_def uids_def split: option.splits)
qed

theorem reachable_state_invariant_witness:
  "distinct (map username (users (db after_signup))) \<and> distinct (map email (users (db after_signup)))"
  using reachable_state_invariant[OF reachable_after_signup] by simp

text \<open>C20: In a reachable state, a request that carries a live session always passes
  \<open>isAuthenticated\<close>: the session holds a user id, and it is non-zero (so the truthiness
  test never turns a signed-in user away) and names an existing user.\<close>

theorem live_session_authenticated:
  assumes "reachable st" and "fst (load_session c st) = Some (s, se)"
  shows "isAuthenticated (sess_userId se) \<and> (\<exists>usr. getUserById (the (sess_userId se)) (db st) = Some usr)"
  using live_session_user[OF assms] getUserById_uids by (auto simp: isAuthenticated_def)

theorem live_session_authenticated_witness:
  "isAuthenticated (Some 1) \<and> (\<exists>usr. getUserById 1 (db after_signup) = Some usr)"
  using live_session_authenticated[OF reachable_after_signup, of "Some 0" 0
          "\<lparr>sess_userId = Some 1, sess_expires = maxAge\<rparr>"]
  by (simp add: after_signup_eq load_session_def init_server_def maxAge_def Let_def)

text \<open>C21: In a reachable state, \<open>GET /api/auth/user\<close> with a live session always answers
  200 with the user: its 404 branch is unreachable, since users are never deleted.\<close>

theorem current_user_found:
  assumes "reachable st" and "rq_route rq = GetAuthUser" and "fst (load_session (rq_cookie rq) st) \<noteq> None"
  shows "status (fst (serve rq st)) = 200"
proof -
  obtain s se st1 where l: "load_session (rq_cookie rq) st = (Some (s, se), st1)"
    using assms(3) by (metis not_None_eq prod.collapse surj_pair)
  obtain u where u: "sess_userId se = Some u" "u \<in> uids (db st)" "0 < u"
    using live_session_user[OF assms(1)] l by (metis fst_conv)
  obtain usr where "getUserById u (db st) = Some usr"
    using getUserById_uids[OF u(2)] by blast
  then show ?thesis
    using serve_live[OF l u(1,3)] assms(2) u(3)
    by (simp add: gated_def getUser_handler_def commit_session_def split: prod.splits)
qed

theorem current_user_found_witness:
  "status (fst (serve \<lparr>rq_cookie = Some 0, rq_route = GetAuthUser, rq_body = []\<rparr> after_signup)) = 200"
  by (rule current_user_found[OF reachable_after_signup])
     (simp_all add: after_signup_eq load_session_def init_server_def maxAge_def Let_def)

text \<open>C22: In a reachable state, \<open>POST /api/saved-options\<close> with a live session never
  fails in the database: it answers 200 or, for a malformed body, 400; its 500 branch is
  unreachable, since the session's user exists (foreign key) and the sequence is ahead of
  every row id (primary key).\<close>

theorem postSaved_never_fails:
  assumes "reachable st" and "rq_route rq = PostSavedOption" and "fst (load_session (rq_cookie rq) st) \<noteq> None"
  shows "status (fst (serve rq st)) \<in> {200, 400}"
proof -
  obtain s se st1 where l: "load_session (rq_cookie rq) st = (Some (s, se), st1)"
    using assms(3) by (metis not_None_eq prod.collapse surj_pair)
  obtain u where u: "sess_userId se = Some u" "u \<in> uids (db st)" "0 < u"
    using live_session_user[OF assms(1)] l by (metis fst_conv)
  have inv: "db_inv (db st)"
    using reachable_inv[OF assms(1)] by (simp add: server_inv_def)
  have "fst (fst (postSaved_handler (clock st) u (rq_body rq) (db st))) \<in> {200, 400}"
  proof (cases "insertSavedOptionSchema_parse (spread_with (rq_body rq) ''userId'' (JNum (of_int u)))")
    case (Inl errs)
    then show ?thesis by (simp add: postSaved_handler_def invalid_data_def)
  next
    case (Inr ins)
    then have "ins_userId ins = of_int u"
      using insertSavedOptionSchema_parse_Inr by fastforce
    then obtain r d' where "saveOption ins (clock st) (db st) = (Inr r, d')"
      using saveOption_succeeds[OF inv _ u(2)] by blast
    then show ?thesis using Inr by (simp add: postSaved_handler_def)
  qed
  then show ?thesis
    using serve_live[OF l u(1,3)] assms(2) u(3)
    by (simp add: gated_def commit_session_def split: prod.splits)
qed

theorem postSaved_never_fails_witness:
  "status (fst (serve \<lparr>rq_cookie = Some 0, rq_route = PostSavedOption, rq_body = hotel1_body\<rparr> after_signup)) \<in> {200, 400}"
  by (rule postSaved_never_fails[OF reachable_after_signup])
     (simp_all add: after_signup_eq load_session_def init_server_def maxAge_def Let_def)

end
