(* ===== verification/Expiry.thy ===== *)
theory Expiry
  imports Server
begin

text \<open>
  Session expiry over the running server. Every stored session expires at most
  \<open>maxAge\<close> after the current time, since both a touch and a save set the expiry to
  the request's time plus \<open>maxAge\<close>; so a session left unused for \<open>maxAge\<close>
  milliseconds is over, whatever happened before.
\<close>

definition sessions_fresh :: "server \<Rightarrow> bool" where
  "sessions_fresh st \<longleftrightarrow> (\<forall>s se. sessions st s = Some se \<longrightarrow> sess_expires se \<le> clock st + maxAge)"

section \<open>Lemmas\<close>

lemma load_session_fresh:
  "sessions_fresh st \<Longrightarrow> sessions_fresh (snd (load_session c st))"
  by (auto simp: load_session_def sessions_fresh_def Let_def split: option.splits)

lemma commit_session_fresh:
  "sessions_fresh st \<Longrightarrow> sessions_fresh (snd (commit_session cur a st))"
  by (auto simp: commit_session_def sessions_fresh_def Let_def split: sess_action.splits option.splits prod.splits)

lemma sessions_fresh_db [simp]: "sessions_fresh (st\<lparr>db := d\<rparr>) = sessions_fresh st"
  by (simp add: sessions_fresh_def)

lemma serve_fresh:
  assumes "sessions_fresh st"
  shows "sessions_fresh (snd (serve rq st))"
proof -
  obtain cur st1 where l: "load_session (rq_cookie rq) st = (cur, st1)"
    by fastforce
  have "sessions_fresh st1"
    using load_session_fresh[OF assms, of "rq_cookie rq"] l by simp
  then have C: "sessions_fresh (snd (commit_session cur a (st1\<lparr>db := d'\<rparr>)))" for a d'
    using commit_session_fresh by simp
  show ?thesis
    using l load_session_eqD[OF l] by (auto simp: serve_def split: prod.splits) (metis C snd_conv)
qed

lemma reachable_fresh: "reachable st \<Longrightarrow> sessions_fresh st"
proof (induction rule: reachable.induct)
  case init
  then show ?case by (simp add: sessions_fresh_def init_server_def)
next
  case (step st st')
  from step.hyps(2) step.IH show ?case
  proof cases
    case (request rq)
    then show ?thesis using serve_fresh step.IH by simp
  next
    case (tick n)
    then show ?thesis using step.IH by (fastforce simp: sessions_fresh_def)
  qed
qed

lemma load_session_expired:
  "sessions_fresh st \<Longrightarrow> fst (load_session c (st\<lparr>clock := clock st + maxAge\<rparr>)) = None"
  by (force simp: load_session_def sessions_fresh_def Let_def split: option.splits)

subsection \<open>Properties\<close>

text \<open>C16: In every reachable state, every stored session expires at most \<open>maxAge\<close> (24
  hours) after the current time.\<close>

theorem session_expiry_bounded:
  assumes "reachable st" and "sessions st s = Some se"
  shows "sess_expires se \<le> clock st + maxAge"
  using reachable_fresh[OF assms(1)] assms(2) by (simp add: sessions_fresh_def)

theorem session_expiry_bounded_witness:
  "sess_expires \<lparr>sess_userId = Some 1, sess_expires = maxAge\<rparr> \<le> clock after_signup + maxAge"
  using session_expiry_bounded[OF reachable_after_signup, of 0] by (simp add: after_signup_eq)

text \<open>C15: Every session ends after \<open>maxAge\<close> of inactivity: from any reachable state, letting
  \<open>maxAge\<close> milliseconds pass is a step of the server, after which no cookie loads a
  session, so every gated route answers 401.\<close>

theorem idle_sessions_expire:
  assumes "reachable st"
  shows "reachable (st\<lparr>clock := clock st + maxAge\<rparr>) \<and>
         (\<forall>c. fst (load_session c (st\<lparr>clock := clock st + maxAge\<rparr>)) = None)"
  using reachable.step[OF assms server_step.tick] load_session_expired[OF reachable_fresh[OF assms]]
  by blast

theorem idle_sessions_expire_witness:
  "fst (load_session (Some 0) (after_signup\<lparr>clock := clock after_signup + maxAge\<rparr>)) = None"
  using idle_sessions_expire[OF reachable_after_signup] by blast

end
