(* ===== verification/ClientData.thy ===== *)
theory ClientData
  imports Routes
begin

text \<open>
  The client's data and its wire format: the mock travel options of
  \<open>lib/travel-data.ts\<close>, their JSON as \<open>apiRequest\<close> sends it, the client's reading
  of that JSON back as a \<open>TravelOption\<close>, and the requests the client sends
  (\<open>api_call\<close>) with \<open>dispatch\<close>, which turns one into the server's \<open>request\<close>
  through \<open>Routes.route_of\<close>.
\<close>

section \<open>Travel options (\<open>lib/travel-data.ts\<close>)\<close>

datatype option_kind = Flight | Hotel | Activity

fun kind_name :: "option_kind \<Rightarrow> string" where
  "kind_name Flight = ''flight''"
| "kind_name Hotel = ''hotel''"
| "kind_name Activity = ''activity''"

text \<open>\<open>interface TravelOption\<close>; an optional property is an \<open>option\<close>.\<close>

record travel_option =
  to_id :: string
  to_type :: option_kind
  to_name :: "string option"
  airline :: "string option"
  departure :: "string option"
  arrival :: "string option"
  location :: "string option"
  price :: rat
  duration :: "string option"
  rating :: rat
  amenities :: "string list option"
  to_image :: string

definition mockFlights :: "travel_option list" where
  "mockFlights =
     [\<lparr>to_id = ''flight1'', to_type = Flight, to_name = None, airline = Some ''SkyWings'',
       departure = Some ''New York (JFK)'', arrival = Some ''Paris (CDG)'', location = None,
       price = 599, duration = Some ''7h 30m'', rating = 45 / 10, amenities = None,
       to_image = ''https://images.unsplash.com/photo-1436491865332-7a61a109cc05?ixlib=rb-4.0.3&auto=format&fit=crop&w=400&h=250''\<rparr>,
      \<lparr>to_id = ''flight2'', to_type = Flight, to_name = None, airline = Some ''AirGlobal'',
       departure = Some ''New York (JFK)'', arrival = Some ''Paris (CDG)'', location = None,
       price = 649, duration = Some ''8h 15m'', rating = 42 / 10, amenities = None,
       to_image = ''https://images.unsplash.com/photo-1556388158-158dc0cd181c?ixlib=rb-4.0.3&auto=format&fit=crop&w=400&h=250''\<rparr>,
      \<lparr>to_id = ''flight3'', to_type = Flight, to_name = None, airline = Some ''EuroJet'',
       departure = Some ''New York (JFK)'', arrival = Some ''Paris (CDG)'', location = None,
       price = 575, duration = Some ''7h 45m'', rating = 47 / 10, amenities = None,
       to_image = ''https://images.unsplash.com/photo-1544031897-6bf37807e2fa?ixlib=rb-4.0.3&auto=format&fit=crop&w=400&h=250''\<rparr>]"

definition mockHotels :: "travel_option list" where
  "mockHotels =
     [\<lparr>to_id = ''hotel1'', to_type = Hotel, to_name = Some ''Le Grand Hotel'', airline = None,
       departure = None, arrival = None, location = Some ''Paris, France'',
       price = 250, duration = None, rating = 48 / 10,
       amenities = Some [''WiFi'', ''Pool'', ''Spa'', ''Restaurant''],
       to_image = ''https://images.unsplash.com/photo-1551882547-ff40c63fe5fa?ixlib=rb-4.0.3&auto=format&fit=crop&w=400&h=250''\<rparr>,
      \<lparr>to_id = ''hotel2'', to_type = Hotel, to_name = Some ''Hotel Moderne'', airline = None,
       departure = None, arrival = None, location = Some ''Paris, France'',
       price = 180, duration = None, rating = 43 / 10,
       amenities = Some [''WiFi'', ''Gym'', ''Restaurant''],
       to_image = ''https://images.unsplash.com/photo-1590490360182-c33d57733427?ixlib=rb-4.0.3&auto=format&fit=crop&w=400&h=250''\<rparr>,
      \<lparr>to_id = ''hotel3'', to_type = Hotel, to_name = Some ''Boutique Paris'', airline = None,
       departure = None, arrival = None, location = Some ''Paris, France'',
       price = 320, duration = None, rating = 46 / 10,
       amenities = Some [''WiFi'', ''Concierge'', ''Bar'', ''Room Service''],
       to_image = ''https://images.unsplash.com/photo-1578683010236-d716f9a3f461?ixlib=rb-4.0.3&auto=format&fit=crop&w=400&h=250''\<rparr>,
      \<lparr>to_id = ''hotel4'', to_type = Hotel, to_name = Some ''Paris Palace'', airline = None,
       departure = None, arrival = None, location = Some ''Paris, France'',
       price = 450, duration = None, rating = 49 / 10,
       amenities = Some [''WiFi'', ''Pool'', ''Spa'', ''Restaurant'', ''Valet'', ''Butler''],
       to_image = ''https://images.unsplash.com/photo-1582719478250-c89cae4dc85b?ixlib=rb-4.0.3&auto=format&fit=crop&w=400&h=250''\<rparr>]"

definition mockActivities :: "travel_option list" where
  "mockActivities =
     [\<lparr>to_id = ''activity1'', to_type = Activity, to_name = Some ''Eiffel Tower Tour'', airline = None,
       departure = None, arrival = None, location = Some ''Paris, France'',
       price = 45, duration = Some ''2 hours'', rating = 49 / 10, amenities = None,
       to_image = ''https://images.unsplash.com/photo-1471623432079-b009d30b6729?ixlib=rb-4.0.3&auto=format&fit=crop&w=400&h=250''\<rparr>,
      \<lparr>to_id = ''activity2'', to_type = Activity, to_name = Some ''Seine River Cruise'', airline = None,
       departure = None, arrival = None, location = Some ''Paris, France'',
       price = 35, duration = Some ''1.5 hours'', rating = 46 / 10, amenities = None,
       to_image = ''https://images.unsplash.com/photo-1502602898536-47ad22581b52?ixlib=rb-4.0.3&auto=format&fit=crop&w=400&h=250''\<rparr>,
      \<lparr>to_id = ''activity3'', to_type = Activity, to_name = Some ''Louvre Museum Visit'', airline = None,
       departure = None, arrival = None, location = Some ''Paris, France'',
       price = 25, duration = Some ''3 hours'', rating = 48 / 10, amenities = None,
       to_image = ''https://images.unsplash.com/photo-1541961017774-22349e4a1262?ixlib=rb-4.0.3&auto=format&fit=crop&w=400&h=250''\<rparr>,
      \<lparr>to_id = ''activity4'', to_type = Activity, to_name = Some ''Montmartre Walking Tour'', airline = None,
       departure = None, arrival = None, location = Some ''Paris, France'',
       price = 30, duration = Some ''2.5 hours'', rating = 47 / 10, amenities = None,
       to_image = ''https://images.unsplash.com/photo-1502602898536-47ad22581b52?ixlib=rb-4.0.3&auto=format&fit=crop&w=400&h=250''\<rparr>]"

text \<open>\<open>JSON.stringify\<close> of a travel option, as \<open>apiRequest\<close> sends it: the properties in
  the order the object literals of \<open>travel-data.ts\<close> list them (which is the order of
  the interface), an absent optional property left out.\<close>

fun opt_field :: "string \<Rightarrow> ('a \<Rightarrow> json) \<Rightarrow> 'a option \<Rightarrow> jobj" where
  "opt_field k f None = []"
| "opt_field k f (Some x) = [(k, f x)]"

definition option_json :: "travel_option \<Rightarrow> json" where
  "option_json t =
     JObj ([(''id'', JStr (to_id t)), (''type'', JStr (kind_name (to_type t)))] @
           opt_field ''name'' JStr (to_name t) @ opt_field ''airline'' JStr (airline t) @
           opt_field ''departure'' JStr (departure t) @ opt_field ''arrival'' JStr (arrival t) @
           opt_field ''location'' JStr (location t) @ [(''price'', JNum (price t))] @
           opt_field ''duration'' JStr (duration t) @ [(''rating'', JNum (rating t))] @
           opt_field ''amenities'' (\<lambda>as. JArr (map JStr as)) (amenities t) @
           [(''image'', JStr (to_image t))])"


text \<open>The client's reading of an option's JSON as a \<open>TravelOption\<close> (the trips and compare
  tabs cast \<open>saved.optionData\<close> to it): each property with the interface's type, an
  optional one possibly absent. A property of another type gives \<open>None\<close>: the cast does
  not check it, and the model covers only data that has the interface's shape.\<close>

definition kind_of_name :: "string \<Rightarrow> option_kind option" where
  "kind_of_name s =
     (if s = ''flight'' then Some Flight else if s = ''hotel'' then Some Hotel
      else if s = ''activity'' then Some Activity else None)"

fun str_of :: "json \<Rightarrow> string option" where
  "str_of (JStr s) = Some s"
| "str_of _ = None"

fun req_str :: "json option \<Rightarrow> string option" where
  "req_str (Some j) = str_of j"
| "req_str None = None"

fun req_num :: "json option \<Rightarrow> rat option" where
  "req_num (Some (JNum q)) = Some q"
| "req_num _ = None"

fun opt_str :: "json option \<Rightarrow> string option option" where
  "opt_str None = Some None"
| "opt_str (Some j) = map_option Some (str_of j)"

fun opt_strs :: "json option \<Rightarrow> string list option option" where
  "opt_strs None = Some None"
| "opt_strs (Some (JArr js)) = map_option Some (those (map str_of js))"
| "opt_strs (Some _) = None"

definition decode_option :: "json \<Rightarrow> travel_option option" where
  "decode_option j =
     (case j of
        JObj kv \<Rightarrow>
          Option.bind (req_str (jget kv ''id'')) (\<lambda>i.
          Option.bind (Option.bind (req_str (jget kv ''type'')) kind_of_name) (\<lambda>ty.
          Option.bind (opt_str (jget kv ''name'')) (\<lambda>n.
          Option.bind (opt_str (jget kv ''airline'')) (\<lambda>al.
          Option.bind (opt_str (jget kv ''departure'')) (\<lambda>dep.
          Option.bind (opt_str (jget kv ''arrival'')) (\<lambda>arr.
          Option.bind (opt_str (jget kv ''location'')) (\<lambda>loc.
          Option.bind (req_num (jget kv ''price'')) (\<lambda>p.
          Option.bind (opt_str (jget kv ''duration'')) (\<lambda>du.
          Option.bind (req_num (jget kv ''rating'')) (\<lambda>ra.
          Option.bind (opt_strs (jget kv ''amenities'')) (\<lambda>am.
          Option.bind (req_str (jget kv ''image'')) (\<lambda>im.
            Some \<lparr>to_id = i, to_type = ty, to_name = n, airline = al, departure = dep,
                  arrival = arr, location = loc, price = p, duration = du, rating = ra,
                  amenities = am, to_image = im\<rparr>))))))))))))
      | _ \<Rightarrow> None)"

section \<open>Requests the client sends\<close>

text \<open>\<open>apiRequest(method, url, data)\<close>: a method, a path and a JSON body (\<open>{}\<close> when the
  call has no data, as \<open>express.json()\<close> leaves it). A plain link is a \<open>GET\<close>.\<close>

record api_call =
  ac_method :: string
  ac_path :: string
  ac_body :: jobj

text \<open>The request the server sees for a call made with session cookie \<open>c\<close>; \<open>None\<close> when
  no route of the API matches.\<close>

definition dispatch :: "sid option \<Rightarrow> api_call \<Rightarrow> request option" where
  "dispatch c call =
     map_option (\<lambda>r. \<lparr>rq_cookie = c, rq_route = r, rq_body = ac_body call\<rparr>)
       (route_of (ac_method call) (ac_path call))"

section \<open>Lemmas\<close>

lemma split_on_notin: "d \<notin> set s \<Longrightarrow> split_on d s = [s]"
  by (induction s) auto

lemma route_of_remove:
  assumes "oid \<noteq> []" and "CHR ''/'' \<notin> set oid"
  shows "route_of ''DELETE'' (''/api/saved-options/'' @ oid) = Some (DeleteSavedOption oid)"
  unfolding route_of_def
  by (simp add: path_segments_def split_on_notin assms) (simp add: fixed_routes_def assms)

lemma jget_opt_field_app [simp]:
  "jget (opt_field k f v @ rest) k' = (if k' = k \<and> v \<noteq> None then map_option f v else jget rest k')"
  by (cases v) auto

lemma kind_of_name_kind_name [simp]: "kind_of_name (kind_name k) = Some k"
  by (cases k) (simp_all add: kind_of_name_def)

lemma those_map_str_of [simp]: "those (map (str_of \<circ> JStr) xs) = Some xs"
  by (induction xs) auto

lemma opt_str_map [simp]: "opt_str (map_option JStr v) = Some v"
  by (cases v) auto

lemma opt_strs_map [simp]: "opt_strs (map_option (\<lambda>as. JArr (map JStr as)) v) = Some v"
  by (cases v) auto

subsection \<open>Properties\<close>


end
