(* ===== verification/ClientHome.thy ===== *)
theory ClientHome
  imports ClientData
begin

text \<open>
  \<open>pages/home.tsx\<close> with the components it renders: the search results, the client's
  \<open>isSaved\<close> and \<open>getSavedOptionsByType\<close> on the saved-options response, the My Trips
  and Compare tab groups, the save and remove requests a card sends
  (\<open>components/ui/travel-option-card.tsx\<close>), the cards' contents, and the headers and
  rows of \<open>components/ui/comparison-table.tsx\<close>.
\<close>

section \<open>The home page (\<open>pages/home.tsx\<close>)\<close>

text \<open>\<open>handleSearch\<close>: whatever was searched, the results are the three mock lists (the
  timer only delays them), and the form's data is posted to the search history.\<close>

definition search_results :: "travel_option list" where
  "search_results = mockFlights @ mockHotels @ mockActivities"

definition results_of_type :: "option_kind \<Rightarrow> travel_option list \<Rightarrow> travel_option list" where
  "results_of_type k rs = filter (\<lambda>t. to_type t = k) rs"

definition history_call :: "jobj \<Rightarrow> api_call" where
  "history_call searchData = \<lparr>ac_method = ''POST'', ac_path = ''/api/search-history'', ac_body = searchData\<rparr>"

definition handleSearch :: "jobj \<Rightarrow> travel_option list \<times> api_call" where
  "handleSearch searchData = (search_results, history_call searchData)"

text \<open>\<open>savedOptions\<close>: the array of the \<open>GET /api/saved-options\<close> response, \<open>[]\<close> while
  the query has no data (it failed, or it is loading).\<close>

definition saved_data :: "response \<Rightarrow> json list" where
  "saved_data r = (if status r = 200 then (case payload r of JArr js \<Rightarrow> js | _ \<Rightarrow> []) else [])"

text \<open>\<open>saved.k\<close> on an element of that array.\<close>

fun jfield :: "json \<Rightarrow> string \<Rightarrow> json option" where
  "jfield (JObj kv) k = jget kv k"
| "jfield _ k = None"

definition isSaved :: "json list \<Rightarrow> string \<Rightarrow> bool" where
  "isSaved saved oid = list_ex (\<lambda>s. jfield s ''optionId'' = Some (JStr oid)) saved"

definition getSavedOptionsByType :: "json list \<Rightarrow> string \<Rightarrow> json option list" where
  "getSavedOptionsByType saved ty =
     map (\<lambda>s. jfield s ''optionData'') (filter (\<lambda>s. jfield s ''optionType'' = Some (JStr ty)) saved)"

definition tab_types :: "string list" where
  "tab_types = [''flight'', ''hotel'', ''activity'']"

text \<open>My Trips: one group per type that has saved options (none when nothing is saved).\<close>

definition trip_groups :: "json list \<Rightarrow> (string \<times> json option list) list" where
  "trip_groups saved =
     (if saved = [] then []
      else filter (\<lambda>g. snd g \<noteq> []) (map (\<lambda>ty. (ty, getSavedOptionsByType saved ty)) tab_types))"

text \<open>Compare: nothing below two saved options; otherwise one comparison table per type
  with at least two.\<close>

definition compare_groups :: "json list \<Rightarrow> (string \<times> json option list) list" where
  "compare_groups saved =
     (if length saved < 2 then []
      else filter (\<lambda>g. \<not> length (snd g) < 2)
             (map (\<lambda>ty. (ty, getSavedOptionsByType saved ty)) tab_types))"

text \<open>\<open>saveOptionMutation\<close> and \<open>removeOptionMutation\<close>.\<close>

definition save_call :: "travel_option \<Rightarrow> api_call" where
  "save_call t =
     \<lparr>ac_method = ''POST'', ac_path = ''/api/saved-options'',
      ac_body = [(''optionId'', JStr (to_id t)), (''optionType'', JStr (kind_name (to_type t))),
                 (''optionData'', option_json t)]\<rparr>"

definition remove_call :: "string \<Rightarrow> api_call" where
  "remove_call oid = \<lparr>ac_method = ''DELETE'', ac_path = ''/api/saved-options/'' @ oid, ac_body = []\<rparr>"

text \<open>The query of the saved options (\<open>useQuery({queryKey: ["/api/saved-options"]})\<close>),
  a \<open>GET\<close> of the key as the path.\<close>

definition saved_query :: api_call where
  "saved_query = \<lparr>ac_method = ''GET'', ac_path = ''/api/saved-options'', ac_body = []\<rparr>"

section \<open>An option's card (\<open>components/ui/travel-option-card.tsx\<close>)\<close>

definition handleToggleSave :: "bool \<Rightarrow> 'a \<Rightarrow> 'a \<Rightarrow> 'a" where
  "handleToggleSave saved onRemove onSave = (if saved then onRemove else onSave)"

text \<open>The request a search result's button sends, with the \<open>isSaved\<close>, \<open>onSave\<close> and
  \<open>onRemove\<close> that \<open>home.tsx\<close> passes to every card.\<close>

definition card_click :: "json list \<Rightarrow> travel_option \<Rightarrow> api_call" where
  "card_click saved t =
     handleToggleSave (isSaved saved (to_id t)) (remove_call (to_id t)) (save_call t)"

text \<open>\<open>Array(Math.floor(rating)).fill(star).join('')\<close>: \<open>Array(n)\<close> throws a
  \<open>RangeError\<close> unless \<open>n\<close> is a valid array length. The star U+2605 is written
  \<open>*\<close>.\<close>

datatype js_error = RangeError string

definition renderStars :: "rat \<Rightarrow> js_error + string" where
  "renderStars r =
     (if \<lfloor>r\<rfloor> < 0 \<or> 2 ^ 32 - 1 < \<lfloor>r\<rfloor> then Inl (RangeError ''Invalid array length'')
      else Inr (replicate (nat \<lfloor>r\<rfloor>) CHR ''*''))"


section \<open>The comparison table (\<open>components/ui/comparison-table.tsx\<close>)\<close>

definition getHeaders :: "string \<Rightarrow> string list" where
  "getHeaders ty =
     (let baseHeaders = [''Option'', ''Price'', ''Rating'']
      in if ty = ''flight'' then baseHeaders @ [''Duration'', ''Airline'']
         else if ty = ''hotel'' then baseHeaders @ [''Amenities'', ''Location'']
         else if ty = ''activity'' then baseHeaders @ [''Duration'', ''Location'']
         else baseHeaders)"

text \<open>What a cell shows: the name cell's two lines, the price, the stars and the
  rating, a text (absent when the property is), the amenity badges and the \<open>+n\<close>
  badge.\<close>

datatype cell =
    NameCell string string
  | PriceCell rat
  | RatingCell "js_error + string" rat
  | TextCell "string option"
  | BadgesCell "string list" "nat option"

text \<open>\<open>a || b\<close> on optional strings: the empty string and \<open>undefined\<close> are falsy.\<close>

definition js_or :: "string option \<Rightarrow> string option \<Rightarrow> string option" where
  "js_or a b = (case a of Some s \<Rightarrow> if s \<noteq> [] then a else b | None \<Rightarrow> b)"

definition shown :: "string option \<Rightarrow> string" where
  "shown a = (case a of Some s \<Rightarrow> s | None \<Rightarrow> [])"

text \<open>\<open>option.location || (option.departure && option.arrival ? dep + ' -> ' + arr : '')\<close>
  (the arrow U+2192 is written \<open>->\<close>).\<close>

definition location_line :: "travel_option \<Rightarrow> string" where
  "location_line t =
     (if js_or (location t) None \<noteq> None then shown (location t)
      else if js_or (departure t) None \<noteq> None \<and> js_or (arrival t) None \<noteq> None
        then shown (departure t) @ '' -> '' @ shown (arrival t)
      else [])"

text \<open>\<open>amenities?.slice(0, 3)\<close> and, when there are more than three, the \<open>+n\<close> badge.\<close>

definition amenity_badges :: "string list option \<Rightarrow> string list \<times> nat option" where
  "amenity_badges am =
     (case am of
        None \<Rightarrow> ([], None)
      | Some as \<Rightarrow> (take 3 as, if 3 < length as then Some (length as - 3) else None))"

definition getRowData :: "string \<Rightarrow> travel_option \<Rightarrow> (string \<times> cell) list" where
  "getRowData ty t =
     (let baseData =
        [(''name'', NameCell (shown (js_or (to_name t) (airline t))) (location_line t)),
         (''price'', PriceCell (price t)),
         (''rating'', RatingCell (renderStars (rating t)) (rating t))]
      in if ty = ''flight'' then
           baseData @ [(''duration'', TextCell (duration t)), (''airline'', TextCell (airline t))]
         else if ty = ''hotel'' then
           baseData @ [(''amenities'', case amenity_badges (amenities t) of (bs, extra) \<Rightarrow> BadgesCell bs extra),
                       (''location'', TextCell (location t))]
         else if ty = ''activity'' then
           baseData @ [(''duration'', TextCell (duration t)), (''location'', TextCell (location t))]
         else baseData)"

text \<open>The table: the header row and one row per option.\<close>

definition comparison_table :: "string \<Rightarrow> travel_option list \<Rightarrow> string list \<times> (string \<times> cell) list list" where
  "comparison_table ty options = (getHeaders ty, map (getRowData ty) options)"

text \<open>What a search result's card shows (\<open>renderCardContent\<close>): the image's alt text,
  the heading, the line under it, the price, the note under the price, the badges, the
  stars and the rating, and whether the button shows the check mark. JSX renders an
  \<open>undefined\<close> property as nothing.\<close>

record card_view =
  cv_alt :: string
  cv_title :: "string option"
  cv_subtitle :: string
  cv_price :: rat
  cv_note :: "string option"
  cv_badges :: "string list"
  cv_stars :: "js_error + string"
  cv_rating :: rat
  cv_checked :: bool

definition renderCardContent :: "bool \<Rightarrow> travel_option \<Rightarrow> card_view" where
  "renderCardContent saved t =
     (case to_type t of
        Flight \<Rightarrow>
          \<lparr>cv_alt = ''Flight'', cv_title = airline t,
           cv_subtitle = shown (departure t) @ '' -> '' @ shown (arrival t), cv_price = price t,
           cv_note = duration t, cv_badges = [], cv_stars = renderStars (rating t),
           cv_rating = rating t, cv_checked = saved\<rparr>
      | Hotel \<Rightarrow>
          \<lparr>cv_alt = ''Hotel'', cv_title = to_name t, cv_subtitle = shown (location t),
           cv_price = price t, cv_note = Some ''per night'',
           cv_badges = (case amenities t of None \<Rightarrow> [] | Some as \<Rightarrow> as),
           cv_stars = renderStars (rating t), cv_rating = rating t, cv_checked = saved\<rparr>
      | Activity \<Rightarrow>
          \<lparr>cv_alt = ''Activity'', cv_title = to_name t, cv_subtitle = shown (location t),
           cv_price = price t, cv_note = duration t, cv_badges = [],
           cv_stars = renderStars (rating t), cv_rating = rating t, cv_checked = saved\<rparr>)"

text \<open>A card of the My Trips tab: \<open>option.name || option.airline\<close>, then
  \<open>option.location || `${option.departure} -> ${option.arrival}`\<close>, where a template
  literal writes an \<open>undefined\<close> property as the text \<open>undefined\<close>; then the price,
  the stars and the rating.\<close>

definition js_text :: "string option \<Rightarrow> string" where
  "js_text a = (case a of Some s \<Rightarrow> s | None \<Rightarrow> ''undefined'')"

definition trip_card :: "travel_option \<Rightarrow> string \<times> string \<times> rat \<times> (js_error + string) \<times> rat" where
  "trip_card t =
     (shown (js_or (to_name t) (airline t)),
      (if js_or (location t) None \<noteq> None then shown (location t)
       else js_text (departure t) @ '' -> '' @ js_text (arrival t)),
      price t, renderStars (rating t), rating t)"

text \<open>The shape of the mock options: a flight has an airline and both endpoints and no
  name or location; a hotel or an activity has a name and a location.\<close>

definition shaped :: "travel_option \<Rightarrow> bool" where
  "shaped t \<longleftrightarrow>
     (case to_type t of
        Flight \<Rightarrow> to_name t = None \<and> location t = None \<and>
                  (case departure t of Some a \<Rightarrow> a \<noteq> [] | None \<Rightarrow> False) \<and>
                  (case arrival t of Some a \<Rightarrow> a \<noteq> [] | None \<Rightarrow> False)
      | _ \<Rightarrow> (case to_name t of Some n \<Rightarrow> n \<noteq> [] | None \<Rightarrow> False) \<and>
             (case location t of Some l \<Rightarrow> l \<noteq> [] | None \<Rightarrow> False))"

section \<open>Lemmas\<close>

lemma dispatch_save_call [simp]:
  "dispatch c (save_call t) = Some \<lparr>rq_cookie = c, rq_route = PostSavedOption, rq_body = ac_body (save_call t)\<rparr>"
  by (simp add: dispatch_def save_call_def route_of_def path_segments_def fixed_routes_def)

lemma dispatch_remove_call:
  "oid \<noteq> [] \<Longrightarrow> CHR ''/'' \<notin> set oid \<Longrightarrow>
     dispatch c (remove_call oid) = Some \<lparr>rq_cookie = c, rq_route = DeleteSavedOption oid, rq_body = []\<rparr>"
  using route_of_remove[of oid] by (simp add: dispatch_def remove_call_def)

lemma save_call_parse:
  "insertSavedOptionSchema_parse (spread_with (ac_body (save_call t)) ''userId'' (JNum (of_int u))) =
     Inr \<lparr>ins_userId = of_int u, ins_optionId = to_id t, ins_optionType = kind_name (to_type t),
          ins_optionData = option_json t\<rparr>"
  by (simp add: insertSavedOptionSchema_parse_def save_call_def Let_def)

lemma isSaved_saved_json: "isSaved (map saved_json rs) oid \<longleftrightarrow> list_ex (\<lambda>r. optionId r = oid) rs"
  by (induction rs) (auto simp: isSaved_def saved_json_def)

lemma isSaved_getSavedOptions: "isSaved (map saved_json (getSavedOptions u d)) oid \<longleftrightarrow> isSavedOption u oid d"
  by (auto simp: isSaved_saved_json isSavedOption_def getSavedOptions_def owned_by_def matches_option_def list_ex_iff)

lemma search_result_ids: "map to_id search_results =
  [''flight1'', ''flight2'', ''flight3'', ''hotel1'', ''hotel2'', ''hotel3'', ''hotel4'',
   ''activity1'', ''activity2'', ''activity3'', ''activity4'']"
  by (simp add: search_results_def mockFlights_def mockHotels_def mockActivities_def)

lemma search_result_id_ok: "t \<in> set search_results \<Longrightarrow> to_id t \<noteq> [] \<and> CHR ''/'' \<notin> set (to_id t)"
proof -
  assume "t \<in> set search_results"
  then have "to_id t \<in> set (map to_id search_results)" by simp
  then show ?thesis unfolding search_result_ids by auto
qed

lemma length_getSavedOptionsByType: "length (getSavedOptionsByType saved ty) \<le> length saved"
  by (simp add: getSavedOptionsByType_def)

lemma dispatch_card_click:
  assumes "t \<in> set search_results"
  shows "dispatch c (card_click saved t) =
           Some \<lparr>rq_cookie = c,
                 rq_route = (if isSaved saved (to_id t) then DeleteSavedOption (to_id t) else PostSavedOption),
                 rq_body = (if isSaved saved (to_id t) then [] else ac_body (save_call t))\<rparr>"
  using search_result_id_ok[OF assms]
  by (simp add: card_click_def handleToggleSave_def dispatch_remove_call)

lemma dispatch_saved_query [simp]:
  "dispatch c saved_query = Some \<lparr>rq_cookie = c, rq_route = GetSavedOptions, rq_body = []\<rparr>"
  by (simp add: dispatch_def saved_query_def route_of_def path_segments_def fixed_routes_def)

lemma dispatch_history_call [simp]:
  "dispatch c (history_call b) = Some \<lparr>rq_cookie = c, rq_route = PostSearchHistory, rq_body = b\<rparr>"
  by (simp add: dispatch_def history_call_def route_of_def path_segments_def fixed_routes_def)

lemma search_results_shaped: "list_all shaped search_results"
  by (simp add: search_results_def mockFlights_def mockHotels_def mockActivities_def shaped_def)

lemma views_agree_shaped:
  assumes "shaped t"
  shows "trip_card t = (shown (cv_title (renderCardContent b t)), cv_subtitle (renderCardContent b t),
                        cv_price (renderCardContent b t), cv_stars (renderCardContent b t),
                        cv_rating (renderCardContent b t)) \<and>
         hd (getRowData (kind_name (to_type t)) t) =
           (''name'', NameCell (fst (trip_card t)) (fst (snd (trip_card t))))"
  using assms
  by (cases "to_type t") (auto simp: shaped_def trip_card_def renderCardContent_def getRowData_def
      location_line_def js_or_def shown_def js_text_def Let_def split: option.splits)

subsection \<open>Properties\<close>

text \<open>C35: Every row of a comparison table has exactly one cell per header column, whatever
  the type, and neither the cells' React keys nor the headers repeat.\<close>

theorem comparison_rows_match_headers:
  "length (getRowData ty t) = length (getHeaders ty) \<and> distinct (map fst (getRowData ty t)) \<and> distinct (getHeaders ty)"
  by (simp add: getHeaders_def getRowData_def Let_def)

text \<open>C36: \<open>renderStars\<close> succeeds exactly on ratings from 0 up to (not including)
  \<open>2^32\<close>, and then draws \<open>floor(rating)\<close> stars; any other rating (a negative
  one) throws \<open>RangeError\<close>.\<close>

theorem renderStars_bounds:
  "(\<exists>s. renderStars r = Inr s \<and> of_nat (length s) \<le> r \<and> r < of_nat (length s) + 1) \<longleftrightarrow> 0 \<le> r \<and> r < 2 ^ 32"
proof -
  have "\<lfloor>r\<rfloor> < 0 \<longleftrightarrow> r < 0"
    by linarith
  have "2 ^ 32 - 1 < \<lfloor>r\<rfloor> \<longleftrightarrow> (2 ^ 32 :: int) \<le> \<lfloor>r\<rfloor>"
    by linarith
  also have "\<dots> \<longleftrightarrow> 2 ^ 32 \<le> r"
    by (simp only: le_floor_iff) simp
  finally have "2 ^ 32 - 1 < \<lfloor>r\<rfloor> \<longleftrightarrow> 2 ^ 32 \<le> r" .
  moreover have "0 \<le> \<lfloor>r\<rfloor> \<Longrightarrow> of_nat (nat \<lfloor>r\<rfloor>) \<le> r \<and> r < of_nat (nat \<lfloor>r\<rfloor>) + 1"
    by linarith
  ultimately show ?thesis
    using \<open>\<lfloor>r\<rfloor> < 0 \<longleftrightarrow> r < 0\<close> by (auto simp: renderStars_def)
qed

text \<open>C34: The Compare tab's guard \<open>savedOptions.length >= 2\<close> changes nothing: the tab
  shows the same tables as the per-type test \<open>typeOptions.length < 2\<close> alone.\<close>

theorem compare_groups_guard_redundant:
  "compare_groups saved = filter (\<lambda>g. \<not> length (snd g) < 2) (map (\<lambda>ty. (ty, getSavedOptionsByType saved ty)) tab_types)"
proof (cases "length saved < 2")
  case True
  then have "\<forall>ty. length (getSavedOptionsByType saved ty) < 2"
    using length_getSavedOptionsByType le_less_trans by blast
  then show ?thesis
    using True by (simp add: compare_groups_def filter_False)
next
  case False
  then show ?thesis by (simp add: compare_groups_def)
qed

text \<open>C40: For every search result, the Discover card, the My Trips card and the name cell
  of the comparison row show the same heading and the same line under it, and the two
  cards the same price, stars and rating. (An option saved from the Discover tab is shown
  in the other tabs as this same option, by the round trip of its JSON.)\<close>

theorem views_agree:
  assumes "t \<in> set search_results"
  shows "trip_card t = (shown (cv_title (renderCardContent b t)), cv_subtitle (renderCardContent b t),
                        cv_price (renderCardContent b t), cv_stars (renderCardContent b t),
                        cv_rating (renderCardContent b t)) \<and>
         hd (getRowData (kind_name (to_type t)) t) =
           (''name'', NameCell (fst (trip_card t)) (fst (snd (trip_card t))))"
  using search_results_shaped assms views_agree_shaped by (simp add: list_all_iff)

theorem views_agree_witness:
  "trip_card (hd mockHotels) = (shown (cv_title (renderCardContent False (hd mockHotels))),
      cv_subtitle (renderCardContent False (hd mockHotels)), cv_price (renderCardContent False (hd mockHotels)),
      cv_stars (renderCardContent False (hd mockHotels)), cv_rating (renderCardContent False (hd mockHotels)))"
  using views_agree[of "hd mockHotels" False] by (simp add: search_results_def mockHotels_def)

end
