(* ===== verification/ClientForms.thy ===== *)
theory ClientForms
  imports ClientHome
begin

text \<open>
  The client's forms and navigation: the search form of
  \<open>components/ui/travel-search.tsx\<close>, the profile page (\<open>pages/profile.tsx\<close>), the
  sign-in page (\<open>pages/signin.tsx\<close>), the landing page (\<open>pages/landing.tsx\<close>) and
  \<open>components/ui/navigation.tsx\<close>.
\<close>

section \<open>The search form (\<open>components/ui/travel-search.tsx\<close>)\<close>

text \<open>The form's values are the strings of its inputs: two \<open>type="date"\<close> inputs, whose
  value is a date string or \<open>''''\<close>, and a select whose values are \<open>"1"\<close> to \<open>"4"\<close>.\<close>

record search_form =
  sf_destination :: string
  sf_checkin :: string
  sf_checkout :: string
  sf_travelers :: string

definition search_defaults :: search_form where
  "search_defaults = \<lparr>sf_destination = [], sf_checkin = [], sf_checkout = [], sf_travelers = ''1''\<rparr>"

definition search_data :: "search_form \<Rightarrow> jobj" where
  "search_data f =
     [(''destination'', JStr (sf_destination f)), (''checkin'', JStr (sf_checkin f)),
      (''checkout'', JStr (sf_checkout f)), (''travelers'', JStr (sf_travelers f))]"

text \<open>\<open>onSubmit\<close>: nothing when the destination is empty, otherwise \<open>handleSearch\<close> of
  the home page with the form's data.\<close>

definition search_onSubmit :: "search_form \<Rightarrow> (travel_option list \<times> api_call) option" where
  "search_onSubmit f = (if sf_destination f = [] then None else Some (handleSearch (search_data f)))"

section \<open>The profile page (\<open>pages/profile.tsx\<close>)\<close>

definition availableInterests :: "string list" where
  "availableInterests =
     [''Nature'', ''Food'', ''History'', ''Adventure'', ''Culture'', ''Beaches'',
      ''Mountains'', ''Cities'', ''Wildlife'', ''Photography'', ''Music'', ''Art'']"

text \<open>\<open>selectedInterests\<close> starts empty, whatever the loaded profile holds.\<close>

definition initial_interests :: "string list" where
  "initial_interests = []"

definition toggleInterest :: "string \<Rightarrow> string list \<Rightarrow> string list" where
  "toggleInterest interest prev =
     (if interest \<in> set prev then filter (\<lambda>i. i \<noteq> interest) prev else prev @ [interest])"

text \<open>JavaScript truthiness of a JSON value, and \<open>v || d\<close> with \<open>undefined\<close> for an
  absent property.\<close>

fun js_truthy :: "json \<Rightarrow> bool" where
  "js_truthy JNull = False"
| "js_truthy (JBool b) = b"
| "js_truthy (JNum q) = (q \<noteq> 0)"
| "js_truthy (JStr s) = (s \<noteq> [])"
| "js_truthy (JArr _) = True"
| "js_truthy (JObj _) = True"

definition js_or_json :: "json option \<Rightarrow> json \<Rightarrow> json" where
  "js_or_json v d = (case v of Some j \<Rightarrow> if js_truthy j then j else d | None \<Rightarrow> d)"

text \<open>The form's \<open>defaultValues\<close>, computed from \<open>user\<close> (the \<open>/api/auth/user\<close> response;
  \<open>None\<close> while it loads) when the form is created.\<close>

definition profile_defaults :: "json option \<Rightarrow> jobj" where
  "profile_defaults user =
     (let g = (\<lambda>k. case user of Some j \<Rightarrow> jfield j k | None \<Rightarrow> None)
      in [(''firstName'', js_or_json (g ''firstName'') (JStr [])),
          (''lastName'', js_or_json (g ''lastName'') (JStr [])),
          (''phone'', js_or_json (g ''phone'') (JStr [])),
          (''budgetRange'', js_or_json (g ''budgetRange'') (JStr ''mid-range'')),
          (''travelStyle'', js_or_json (g ''travelStyle'') (JStr ''relaxation'')),
          (''interests'', js_or_json (g ''interests'') (JArr []))])"

text \<open>Submitting: \<open>zodResolver(updateUserProfileSchema)\<close> lets the submit through only
  when the form's values parse, then the mutation sends \<open>{...data, interests:
  selectedInterests}\<close>.\<close>

text \<open>The form's fields (\<open>FormField\<close>s \<open>firstName\<close>, \<open>lastName\<close>, \<open>phone\<close> and the two
  selects) and the data it submits; \<open>interests\<close> is the form's default value, which the
  request then replaces.\<close>

record profile_form =
  pf_firstName :: string
  pf_lastName :: string
  pf_phone :: string
  pf_budgetRange :: string
  pf_travelStyle :: string
  pf_interests :: json

definition budgetRanges :: "string list" where
  "budgetRanges = [''budget'', ''mid-range'', ''luxury'', ''ultra-luxury'']"

definition travelStyles :: "string list" where
  "travelStyles = [''adventure'', ''relaxation'', ''cultural'', ''business'', ''family'']"

definition profile_form_data :: "profile_form \<Rightarrow> jobj" where
  "profile_form_data f =
     [(''firstName'', JStr (pf_firstName f)), (''lastName'', JStr (pf_lastName f)),
      (''phone'', JStr (pf_phone f)), (''budgetRange'', JStr (pf_budgetRange f)),
      (''travelStyle'', JStr (pf_travelStyle f)), (''interests'', pf_interests f)]"

text \<open>The card's title: the full name when both names are set, else the email, else
  \<open>"User"\<close>.\<close>

definition profile_title :: "json option \<Rightarrow> json" where
  "profile_title user =
     (let g = (\<lambda>k. case user of Some j \<Rightarrow> jfield j k | None \<Rightarrow> None)
      in case (g ''firstName'', g ''lastName'') of
           (Some (JStr f), Some (JStr l)) \<Rightarrow>
             if f \<noteq> [] \<and> l \<noteq> [] then JStr (f @ '' '' @ l) else js_or_json (g ''email'') (JStr ''User'')
         | _ \<Rightarrow> js_or_json (g ''email'') (JStr ''User''))"

text \<open>The profile query, \<open>useQuery({queryKey: ["/api/auth/user"]})\<close>.\<close>

definition user_query :: api_call where
  "user_query = \<lparr>ac_method = ''GET'', ac_path = ''/api/auth/user'', ac_body = []\<rparr>"

definition profile_call :: "jobj \<Rightarrow> string list \<Rightarrow> api_call" where
  "profile_call data selectedInterests =
     \<lparr>ac_method = ''PATCH'', ac_path = ''/api/user/profile'',
      ac_body = spread_with data ''interests'' (JArr (map JStr selectedInterests))\<rparr>"

definition profile_onSubmit :: "jobj \<Rightarrow> string list \<Rightarrow> api_call option" where
  "profile_onSubmit data selectedInterests =
     (case updateUserProfileSchema_parse data of
        Inl _ \<Rightarrow> None
      | Inr _ \<Rightarrow> Some (profile_call data selectedInterests))"

section \<open>The sign-in page (\<open>pages/signin.tsx\<close>)\<close>

text \<open>\<open>onSubmit\<close> runs once \<open>zodResolver(signInSchema)\<close> accepts the form, and posts its
  data to the sign-in route.\<close>

definition signin_call :: "jobj \<Rightarrow> api_call" where
  "signin_call data = \<lparr>ac_method = ''POST'', ac_path = ''/api/auth/signin'', ac_body = data\<rparr>"

definition signin_onSubmit :: "jobj \<Rightarrow> api_call option" where
  "signin_onSubmit data =
     (case signInSchema_parse data of Inl _ \<Rightarrow> None | Inr _ \<Rightarrow> Some (signin_call data))"

text \<open>The page's form (\<open>useForm<SignInData>\<close>, two inputs) and the data it submits.\<close>

record signin_form =
  sf_username :: string
  sf_password :: string

definition signin_defaults :: signin_form where
  "signin_defaults = \<lparr>sf_username = [], sf_password = []\<rparr>"

definition signin_form_data :: "signin_form \<Rightarrow> jobj" where
  "signin_form_data f = [(''username'', JStr (sf_username f)), (''password'', JStr (sf_password f))]"

text \<open>What the page does with the answer: \<open>apiRequest\<close> throws unless the status is
  2xx; on success it shows "Welcome back!" and navigates to \<open>/\<close>, otherwise it shows
  "Sign in failed" with the error, which carries the status and the body.\<close>

datatype signin_result = SignedIn string | SignInFailed nat json

definition signin_outcome :: "response \<Rightarrow> signin_result" where
  "signin_outcome r =
     (if 200 \<le> status r \<and> status r < 300 then SignedIn ''/'' else SignInFailed (status r) (payload r))"

section \<open>The landing page (\<open>pages/landing.tsx\<close>)\<close>

text \<open>The landing page has the search form's four fields, but its search button only
  shows an alert and sends nothing; its links lead to \<open>/signin\<close> and \<open>/signup\<close>.\<close>

definition landing_defaults :: search_form where
  "landing_defaults = \<lparr>sf_destination = [], sf_checkin = [], sf_checkout = [], sf_travelers = ''1''\<rparr>"

definition landing_handleSearch :: "search_form \<Rightarrow> string" where
  "landing_handleSearch f = ''Please sign in to start searching for travel options!''"

definition landing_links :: "string list" where
  "landing_links = [''/signin'', ''/signup'', ''/signup'']"

section \<open>Navigation (\<open>components/ui/navigation.tsx\<close>)\<close>

definition navItems :: "(string \<times> string) list" where
  "navItems = [(''/'', ''Discover''), (''/trips'', ''My Trips''), (''/compare'', ''Compare'')]"

definition navPaths :: "string list" where
  "navPaths = map fst navItems"

text \<open>\<open>isActive\<close>: the root only on an exact match, the others by \<open>startsWith\<close>.\<close>

definition isActive :: "string \<Rightarrow> string \<Rightarrow> bool" where
  "isActive loc p = (if p = ''/'' then loc = ''/'' else take (length p) loc = p)"

text \<open>The sign-out entry of the menu is a plain link, \<open><a href="/api/logout">\<close>.\<close>

text \<open>The menu's state: whether the mobile sheet is open, and the location. A link
  navigates (\<open>Link href\<close>); in the sheet, a click also closes it
  (\<open>setMobileMenuOpen(false)\<close>); the sheet's trigger opens and closes it.\<close>

record nav_state =
  menu_open :: bool
  nav_location :: string

datatype nav_event = MenuOpenChange bool | ClickNavItem string | ClickProfileLink

fun nav_step :: "nav_event \<Rightarrow> nav_state \<Rightarrow> nav_state" where
  "nav_step (MenuOpenChange b) st = st\<lparr>menu_open := b\<rparr>"
| "nav_step (ClickNavItem p) st = \<lparr>menu_open = False, nav_location = p\<rparr>"
| "nav_step ClickProfileLink st = \<lparr>menu_open = False, nav_location = ''/profile''\<rparr>"

text \<open>The items as rendered: path, label and whether it is highlighted.\<close>

definition nav_entries :: "string \<Rightarrow> (string \<times> string \<times> bool) list" where
  "nav_entries loc = map (\<lambda>(p, l). (p, l, isActive loc p)) navItems"

text \<open>The user button's label, \<open>user?.firstName || user?.email || "User"\<close>.\<close>

definition nav_label :: "json option \<Rightarrow> json" where
  "nav_label user =
     (let g = (\<lambda>k. case user of Some j \<Rightarrow> jfield j k | None \<Rightarrow> None)
      in js_or_json (g ''firstName'') (js_or_json (g ''email'') (JStr ''User'')))"

definition logout_call :: api_call where
  "logout_call = \<lparr>ac_method = ''GET'', ac_path = ''/api/logout'', ac_body = []\<rparr>"


text \<open>Examples: a filled-in profile form, and the database after Alice added the
  interest Nature to her profile.\<close>

definition alice_profile_form :: jobj where
  "alice_profile_form = [(''firstName'', JStr ''Alice''), (''lastName'', JStr ''Liddell'')]"

definition alice_nature_db :: db where
  "alice_nature_db =
     snd (updateUserProfile 1
            \<lparr>pu_firstName = ''Alice'', pu_lastName = ''Liddell'', pu_phone = Keep, pu_budgetRange = Keep,
             pu_travelStyle = Keep, pu_interests = Put (Some (JArr [JStr ''Nature'']))\<rparr> 0 alice_db)"

definition alice_form :: profile_form where
  "alice_form = \<lparr>pf_firstName = ''Alice'', pf_lastName = ''Liddell'', pf_phone = ''555-0100'',
                 pf_budgetRange = ''luxury'', pf_travelStyle = ''family'', pf_interests = JArr []\<rparr>"

section \<open>Lemmas\<close>

lemma profile_parse_interests:
  "updateUserProfileSchema_parse data = Inr pu \<Longrightarrow>
     updateUserProfileSchema_parse (spread_with data ''interests'' (JArr xs)) = Inr (pu\<lparr>pu_interests := Put (Some (JArr xs))\<rparr>)"
  by (auto simp: updateUserProfileSchema_parse_def Let_def split: sum.splits)

lemma updateUserProfile_users:
  "users (snd (updateUserProfile i pu now d)) = map (\<lambda>u. if uid u = i then apply_profile pu now u else u) (users d)"
  by (simp add: updateUserProfile_def Let_def)

lemma interests_apply_profile [simp]: "interests (apply_profile pu now u) = apply_upd (pu_interests pu) (interests u)"
  by (simp add: apply_profile_def)

lemma updateUserProfile_row:
  assumes "usr \<in> set (users (snd (updateUserProfile i pu now d)))" and "uid usr = i"
  shows "\<exists>x \<in> set (users d). usr = apply_profile pu now x"
proof -
  obtain x where x: "x \<in> set (users d)" "usr = (if uid x = i then apply_profile pu now x else x)"
    using assms(1) by (auto simp: updateUserProfile_users)
  then have "uid x = i"
    using assms(2) by (auto split: if_splits)
  with x show ?thesis by auto
qed

lemma profile_handler_uids: "map uid (users (snd (snd (profile_handler now u b d)))) = map uid (users d)"
  by (cases "updateUserProfileSchema_parse b")
     (simp_all add: profile_handler_Inl profile_handler_Inr updateUserProfile_users comp_def)

lemma alice_nature_db_users: "map uid (users alice_nature_db) = [1] \<and> interests (hd (users alice_nature_db)) = Some (JArr [JStr ''Nature''])"
  by (simp add: alice_nature_db_def updateUserProfile_users alice_db_eq)

lemma dispatch_profile_call [simp]:
  "dispatch c (profile_call b sel) = Some \<lparr>rq_cookie = c, rq_route = PatchProfile, rq_body = ac_body (profile_call b sel)\<rparr>"
  by (simp add: dispatch_def profile_call_def route_of_def path_segments_def fixed_routes_def)

lemma dispatch_signin_call [simp]:
  "dispatch c (signin_call b) = Some \<lparr>rq_cookie = c, rq_route = SignIn, rq_body = b\<rparr>"
  by (simp add: dispatch_def signin_call_def route_of_def path_segments_def fixed_routes_def)

lemma dispatch_logout_call [simp]: "dispatch c logout_call = None"
  by (simp add: dispatch_def logout_call_def route_of_def path_segments_def fixed_routes_def)

lemma search_onSubmit_Some:
  "search_onSubmit f = Some (rs, call) \<Longrightarrow> rs = search_results \<and> call = history_call (search_data f)"
  by (simp add: search_onSubmit_def handleSearch_def split: if_splits)

text \<open>The search form's data never passes the search-history schema: \<open>checkin\<close> is a
  string where \<open>z.date()\<close> wants a \<open>Date\<close>.\<close>

lemma postHistory_search_data:
  "\<exists>errs. postHistory_handler now u (search_data f) d = (invalid_data errs, NoChange, d)"
  by (auto simp: postHistory_handler_def insertSearchHistorySchema_parse_def search_data_def Let_def)

lemma signin_form_parse:
  "sf_username f \<noteq> [] \<Longrightarrow> sf_password f \<noteq> [] \<Longrightarrow>
     signInSchema_parse (signin_form_data f) = Inr \<lparr>si_username = sf_username f, si_password = sf_password f\<rparr>"
  by (simp add: signInSchema_parse_def signin_form_data_def z_string_min_def Suc_le_eq)

lemma profile_form_parse:
  assumes "pf_firstName f \<noteq> []" and "pf_lastName f \<noteq> []"
  shows "updateUserProfileSchema_parse (spread_with (profile_form_data f) ''interests'' (JArr (map JStr sel))) =
           Inr \<lparr>pu_firstName = pf_firstName f, pu_lastName = pf_lastName f, pu_phone = Put (Some (pf_phone f)),
                pu_budgetRange = Put (Some (pf_budgetRange f)), pu_travelStyle = Put (Some (pf_travelStyle f)),
                pu_interests = Put (Some (JArr (map JStr sel)))\<rparr>"
  using assms by (simp add: updateUserProfileSchema_parse_def profile_form_data_def z_string_min_def Let_def Suc_le_eq)

lemma profile_form_submits:
  assumes "pf_firstName f \<noteq> []" and "pf_lastName f \<noteq> []"
  shows "profile_onSubmit (profile_form_data f) sel = Some (profile_call (profile_form_data f) sel)"
proof -
  have "\<exists>pu. updateUserProfileSchema_parse (profile_form_data f) = Inr pu"
    using assms by (cases "pf_interests f") (simp_all add: updateUserProfileSchema_parse_def profile_form_data_def z_string_min_def Let_def Suc_le_eq)
  then show ?thesis by (auto simp: profile_onSubmit_def)
qed

subsection \<open>Properties\<close>

text \<open>C37: Toggling an interest flips its membership and leaves every other interest as it
  was; a list without duplicates stays without duplicates.\<close>

theorem toggleInterest_flips:
  "set (toggleInterest x l) = (if x \<in> set l then set l - {x} else insert x (set l)) \<and>
   (distinct l \<longrightarrow> distinct (toggleInterest x l))"
  by (auto simp: toggleInterest_def)

theorem toggleInterest_flips_witness:
  "set (toggleInterest ''Food'' [''Nature'']) = {''Food'', ''Nature''} \<and> distinct (toggleInterest ''Food'' [''Nature''])"
  using toggleInterest_flips[of "''Food''" "[''Nature'']"] by (simp add: toggleInterest_def)

text \<open>C38: At most one item of the navigation is highlighted, whatever the location.\<close>

theorem nav_single_active: "length (filter (isActive loc) navPaths) \<le> 1"
  by (cases loc; cases "tl loc") (auto simp: navPaths_def navItems_def isActive_def)

text \<open>C32: Submitting the profile form without touching the interest badges stores an empty
  interest list for the user, whatever interests the profile had: \<open>selectedInterests\<close>
  starts empty instead of from the loaded profile, and the request always sends it.\<close>

theorem profile_submit_drops_interests:
  assumes "profile_onSubmit data initial_interests = Some call"
    and "profile_handler now u (ac_body call) d = (r, a, d')"
  shows "\<forall>usr \<in> set (users d'). uid usr = u \<longrightarrow> interests usr = Some (JArr [])"
proof -
  obtain pu where p: "updateUserProfileSchema_parse data = Inr pu"
    and c: "ac_body call = spread_with data ''interests'' (JArr [])"
    using assms(1) by (cases "updateUserProfileSchema_parse data")
      (auto simp: profile_onSubmit_def profile_call_def initial_interests_def)
  have "profile_handler now u (ac_body call) d =
          ((200, opt_json (\<lambda>usr. JObj (user_json usr))
                   (fst (updateUserProfile u (pu\<lparr>pu_interests := Put (Some (JArr []))\<rparr>) now d))),
           NoChange, snd (updateUserProfile u (pu\<lparr>pu_interests := Put (Some (JArr []))\<rparr>) now d))"
    unfolding c by (rule profile_handler_Inr[OF profile_parse_interests[OF p]])
  then have "d' = snd (updateUserProfile u (pu\<lparr>pu_interests := Put (Some (JArr []))\<rparr>) now d)"
    using assms(2) by simp
  then show ?thesis
    using updateUserProfile_row by fastforce
qed

theorem profile_submit_drops_interests_witness:
  "interests (hd (users alice_nature_db)) = Some (JArr [JStr ''Nature'']) \<and>
   interests (hd (users (snd (snd (profile_handler 5 1 (spread_with alice_profile_form ''interests'' (JArr []))
                                     alice_nature_db))))) = Some (JArr [])"
proof -
  define b where "b = spread_with alice_profile_form ''interests'' (JArr [])"
  define d' where "d' = snd (snd (profile_handler 5 1 b alice_nature_db))"
  have s: "profile_onSubmit alice_profile_form initial_interests =
          Some \<lparr>ac_method = ''PATCH'', ac_path = ''/api/user/profile'', ac_body = b\<rparr>"
    by (simp add: b_def profile_onSubmit_def profile_call_def initial_interests_def alice_profile_form_def
        updateUserProfileSchema_parse_def z_string_min_def Let_def)
  have "\<forall>usr \<in> set (users d'). uid usr = 1 \<longrightarrow> interests usr = Some (JArr [])"
    using profile_submit_drops_interests[OF s, of 5 1 alice_nature_db] by (simp add: d'_def prod_eq_iff)
  moreover have "map uid (users d') = [1]"
    using profile_handler_uids alice_nature_db_users by (simp add: d'_def)
  ultimately show ?thesis
    using alice_nature_db_users by (cases "users d'") (auto simp: b_def d'_def)
qed

text \<open>C39: A profile form with both names filled in passes the page's validation and is sent;
  the server then stores for the user exactly the form's names, phone, budget range and
  travel style, and the selected interests (the round trip of the profile page).\<close>

theorem profile_form_stored:
  assumes "pf_firstName f \<noteq> []" and "pf_lastName f \<noteq> []"
  shows "profile_onSubmit (profile_form_data f) sel = Some (profile_call (profile_form_data f) sel) \<and>
         (\<forall>usr \<in> set (users (snd (snd (profile_handler now u (ac_body (profile_call (profile_form_data f) sel)) d)))).
            uid usr = u \<longrightarrow>
              firstName usr = Some (pf_firstName f) \<and> lastName usr = Some (pf_lastName f) \<and>
              phone usr = Some (pf_phone f) \<and> budgetRange usr = Some (pf_budgetRange f) \<and>
              travelStyle usr = Some (pf_travelStyle f) \<and> interests usr = Some (JArr (map JStr sel)))"
proof -
  have "snd (snd (profile_handler now u (ac_body (profile_call (profile_form_data f) sel)) d)) =
          snd (updateUserProfile u \<lparr>pu_firstName = pf_firstName f, pu_lastName = pf_lastName f,
                pu_phone = Put (Some (pf_phone f)), pu_budgetRange = Put (Some (pf_budgetRange f)),
                pu_travelStyle = Put (Some (pf_travelStyle f)), pu_interests = Put (Some (JArr (map JStr sel)))\<rparr> now d)"
    using profile_handler_Inr[OF profile_form_parse[OF assms]] by (simp add: profile_call_def)
  then show ?thesis
    using profile_form_submits[OF assms] updateUserProfile_row
    by (fastforce simp: apply_profile_def)
qed

theorem profile_form_stored_witness:
  "travelStyle (hd (users (snd (snd (profile_handler 0 1 (ac_body (profile_call (profile_form_data alice_form) [''Art'']))
      alice_db))))) = Some ''family''"
proof -
  define d' where "d' = snd (snd (profile_handler 0 1 (ac_body (profile_call (profile_form_data alice_form) [''Art''])) alice_db))"
  have "\<forall>usr \<in> set (users d'). uid usr = 1 \<longrightarrow> travelStyle usr = Some ''family''"
    using profile_form_stored[of alice_form "[''Art'']" 0 1 alice_db] by (simp add: d'_def alice_form_def)
  moreover have "map uid (users d') = [1]"
    using profile_handler_uids by (simp add: d'_def alice_db_eq)
  ultimately show ?thesis
    by (cases "users d'") (auto simp: d'_def)
qed

text \<open>Following a navigation item closes the mobile menu and highlights exactly that
  item; on the profile page no item is highlighted.\<close>

theorem nav_click_highlights:
  assumes "p \<in> set navPaths"
  shows "filter (isActive (nav_location (nav_step (ClickNavItem p) st))) navPaths = [p] \<and>
         \<not> menu_open (nav_step (ClickNavItem p) st) \<and>
         filter (isActive (nav_location (nav_step ClickProfileLink st))) navPaths = []"
  using assms by (auto simp: navPaths_def navItems_def isActive_def)

theorem nav_click_highlights_witness:
  "filter (isActive (nav_location (nav_step (ClickNavItem ''/trips'') \<lparr>menu_open = True, nav_location = ''/''\<rparr>))) navPaths
     = [''/trips'']"
  using nav_click_highlights[of "''/trips''" "\<lparr>menu_open = True, nav_location = ''/''\<rparr>"]
  by (simp add: navPaths_def navItems_def)

end
