(* ===== verification/HomeState.thy ===== *)
theory HomeState
  imports ClientForms
begin

text \<open>
  The home page (\<open>pages/home.tsx\<close>) as a state machine over time: its state hooks
  \<open>activeTab\<close>, \<open>searchResults\<close> and \<open>isSearching\<close>, the pending callbacks of the
  2-second \<open>setTimeout\<close> that \<open>handleSearch\<close> schedules, and the page's clock in
  milliseconds. An event is a click on a tab, a submit of the search form or time
  passing; time passing runs every callback whose deadline has come. The reachable
  states are those of the page since it was mounted; the lemmas show the invariant
  they keep and that the spinner always stops within two seconds.
\<close>

section \<open>State and events\<close>

record home_state =
  activeTab :: string
  searchResults :: "travel_option list"
  isSearching :: bool
  home_timers :: "nat list"
  home_now :: nat

definition home_init :: home_state where
  "home_init = \<lparr>activeTab = ''search'', searchResults = [], isSearching = False, home_timers = [], home_now = 0\<rparr>"

text \<open>The delay of the simulated search, \<open>setTimeout(..., 2000)\<close>.\<close>

definition searchDelay :: nat where
  "searchDelay = 2000"

text \<open>The events: \<open>onValueChange={setActiveTab}\<close> of the tabs and the compare tab's
  "Discover Options" button (\<open>setActiveTab('search')\<close>); a submit of the search form,
  which reaches \<open>handleSearch\<close> only past the form's destination guard; and time passing.\<close>

datatype home_event = SetTab string | SubmitHomeSearch search_form | Elapse nat

text \<open>The timer callback: \<open>setSearchResults(allOptions); setIsSearching(false)\<close> and a
  toast. Every callback whose deadline has passed runs; they all write the same values,
  so their order does not matter.\<close>

definition fire_timers :: "home_state \<Rightarrow> home_state" where
  "fire_timers h =
     (if list_ex (\<lambda>d. d \<le> home_now h) (home_timers h)
      then h\<lparr>home_timers := filter (\<lambda>d. \<not> d \<le> home_now h) (home_timers h),
             searchResults := search_results, isSearching := False\<rparr>
      else h)"

text \<open>One step of the page and the requests it sends: \<open>handleSearch\<close> sets the flag and
  the tab, schedules the callback and posts the search data to the history.\<close>

fun home_step :: "home_event \<Rightarrow> home_state \<Rightarrow> home_state \<times> api_call list" where
  "home_step (SetTab t) h = (h\<lparr>activeTab := t\<rparr>, [])"
| "home_step (SubmitHomeSearch f) h =
     (case search_onSubmit f of
        None \<Rightarrow> (h, [])
      | Some (rs, call) \<Rightarrow>
          (h\<lparr>isSearching := True, activeTab := ''search'',
             home_timers := home_timers h @ [home_now h + searchDelay]\<rparr>, [call]))"
| "home_step (Elapse n) h = (fire_timers (h\<lparr>home_now := home_now h + n\<rparr>), [])"

text \<open>What the search tab shows: the spinner while \<open>isSearching\<close>, the results when
  \<open>searchResults.length > 0 && !isSearching\<close>.\<close>

definition home_spinner :: "home_state \<Rightarrow> bool" where
  "home_spinner h \<longleftrightarrow> activeTab h = ''search'' \<and> isSearching h"

definition home_results_shown :: "home_state \<Rightarrow> bool" where
  "home_results_shown h \<longleftrightarrow> activeTab h = ''search'' \<and> searchResults h \<noteq> [] \<and> \<not> isSearching h"

inductive home_reach :: "home_state \<Rightarrow> bool" where
  init: "home_reach home_init"
| step: "home_reach h \<Longrightarrow> home_reach (fst (home_step e h))"

text \<open>The invariant: the flag is set only while a callback is pending, every pending
  callback is due within the delay, and the results are none or all the options.\<close>

definition home_inv :: "home_state \<Rightarrow> bool" where
  "home_inv h \<longleftrightarrow>
     (isSearching h \<longrightarrow> home_timers h \<noteq> []) \<and>
     list_all (\<lambda>d. d \<le> home_now h + searchDelay) (home_timers h) \<and>
     (searchResults h = [] \<or> searchResults h = search_results)"

text \<open>A search for Paris, used by the examples.\<close>

definition paris_search :: search_form where
  "paris_search = search_defaults\<lparr>sf_destination := ''Paris''\<rparr>"

section \<open>Lemmas\<close>

lemma fire_timers_inv:
  "list_all (\<lambda>d. d \<le> home_now h + searchDelay) (home_timers h) \<Longrightarrow>
   (isSearching h \<longrightarrow> home_timers h \<noteq> []) \<Longrightarrow>
   (searchResults h = [] \<or> searchResults h = search_results) \<Longrightarrow> home_inv (fire_timers h)"
  by (auto simp: home_inv_def fire_timers_def list_all_iff list_ex_iff)

lemma home_step_inv:
  assumes "home_inv h"
  shows "home_inv (fst (home_step e h))"
proof (cases e)
  case (Elapse n)
  show ?thesis
    unfolding Elapse home_step.simps fst_conv
    using assms by (intro fire_timers_inv) (auto simp: home_inv_def list_all_iff)
qed (use assms in \<open>auto simp: home_inv_def list_all_iff split: option.splits\<close>)

lemma home_reach_inv: "home_reach h \<Longrightarrow> home_inv h"
  by (induction rule: home_reach.induct)
     (simp add: home_init_def home_inv_def, simp add: home_step_inv)

text \<open>Once the clock has passed every deadline, no callback is pending and the flag is down.\<close>

lemma fire_timers_all_due:
  assumes "list_all (\<lambda>d. d \<le> home_now h) (home_timers h)" and "isSearching h \<longrightarrow> home_timers h \<noteq> []"
  shows "\<not> isSearching (fire_timers h) \<and> home_timers (fire_timers h) = [] \<and>
         (home_timers h \<noteq> [] \<longrightarrow> searchResults (fire_timers h) = search_results)"
proof (cases "home_timers h")
  case (Cons d ds)
  then have "list_ex (\<lambda>d. d \<le> home_now h) (home_timers h)"
    using assms(1) by simp
  then show ?thesis
    using assms(1) by (simp add: fire_timers_def list_all_iff filter_empty_conv)
qed (use assms in \<open>simp add: fire_timers_def\<close>)

lemma home_step_Elapse_due:
  assumes "home_inv h" and "searchDelay \<le> n"
  shows "list_all (\<lambda>d. d \<le> home_now (h\<lparr>home_now := home_now h + n\<rparr>)) (home_timers h)"
  using assms by (auto simp: home_inv_def list_all_iff)

text \<open>Two searches one second apart overlap: the first callback clears the flag and
  shows the results while the second search's callback is still pending.\<close>

lemma overlapping_searches_flag:
  "home_results_shown
     (fst (home_step (Elapse 1000) (fst (home_step (SubmitHomeSearch paris_search)
       (fst (home_step (Elapse 1000) (fst (home_step (SubmitHomeSearch paris_search) home_init)))))))) \<and>
   home_timers
     (fst (home_step (Elapse 1000) (fst (home_step (SubmitHomeSearch paris_search)
       (fst (home_step (Elapse 1000) (fst (home_step (SubmitHomeSearch paris_search) home_init)))))))) = [3000]"
  by (simp add: paris_search_def search_defaults_def search_onSubmit_def handleSearch_def home_init_def
      fire_timers_def searchDelay_def home_results_shown_def search_results_def mockFlights_def)

subsection \<open>Properties\<close>

text \<open>C31: The search spinner always stops: in every state the home page can reach, once
  two seconds have passed every pending search callback has run, \<open>isSearching\<close> is
  false, and if a search was pending the results are all the options; after a search
  that passes the form's guard, the search tab shows the results two seconds later.\<close>

theorem search_spinner_stops:
  assumes "home_reach h" and "searchDelay \<le> n"
  shows "\<not> isSearching (fst (home_step (Elapse n) h)) \<and> home_timers (fst (home_step (Elapse n) h)) = [] \<and>
         (home_timers h \<noteq> [] \<longrightarrow> searchResults (fst (home_step (Elapse n) h)) = search_results) \<and>
         (search_onSubmit f \<noteq> None \<longrightarrow>
            home_results_shown (fst (home_step (Elapse n) (fst (home_step (SubmitHomeSearch f) h)))))"
proof -
  have all: "home_inv h' \<Longrightarrow>
      \<not> isSearching (fst (home_step (Elapse n) h')) \<and> home_timers (fst (home_step (Elapse n) h')) = [] \<and>
      (home_timers h' \<noteq> [] \<longrightarrow> searchResults (fst (home_step (Elapse n) h')) = search_results)" for h'
    using fire_timers_all_due[of "h'\<lparr>home_now := home_now h' + n\<rparr>"] home_step_Elapse_due[of h'] assms(2)
    by (simp add: home_inv_def)
  have inv: "home_inv h"
    using assms(1) by (rule home_reach_inv)
  moreover have "search_onSubmit f \<noteq> None \<Longrightarrow>
      home_results_shown (fst (home_step (Elapse n) (fst (home_step (SubmitHomeSearch f) h))))"
  proof -
    assume "search_onSubmit f \<noteq> None"
    then obtain rs call where sub: "search_onSubmit f = Some (rs, call)"
      by auto
    let ?h1 = "fst (home_step (SubmitHomeSearch f) h)"
    have "home_inv ?h1"
      using inv by (rule home_step_inv)
    then have "\<not> isSearching (fst (home_step (Elapse n) ?h1)) \<and>
               searchResults (fst (home_step (Elapse n) ?h1)) = search_results"
      using all[of ?h1] sub by simp
    moreover have "activeTab (fst (home_step (Elapse n) ?h1)) = ''search''"
      using sub by (simp add: fire_timers_def)
    ultimately show ?thesis
      by (simp add: home_results_shown_def search_results_def mockFlights_def)
  qed
  ultimately show ?thesis
    using all by blast
qed

theorem search_spinner_stops_witness:
  "\<not> isSearching (fst (home_step (Elapse 2000) home_init)) \<and>
   home_results_shown (fst (home_step (Elapse 2000) (fst (home_step (SubmitHomeSearch paris_search) home_init))))"
  using search_spinner_stops[OF home_reach.init, of 2000 paris_search]
  by (simp add: searchDelay_def paris_search_def search_defaults_def search_onSubmit_def)

end
