(* ===== verification/Client.thy ===== *)
theory Client
  imports ClientForms
begin

text \<open>
  The client as a whole: every action a user can take in the pages of
  \<open>src/client/src\<close> (\<open>client_action\<close>) and the request it sends, if any.
\<close>

section \<open>What a user can do\<close>

text \<open>Every action of the pages that talks to the server, or could: a search result's
  button (with the client's current list of saved options), the remove button of a trip
  card, the two queries, the search form of the home page and of the landing page, the
  profile form with the selected interests, the sign-in form and the sign-out link.\<close>

datatype client_action =
    ClickCard "json list" travel_option
  | RemoveTrip string
  | LoadSavedOptions
  | LoadUser
  | SubmitSearch search_form
  | LandingSearch search_form
  | SubmitProfile jobj "string list"
  | SubmitSignIn signin_form
  | ClickLogout

fun client_request :: "client_action \<Rightarrow> api_call option" where
  "client_request (ClickCard saved t) = Some (card_click saved t)"
| "client_request (RemoveTrip oid) = Some (remove_call oid)"
| "client_request LoadSavedOptions = Some saved_query"
| "client_request LoadUser = Some user_query"
| "client_request (SubmitSearch f) = map_option snd (search_onSubmit f)"
| "client_request (LandingSearch f) = None"
| "client_request (SubmitProfile data sel) = profile_onSubmit data sel"
| "client_request (SubmitSignIn f) = signin_onSubmit (signin_form_data f)"
| "client_request ClickLogout = Some logout_call"

text \<open>The request the server receives for an action taken with session cookie \<open>c\<close>, if
  the action sends one and a route matches it.\<close>

definition client_send :: "sid option \<Rightarrow> client_action \<Rightarrow> request option" where
  "client_send c a = Option.bind (client_request a) (dispatch c)"

section \<open>Lemmas\<close>

lemma route_of_SignUp:
  "route_of m p = Some SignUp \<Longrightarrow> m = ''POST'' \<and> path_segments p = Some [''api'', ''auth'', ''signup'']"
proof -
  assume r: "route_of m p = Some SignUp"
  then obtain ws where ws: "path_segments p = Some ws"
    by (auto simp: route_of_def split: option.splits)
  have "param_route m ws \<noteq> Some SignUp"
    by (induction m ws rule: param_route.induct) auto
  then have "map_of fixed_routes (m, ws) = Some SignUp"
    using r ws by (auto simp: route_of_def split: option.splits)
  then show ?thesis
    using ws by (auto simp: fixed_routes_def split: if_splits)
qed

lemma dispatch_SignUp:
  "dispatch c call = Some rq \<Longrightarrow> rq_route rq = SignUp \<Longrightarrow>
     ac_method call = ''POST'' \<and> path_segments (ac_path call) = Some [''api'', ''auth'', ''signup'']"
  by (auto simp: dispatch_def dest: route_of_SignUp)


lemma path_segments_ne:
  "path_segments ''/api/saved-options'' \<noteq> Some [''api'', ''auth'', ''signup'']"
  "path_segments ''/api/search-history'' \<noteq> Some [''api'', ''auth'', ''signup'']"
  "path_segments ''/api/auth/signin'' \<noteq> Some [''api'', ''auth'', ''signup'']"
  by (simp_all add: path_segments_def)

subsection \<open>Properties\<close>




text \<open>C30: Every request the client sends reaches the route it means (saving, removing
  and listing options, posting a search, updating the profile, signing in), except the
  navigation's sign-out link: \<open>GET /api/logout\<close> matches no route of the API, whose
  sign-out is \<open>POST /api/auth/signout\<close>.\<close>

theorem client_calls_routed:
  assumes "t \<in> set search_results"
  shows "map_option rq_route (dispatch c (save_call t)) = Some PostSavedOption \<and>
         map_option rq_route (dispatch c (remove_call (to_id t))) = Some (DeleteSavedOption (to_id t)) \<and>
         map_option rq_route (dispatch c saved_query) = Some GetSavedOptions \<and>
         map_option rq_route (dispatch c (history_call b)) = Some PostSearchHistory \<and>
         map_option rq_route (dispatch c (profile_call b sel)) = Some PatchProfile \<and>
         map_option rq_route (dispatch c (signin_call b)) = Some SignIn \<and>
         dispatch c logout_call = None \<and> route_of ''POST'' ''/api/auth/signout'' = Some SignOut"
  using search_result_id_ok[OF assms]
  by (simp add: dispatch_remove_call route_of_def path_segments_def fixed_routes_def)

theorem client_calls_routed_witness:
  "dispatch None logout_call = None \<and>
   map_option rq_route (dispatch None (remove_call (to_id (hd mockHotels)))) = Some (DeleteSavedOption ''hotel1'')"
  using client_calls_routed[of "hd mockHotels" None "[]" "[]"] by (simp add: search_results_def mockHotels_def)

end
