(* ===== verification/SignInFlow.thy ===== *)
theory SignInFlow
  imports Client Server
begin

text \<open>
  The sign-in page (\<open>pages/signin.tsx\<close>) running against the server: the page's state
  (the form, \<open>isLoading\<close>, the location and the last toast), the browser's session
  cookie, the requests in transit to the server and the responses in transit back,
  and the server's state. The page's events are typing into the two inputs, clicking
  the submit button, and receiving a response; the server either serves the oldest
  request of the page or takes any step of its own (another client's request, time
  passing). The composed system keeps the server's invariants and lets the page have at
  most one sign-in in flight.
\<close>

section \<open>The page\<close>

text \<open>\<open>useLocation()\<close>, \<open>isLoading\<close> and the toast of the last answer.\<close>

record signin_page =
  sp_form :: signin_form
  sp_loading :: bool
  sp_location :: string
  sp_toast :: "signin_result option"

definition signin_page_init :: signin_page where
  "signin_page_init = \<lparr>sp_form = signin_defaults, sp_loading = False, sp_location = ''/signin'', sp_toast = None\<rparr>"

text \<open>The submit button's label.\<close>

definition signin_button_label :: "signin_page \<Rightarrow> string" where
  "signin_button_label p = (if sp_loading p then ''Signing in...'' else ''Sign In'')"

text \<open>The end of \<open>onSubmit\<close> once \<open>apiRequest\<close> has settled: the toast, the navigation to
  \<open>/\<close> on success, and \<open>finally setIsLoading(false)\<close>.\<close>

definition signin_settle :: "response \<Rightarrow> signin_page \<Rightarrow> signin_page" where
  "signin_settle r p =
     p\<lparr>sp_loading := False, sp_toast := Some (signin_outcome r),
       sp_location := (case signin_outcome r of SignedIn l \<Rightarrow> l | SignInFailed _ _ \<Rightarrow> sp_location p)\<rparr>"

section \<open>The page and the server\<close>

record signin_sys =
  ss_page :: signin_page
  ss_cookie :: "sid option"
  ss_requests :: "request list"
  ss_responses :: "response list"
  ss_server :: server

datatype signin_event = EditUsername string | EditPassword string | ClickSignIn | ServeRequest | ReceiveResponse

text \<open>The inputs and the button are \<open>disabled={isLoading}\<close>, so while a sign-in is in
  flight typing and submitting do nothing (with every control disabled the form cannot
  be submitted by Enter either). A submit that passes \<open>zodResolver(signInSchema)\<close> sets
  \<open>isLoading\<close> and sends the request with the browser's cookie. The server answers the
  oldest request with its \<open>Set-Cookie\<close>, which the browser stores; the page settles on
  the oldest answer.\<close>

fun signin_step :: "signin_event \<Rightarrow> signin_sys \<Rightarrow> signin_sys" where
  "signin_step (EditUsername v) s =
     (if sp_loading (ss_page s) then s
      else s\<lparr>ss_page := (ss_page s)\<lparr>sp_form := (sp_form (ss_page s))\<lparr>sf_username := v\<rparr>\<rparr>\<rparr>)"
| "signin_step (EditPassword v) s =
     (if sp_loading (ss_page s) then s
      else s\<lparr>ss_page := (ss_page s)\<lparr>sp_form := (sp_form (ss_page s))\<lparr>sf_password := v\<rparr>\<rparr>\<rparr>)"
| "signin_step ClickSignIn s =
     (if sp_loading (ss_page s) then s
      else (case client_send (ss_cookie s) (SubmitSignIn (sp_form (ss_page s))) of
              None \<Rightarrow> s
            | Some rq \<Rightarrow> s\<lparr>ss_page := (ss_page s)\<lparr>sp_loading := True\<rparr>, ss_requests := ss_requests s @ [rq]\<rparr>))"
| "signin_step ServeRequest s =
     (case ss_requests s of
        [] \<Rightarrow> s
      | rq # rest \<Rightarrow>
          (case serve rq (ss_server s) of
             (r, st') \<Rightarrow> s\<lparr>ss_requests := rest, ss_responses := ss_responses s @ [r], ss_server := st'\<rparr>))"
| "signin_step ReceiveResponse s =
     (case ss_responses s of
        [] \<Rightarrow> s
      | r # rest \<Rightarrow>
          s\<lparr>ss_page := signin_settle r (ss_page s), ss_responses := rest,
            ss_cookie := (case set_cookie r of None \<Rightarrow> ss_cookie s | Some c \<Rightarrow> Some c)\<rparr>)"

text \<open>The page is opened with whatever cookie the browser holds, at any reachable state of
  the server; then the page's events and the server's own steps interleave.\<close>

inductive signin_reach :: "signin_sys \<Rightarrow> bool" where
  init: "reachable st \<Longrightarrow>
         signin_reach \<lparr>ss_page = signin_page_init, ss_cookie = c, ss_requests = [], ss_responses = [], ss_server = st\<rparr>"
| page: "signin_reach s \<Longrightarrow> signin_reach (signin_step e s)"
| server: "signin_reach s \<Longrightarrow> server_step (ss_server s) st' \<Longrightarrow> signin_reach (s\<lparr>ss_server := st'\<rparr>)"

definition in_flight :: "signin_sys \<Rightarrow> nat" where
  "in_flight s = length (ss_requests s) + length (ss_responses s)"

definition signin_sys_inv :: "signin_sys \<Rightarrow> bool" where
  "signin_sys_inv s \<longleftrightarrow> reachable (ss_server s) \<and> in_flight s \<le> 1 \<and> (sp_loading (ss_page s) \<longleftrightarrow> in_flight s = 1)"

text \<open>Alice opens the page after signing up and clicks twice.\<close>

definition alice_page :: signin_sys where
  "alice_page =
     signin_step ClickSignIn (signin_step ClickSignIn
       (signin_step (EditPassword ''secret1'') (signin_step (EditUsername ''alice'')
         \<lparr>ss_page = signin_page_init, ss_cookie = None, ss_requests = [], ss_responses = [],
          ss_server = after_signup\<rparr>)))"

section \<open>Lemmas\<close>

lemma serve_reachable: "reachable st \<Longrightarrow> reachable (snd (serve rq st))"
  by (rule reachable.step[OF _ server_step.request])

lemma signin_step_inv:
  assumes "signin_sys_inv s"
  shows "signin_sys_inv (signin_step e s)"
proof (cases e)
  case ClickSignIn
  then show ?thesis
    using assms by (auto simp: signin_sys_inv_def in_flight_def le_Suc_eq split: option.splits)
next
  case ServeRequest
  then show ?thesis
    using assms serve_reachable
    by (auto simp: signin_sys_inv_def in_flight_def split: list.splits prod.splits) (metis snd_conv)+
next
  case ReceiveResponse
  then show ?thesis
    using assms by (auto simp: signin_sys_inv_def in_flight_def signin_settle_def split: list.splits)
qed (use assms in \<open>simp_all add: signin_sys_inv_def in_flight_def\<close>)

lemma signin_reach_inv: "signin_reach s \<Longrightarrow> signin_sys_inv s"
proof (induction rule: signin_reach.induct)
  case (init st c)
  then show ?case
    by (simp add: signin_sys_inv_def in_flight_def signin_page_init_def)
next
  case (page s e)
  from page.IH show ?case
    by (rule signin_step_inv)
next
  case (server s st')
  then show ?case
    by (auto simp: signin_sys_inv_def in_flight_def intro: reachable.step)
qed

lemma signin_step_settles:
  assumes "signin_sys_inv s"
  shows "\<not> sp_loading (ss_page (signin_step ReceiveResponse (signin_step ServeRequest s)))"
  using assms
  by (auto simp: signin_sys_inv_def in_flight_def signin_settle_def le_Suc_eq length_Suc_conv
      split: list.splits prod.splits)

lemma in_flight_one:
  "in_flight s \<le> 1 \<Longrightarrow> (in_flight s = 1 \<longleftrightarrow> ss_requests s \<noteq> [] \<or> ss_responses s \<noteq> [])"
  by (cases "ss_requests s"; cases "ss_responses s") (auto simp: in_flight_def)

subsection \<open>Properties\<close>



end
