(* ===== verification/FormPages.thy ===== *)
theory FormPages
  imports ClientForms
begin

text \<open>
  The form pages over their events: the landing page's search form
  (\<open>pages/landing.tsx\<close>), whose fields are React state and whose search button only
  alerts, and the profile page (\<open>pages/profile.tsx\<close>), whose form, selected interests
  and update mutation change as the user types, selects, clicks interest badges and
  submits. The lemmas show what the reachable states keep: the landing form's traveller
  count is one of the select's values, and the profile page's selected interests are
  distinct available interests, so every update it sends carries such a list.
\<close>

section \<open>The landing page's form\<close>

text \<open>The traveller select's items, \<open>value\<close> and label.\<close>

definition travelerOptions :: "(string \<times> string) list" where
  "travelerOptions = [(''1'', ''1 Adult''), (''2'', ''2 Adults''), (''3'', ''3 Adults''), (''4'', ''4+ Adults'')]"

text \<open>The inputs' \<open>onChange\<close> (\<open>setDestination(e.target.value)\<close>, ...), the select's
  \<open>onValueChange={setTravelers}\<close>, which offers only its items, and the search button.\<close>

datatype landing_event =
    LandingDestination string
  | LandingCheckin string
  | LandingCheckout string
  | LandingTravelers string
  | LandingSearchClick

text \<open>A step of the landing page: the new form and the alert it shows, if any.\<close>

fun landing_step :: "landing_event \<Rightarrow> search_form \<Rightarrow> search_form \<times> string option" where
  "landing_step (LandingDestination v) f = (f\<lparr>sf_destination := v\<rparr>, None)"
| "landing_step (LandingCheckin v) f = (f\<lparr>sf_checkin := v\<rparr>, None)"
| "landing_step (LandingCheckout v) f = (f\<lparr>sf_checkout := v\<rparr>, None)"
| "landing_step (LandingTravelers v) f =
     (if v \<in> set (map fst travelerOptions) then f\<lparr>sf_travelers := v\<rparr> else f, None)"
| "landing_step LandingSearchClick f = (f, Some (landing_handleSearch f))"

text \<open>A session on the landing page: the form after a sequence of events and the alerts
  shown, in order.\<close>

fun landing_run :: "landing_event list \<Rightarrow> search_form \<Rightarrow> search_form \<times> string list" where
  "landing_run [] f = (f, [])"
| "landing_run (e # es) f =
     (case landing_step e f of
        (f', a) \<Rightarrow> (case landing_run es f' of (f'', as) \<Rightarrow> (f'', (case a of None \<Rightarrow> [] | Some m \<Rightarrow> [m]) @ as)))"

section \<open>The profile page\<close>

text \<open>The page's state: the form's values, \<open>selectedInterests\<close>, the mutation's
  \<open>isPending\<close> and the last toast.\<close>

record profile_page =
  pp_form :: profile_form
  pp_selected :: "string list"
  pp_pending :: bool
  pp_toast :: "string option"

definition profile_page_init :: "profile_form \<Rightarrow> profile_page" where
  "profile_page_init f = \<lparr>pp_form = f, pp_selected = initial_interests, pp_pending = False, pp_toast = None\<rparr>"

text \<open>The inputs and selects of the form, the interest badges, the submit button and the
  mutation settling with the server's answer.\<close>

datatype profile_event =
    EditFirstName string
  | EditLastName string
  | EditPhone string
  | SelectBudget string
  | SelectStyle string
  | ClickInterest string
  | SubmitProfileForm
  | ProfileSettled response

text \<open>The submit button is \<open>disabled={updateProfileMutation.isPending}\<close>; it is the
  form's only submit button, so while the mutation is pending the form is not submitted
  by Enter either. A submit that passes \<open>zodResolver\<close> starts the mutation, which sends
  the PATCH; \<open>onSuccess\<close> and \<open>onError\<close> toast. The selects offer only their items and
  the badges only the available interests.\<close>

fun profile_step :: "profile_event \<Rightarrow> profile_page \<Rightarrow> profile_page \<times> api_call list" where
  "profile_step (EditFirstName v) p = (p\<lparr>pp_form := (pp_form p)\<lparr>pf_firstName := v\<rparr>\<rparr>, [])"
| "profile_step (EditLastName v) p = (p\<lparr>pp_form := (pp_form p)\<lparr>pf_lastName := v\<rparr>\<rparr>, [])"
| "profile_step (EditPhone v) p = (p\<lparr>pp_form := (pp_form p)\<lparr>pf_phone := v\<rparr>\<rparr>, [])"
| "profile_step (SelectBudget v) p =
     (if v \<in> set budgetRanges then p\<lparr>pp_form := (pp_form p)\<lparr>pf_budgetRange := v\<rparr>\<rparr> else p, [])"
| "profile_step (SelectStyle v) p =
     (if v \<in> set travelStyles then p\<lparr>pp_form := (pp_form p)\<lparr>pf_travelStyle := v\<rparr>\<rparr> else p, [])"
| "profile_step (ClickInterest i) p =
     (if i \<in> set availableInterests then p\<lparr>pp_selected := toggleInterest i (pp_selected p)\<rparr> else p, [])"
| "profile_step SubmitProfileForm p =
     (if pp_pending p then (p, [])
      else (case profile_onSubmit (profile_form_data (pp_form p)) (pp_selected p) of
              None \<Rightarrow> (p, [])
            | Some call \<Rightarrow> (p\<lparr>pp_pending := True\<rparr>, [call])))"
| "profile_step (ProfileSettled r) p =
     (p\<lparr>pp_pending := False,
        pp_toast := Some (if 200 \<le> status r \<and> status r < 300 then ''Profile updated successfully!''
                          else ''Failed to update profile'')\<rparr>, [])"

definition profile_button_label :: "profile_page \<Rightarrow> string" where
  "profile_button_label p = (if pp_pending p then ''Updating...'' else ''Update Profile'')"

inductive profile_reach :: "profile_page \<Rightarrow> bool" where
  init: "profile_reach (profile_page_init f)"
| step: "profile_reach p \<Longrightarrow> profile_reach (fst (profile_step e p))"

definition interests_ok :: "string list \<Rightarrow> bool" where
  "interests_ok xs \<longleftrightarrow> distinct xs \<and> set xs \<subseteq> set availableInterests"

text \<open>Alice's loaded profile in the form.\<close>

definition alice_page_form :: profile_form where
  "alice_page_form =
     \<lparr>pf_firstName = ''Alice'', pf_lastName = ''Liddell'', pf_phone = [], pf_budgetRange = ''mid-range'',
      pf_travelStyle = ''relaxation'', pf_interests = JArr []\<rparr>"

section \<open>Lemmas\<close>

lemma landing_step_travelers:
  "sf_travelers f \<in> set (map fst travelerOptions) \<Longrightarrow>
   sf_travelers (fst (landing_step e f)) \<in> set (map fst travelerOptions)"
  by (cases e) auto

text \<open>Whatever the user does on the landing page, the traveller count stays one of the
  select's values and every alert is the request to sign in.\<close>

lemma landing_run_travelers:
  "sf_travelers f \<in> set (map fst travelerOptions) \<Longrightarrow>
   sf_travelers (fst (landing_run es f)) \<in> set (map fst travelerOptions) \<and>
   set (snd (landing_run es f)) \<subseteq> {''Please sign in to start searching for travel options!''}"
proof (induction es arbitrary: f)
  case (Cons e es)
  obtain f' a where s: "landing_step e f = (f', a)"
    by fastforce
  have "sf_travelers f' \<in> set (map fst travelerOptions)"
    using landing_step_travelers[OF Cons.prems, of e] s by simp
  moreover have "a = None \<or> a = Some ''Please sign in to start searching for travel options!''"
    using s by (cases e) (auto simp: landing_handleSearch_def)
  ultimately show ?case
    using Cons.IH[of f'] s by (auto simp: travelerOptions_def split: prod.split)
qed simp

lemma landing_defaults_travelers: "sf_travelers landing_defaults \<in> set (map fst travelerOptions)"
  by (simp add: landing_defaults_def travelerOptions_def)

lemma toggleInterest_ok:
  "interests_ok xs \<Longrightarrow> i \<in> set availableInterests \<Longrightarrow> interests_ok (toggleInterest i xs)"
  by (auto simp: interests_ok_def toggleInterest_def)

lemma profile_reach_interests: "profile_reach p \<Longrightarrow> interests_ok (pp_selected p)"
proof (induction rule: profile_reach.induct)
  case (init f)
  then show ?case
    by (simp add: profile_page_init_def initial_interests_def interests_ok_def)
next
  case (step p e)
  then show ?case
    by (cases e) (auto simp: toggleInterest_ok split: option.splits)
qed

subsection \<open>Properties\<close>

text \<open>C33: Every request the profile page sends, in any state it can reach, is the PATCH
  of its form with the selected interests, which are distinct interests of the page's
  list; it is sent only on a submit while no update is pending, and it makes the update
  pending, so the page never has two updates in flight.\<close>

theorem profile_sends_valid_interests:
  assumes "profile_reach p" and "call \<in> set (snd (profile_step e p))"
  shows "e = SubmitProfileForm \<and> \<not> pp_pending p \<and>
         call = profile_call (profile_form_data (pp_form p)) (pp_selected p) \<and>
         interests_ok (pp_selected p) \<and> pp_pending (fst (profile_step e p))"
  using assms(2) profile_reach_interests[OF assms(1)]
  by (cases e) (auto simp: profile_onSubmit_def split: if_splits option.splits sum.splits)

theorem profile_sends_valid_interests_witness:
  "interests_ok (pp_selected (fst (profile_step (ClickInterest ''Nature'') (profile_page_init alice_page_form)))) \<and>
   pp_pending (fst (profile_step SubmitProfileForm
     (fst (profile_step (ClickInterest ''Nature'') (profile_page_init alice_page_form)))))"
proof -
  let ?p = "fst (profile_step (ClickInterest ''Nature'') (profile_page_init alice_page_form))"
  have r: "profile_reach ?p"
    by (intro profile_reach.step profile_reach.init)
  have "snd (profile_step SubmitProfileForm ?p) = [profile_call (profile_form_data alice_page_form) [''Nature'']]"
    using profile_form_submits[of alice_page_form]
    by (simp add: profile_page_init_def initial_interests_def toggleInterest_def availableInterests_def
        alice_page_form_def)
  then show ?thesis
    using profile_sends_valid_interests[OF r, of "profile_call (profile_form_data alice_page_form) [''Nature'']"
        SubmitProfileForm]
    by (simp add: profile_page_init_def initial_interests_def toggleInterest_def availableInterests_def)
qed

end
