(* ===== verification/Spec2Isabelle.thy ===== *)
theory Spec2Isabelle
  imports Expiry HomeState SignInFlow FormPages
begin

text \<open>
  \<^bold>\<open>TravelCompanion, modelled in HOL.\<close>
  The program is an Express server (\<open>src/server\<close>) over a PostgreSQL database
  reached through drizzle (\<open>src/shared/schema.ts\<close>), and a React client
  (\<open>src/client/src\<close>) that talks to it over JSON. A request passes the session
  middleware, is dispatched by method and path to a handler, which validates the body
  with a zod schema, calls the storage layer and answers; the session is then saved or
  destroyed. The development follows this path, one theory per part:

  \<^item> \<open>Prelude\<close>: JSON values (numbers are rationals; \<open>as_int\<close> is PostgreSQL's
    conversion to an \<open>integer\<close> column), JavaScript objects as association lists with
    the \<open>{...obj, k: v}\<close> spread, \<open>ORDER BY ... DESC\<close> as a stable descending sort and
    \<open>LIMIT\<close> as \<open>take\<close>, with their shared lemmas.
  \<^item> \<open>Validation\<close> (\<open>schema.ts\<close>, lines 64-109): every zod schema as a parser
    \<open>jobj \<Rightarrow> zissue list + record\<close>, issues collected over all fields as zod
    does; the email check is zod's regular expression written out; \<open>z.date()\<close>
    accepts nothing a JSON body can hold.
  \<^item> \<open>Storage\<close> (\<open>schema.ts\<close> tables, \<open>storage.ts\<close>): the three tables as row lists with
    their serial sequences, every \<open>DatabaseStorage\<close> method as a function
    \<open>db \<Rightarrow> result \<times> db\<close>; an insert draws its id before checking the primary key, the
    unique and the foreign keys, so a failed insert still advances the sequence.
    \<open>saved_view\<close> is the abstract view of one user's saved options (a multiset).
    bcrypt is the constructor \<open>BcryptHash cost password\<close>: \<open>compare\<close> is exact.
  \<^item> \<open>Session\<close> (\<open>auth.ts\<close> \<open>setupSession\<close>): express-session's MemoryStore as a map from
    session id to user id and expiry; loading touches a live session (24 hours,
    \<open>maxAge\<close>) and deletes an expired one; saving keeps the request's id.
  \<^item> \<open>Auth\<close> (\<open>auth.ts\<close>): \<open>isAuthenticated\<close> as \<open>gated\<close>, and the four auth handlers.
  \<^item> \<open>Routes\<close> (\<open>routes.ts\<close>): the seven resource handlers, the route table \<open>handle\<close>,
    Express's path dispatch \<open>route_of\<close>, and \<open>serve\<close>: load session, handle, commit.
  \<^item> \<open>Server\<close>: the running server as the step relation \<open>server_step\<close> (serve any
    request, or let time pass) with its reachable states, and the invariant
    \<open>server_inv\<close> proved by rule induction.
  \<^item> \<open>Expiry\<close>: a second invariant of the reachable states, that every stored session
    expires at most \<open>maxAge\<close> after the current time, and with it the liveness of
    expiry: after \<open>maxAge\<close> of inactivity no session is left.
  \<^item> \<open>ClientData\<close> (\<open>lib/travel-data.ts\<close>): the mock options, their JSON as
    \<open>apiRequest\<close> sends it and its reading back; \<open>api_call\<close>, the requests the client
    sends, and \<open>dispatch\<close>, which turns one into the server's \<open>request\<close>.
  \<^item> \<open>ClientHome\<close> (\<open>pages/home.tsx\<close>, \<open>travel-option-card.tsx\<close>,
    \<open>comparison-table.tsx\<close>): the search results, \<open>isSaved\<close> and the tab groups on the
    saved-options response, the save/remove requests, what a card, a trip card and a
    comparison row show.
  \<^item> \<open>ClientForms\<close> (\<open>travel-search.tsx\<close>, \<open>profile.tsx\<close>, \<open>signin.tsx\<close>,
    \<open>landing.tsx\<close>, \<open>navigation.tsx\<close>): the forms' values, defaults, client-side
    validation and requests, the sign-in outcome, the landing page's alert and links, and
    the navigation's menu as a small state machine (\<open>nav_step\<close>).
  \<^item> \<open>Client\<close>: every user action (\<open>client_action\<close>) and the request it sends
    (\<open>client_send\<close>), the interface between the pages and the server.
  \<^item> \<open>HomeState\<close> (\<open>pages/home.tsx\<close>): the home page as a state machine over time:
    the tab, the results, \<open>isSearching\<close>, the pending callbacks of the 2-second
    \<open>setTimeout\<close> of \<open>handleSearch\<close> and the clock (\<open>home_step\<close>), with its
    reachable states (\<open>home_reach\<close>) and invariant.
  \<^item> \<open>SignInFlow\<close> (\<open>pages/signin.tsx\<close> with the server): the sign-in page's state
    (\<open>isLoading\<close>, location, toast), the browser's cookie, the requests and answers in
    transit and the server's state, composed as one system (\<open>signin_reach\<close>) whose
    steps interleave the page's events, the serving of its requests in order and any
    other step of \<open>server_step\<close>.
  \<^item> \<open>FormPages\<close> (\<open>pages/landing.tsx\<close>, \<open>pages/profile.tsx\<close>): the landing page's
    form over its input, select and button events (\<open>landing_step\<close>), and the profile
    page's form, selected interests and update mutation over its events
    (\<open>profile_step\<close>), with the submit disabled while the mutation is pending.

\<^bold>\<open>What is proved.\<close> Per component: the parsers' behaviour on each field (errors
  included); the storage operations' effect on rows, ownership and the abstract view
  (refinement of \<open>saved_view\<close>); the auth handlers' responses (identical failures, no
  hash in the auth responses, duplicate username and email); the routes' scoping to the
  session's user and their idempotence; the session lifecycle (expiry, sign-out, the
  session id kept at sign-in); the server invariant in every reachable state and its
  consequences; session expiry (invariant and liveness); the client's encode/decode
  round trip, table shape, star bounds, the agreement of the three views of an option,
  the profile form's round trip to the database, interest toggle, navigation, route
  coverage, and that no page can sign up; that the home page's spinner always stops
  within the 2-second delay (liveness over the page's reachable states); that the
  sign-in page composed with the server keeps the server's invariant and has at most
  one sign-in in flight, never staying stuck in \<open>isLoading\<close>; that the profile page
  sends its update only while none is pending, with a duplicate-free list of available
  interests; and, as lemmas, that the landing page's traveller count stays one of the
  select's values and its button only ever shows the sign-in alert. Here: the gate,
  noninterference between users' saved options, the client's view and actions against the server's state, and that a
  registered user can always sign in from the sign-in page.

  \<^bold>\<open>Bounds.\<close> No loop of the program is unbounded: every operation is a structural
  recursion or a list function (\<open>map\<close>, \<open>filter\<close>, \<open>some\<close>, \<open>Array(n).fill\<close>), so no
  fuel is needed and there is no termination claim to make beyond the totality of the
  definitions; what may fail to end is the waiting on time and on the server, whose
  progress is stated as liveness (session expiry, the search callback after
  \<open>searchDelay\<close> = 2000 ms, a sign-in settling once served). The history limit is the
  source's \<open>LIMIT 10\<close>; session expiry is \<open>maxAge\<close> = 86400000 ms; a star count is a
  valid JavaScript array length below \<open>2^32\<close>.

  \<^bold>\<open>Not modelled.\<close> Rendering (JSX layout, styles, toasts; the spinners and the
  search timer are modelled in \<open>HomeState\<close>), React's scheduling and react-query's cache (a query's data
  is the latest response), the client-side router (\<open>App.tsx\<close> is not under \<open>src\<close>);
  \<open>server/db.ts\<close>, \<open>index.ts\<close> and the Vite setup, which are not under
  \<open>src\<close>; the \<open>sessions\<close> table, which the code never uses; the interleaving of
  concurrent requests between the awaited queries of one handler (each request is one
  step of \<open>server_step\<close>; the unique constraints that arbitrate racing sign-ups are
  modelled in \<open>createUser\<close>); bcrypt's cost and salt; the percent-decoding and
  case-insensitivity of Express's path matching.
\<close>

section \<open>Lemmas shared by the cross-component properties\<close>

lemma saved_view_cong: "savedOptions d' = savedOptions d \<Longrightarrow> saved_view d' = saved_view d"
  by (simp add: saved_view_def fun_eq_iff)

lemma createUser_savedOptions: "createUser sd now d = (x, d') \<Longrightarrow> savedOptions d' = savedOptions d"
  by (auto simp: createUser_def Let_def split: if_splits)

lemma saveSearchHistory_savedOptions: "saveSearchHistory hi now d = (x, d') \<Longrightarrow> savedOptions d' = savedOptions d"
  by (auto simp: saveSearchHistory_def Let_def split: option.splits prod.splits if_splits)

lemma signup_savedOptions: "savedOptions (snd (snd (signup_handler now su b d))) = savedOptions d"
  by (auto simp: signup_handler_def split: sum.splits option.splits prod.splits dest: createUser_savedOptions)

lemma postHistory_savedOptions: "savedOptions (snd (snd (postHistory_handler now u b d))) = savedOptions d"
  by (auto simp: postHistory_handler_def split: sum.splits prod.splits dest: saveSearchHistory_savedOptions)

lemma profile_savedOptions: "savedOptions (snd (snd (profile_handler now u b d))) = savedOptions d"
  by (cases "updateUserProfileSchema_parse b")
     (simp_all add: profile_handler_Inl profile_handler_Inr updateUserProfile_def Let_def)

lemma postSaved_saved_view:
  assumes "u \<noteq> v"
  shows "saved_view (snd (snd (postSaved_handler now u b d))) v = saved_view d v"
proof (cases "insertSavedOptionSchema_parse (spread_with b ''userId'' (JNum (of_int u)))")
  case (Inl errs)
  then show ?thesis by (simp add: postSaved_handler_def)
next
  case p: (Inr ins)
  have iu: "ins_userId ins = of_int u"
    using insertSavedOptionSchema_parse_Inr[OF p] by simp
  obtain res d' where s: "saveOption ins now d = (res, d')"
    by (cases "saveOption ins now d") blast
  show ?thesis
  proof (cases res)
    case (Inl e)
    have "snd (snd (postSaved_handler now u b d)) = d'"
      using p s Inl by (simp add: postSaved_handler_def)
    moreover have "savedOptions d' = savedOptions d"
      using saveOption_Inl[OF s[unfolded Inl]] by (elim disjE) simp_all
    ultimately show ?thesis
      using saved_view_cong[of d' d] by simp
  next
    case (Inr r)
    have "snd (snd (postSaved_handler now u b d)) = d'"
      using p s Inr by (simp add: postSaved_handler_def)
    moreover have "so_userId r = u"
      using saveOption_Inr[OF s[unfolded Inr]] iu by simp
    ultimately show ?thesis
      using saved_view_saveOption[OF s[unfolded Inr]] assms by simp
  qed
qed

lemma gated_db: "snd (snd (gated h now su b d)) = (if isAuthenticated su then snd (snd (h now (the su) b d)) else d)"
  by (simp add: gated_auth gated_unauth unauthorized_def)

lemma handle_savedOptions:
  "r \<noteq> PostSavedOption \<Longrightarrow> (\<forall>oid. r \<noteq> DeleteSavedOption oid) \<Longrightarrow>
     savedOptions (snd (snd (handle r now su b d))) = savedOptions d"
  by (cases r) (simp_all add: gated_db signup_savedOptions signin_handler_def signout_handler_def
      getUser_handler_def profile_savedOptions getSaved_handler_def checkSaved_handler_def
      getHistory_handler_def postHistory_savedOptions split: sum.splits option.splits)

lemma handle_saved_view:
  assumes "su \<noteq> Some v"
  shows "saved_view (snd (snd (handle r now su b d))) v = saved_view d v"
proof -
  have other: "the su \<noteq> v" if "isAuthenticated su"
    using that assms by (cases su) (auto simp: isAuthenticated_def)
  consider "r = PostSavedOption" | oid where "r = DeleteSavedOption oid"
    | "r \<noteq> PostSavedOption" "\<forall>oid. r \<noteq> DeleteSavedOption oid"
    by blast
  then show ?thesis
  proof cases
    case 1
    then show ?thesis
      using postSaved_saved_view other by (simp add: gated_db)
  next
    case (2 oid)
    then show ?thesis
      using other by (auto simp: gated_db deleteSaved_handler_def saved_view_removeSavedOption)
  next
    case 3
    then show ?thesis
      using saved_view_cong handle_savedOptions by metis
  qed
qed

lemma serve_live_result:
  assumes "load_session (rq_cookie rq) st = (Some (s, se), st1)" and "sess_userId se = Some u" and "0 < u"
  shows "status (fst (serve rq st)) = fst (fst (handle (rq_route rq) (clock st) (Some u) (rq_body rq) (db st))) \<and>
         payload (fst (serve rq st)) = snd (fst (handle (rq_route rq) (clock st) (Some u) (rq_body rq) (db st))) \<and>
         db (snd (serve rq st)) = snd (snd (handle (rq_route rq) (clock st) (Some u) (rq_body rq) (db st)))"
  using serve_live[OF assms] by (auto split: prod.splits dest!: commit_session_eqD)

lemma live_request:
  assumes "reachable st" and "fst (load_session c st) = Some (s, se)" and "sess_userId se = Some u"
  obtains st1 where "load_session c st = (Some (s, se), st1)" and "0 < u" and "u \<in> uids (db st)"
    and "db_inv (db st)"
proof -
  obtain st1 where l: "load_session c st = (Some (s, se), st1)"
    using assms(2) by (metis prod.collapse)
  moreover have "0 < u \<and> u \<in> uids (db st)"
    using live_session_user[OF assms(1,2)] assms(3) by auto
  moreover have "db_inv (db st)"
    using reachable_inv[OF assms(1)] by (simp add: server_inv_def)
  ultimately show ?thesis using that by blast
qed

lemma hotel1_in_results: "hd mockHotels \<in> set search_results"
  by (simp add: search_results_def mockHotels_def)

lemma after_signup_live:
  "fst (load_session (Some 0) after_signup) = Some (0, \<lparr>sess_userId = Some 1, sess_expires = maxAge\<rparr>)"
  by (simp add: after_signup_eq load_session_def init_server_def maxAge_def Let_def)

section \<open>Properties that span components\<close>

text \<open>C1: Every route behind \<open>isAuthenticated\<close> answers 401 \<open>Unauthorized\<close> to a request
  without an authenticated session and changes nothing but the session middleware's own
  work: the database is untouched, no session is saved and no cookie is set.\<close>

theorem gate_blocks_unauthenticated:
  assumes "is_gated (rq_route rq)"
    and "\<not> isAuthenticated (session_user (fst (load_session (rq_cookie rq) st)))"
  shows "serve rq st = (\<lparr>status = 401, payload = msg_json ''Unauthorized'', set_cookie = None\<rparr>,
                        snd (load_session (rq_cookie rq) st))"
proof -
  obtain h where h: "handle (rq_route rq) = gated h"
    using handle_gated[OF assms(1)] by blast
  obtain cur st1 where l: "load_session (rq_cookie rq) st = (cur, st1)"
    by fastforce
  have st1: "db st1 = db st"
    using load_session_eqD[OF l] by simp
  have "handle (rq_route rq) (clock st) (session_user cur) (rq_body rq) (db st) =
          ((401, msg_json ''Unauthorized''), NoChange, db st)"
    using assms(2) l h by (simp add: gated_unauth unauthorized_def)
  moreover have "commit_session cur NoChange (st1\<lparr>db := db st\<rparr>) = (None, st1)"
    using st1 by (simp add: commit_session_def)
  ultimately show ?thesis
    using serve_eq[OF l] l by simp
qed

theorem gate_blocks_unauthenticated_witness:
  "serve \<lparr>rq_cookie = None, rq_route = GetSavedOptions, rq_body = []\<rparr> init_server =
     (\<lparr>status = 401, payload = msg_json ''Unauthorized'', set_cookie = None\<rparr>, init_server)"
  using gate_blocks_unauthenticated[of "\<lparr>rq_cookie = None, rq_route = GetSavedOptions, rq_body = []\<rparr>" init_server]
  by (simp add: load_session_def session_user_def isAuthenticated_def)

text \<open>C2: Any request, on any route, whose session is not user \<open>v\<close>'s leaves \<open>v\<close>'s saved
  options exactly as they were (as a multiset of id, type and data, which determines
  every answer of \<open>GET /api/saved-options\<close> and of the check route for \<open>v\<close>).\<close>

theorem saved_options_noninterference:
  assumes "session_user (fst (load_session (rq_cookie rq) st)) \<noteq> Some v"
  shows "saved_view (db (snd (serve rq st))) v = saved_view (db st) v"
  using handle_saved_view[OF assms] by (simp add: serve_db)

theorem saved_options_noninterference_witness:
  "saved_view (db (snd (serve \<lparr>rq_cookie = Some 0, rq_route = PostSavedOption, rq_body = hotel1_body\<rparr> after_signup))) 2 =
   saved_view (db after_signup) 2"
  using saved_options_noninterference[of "\<lparr>rq_cookie = Some 0, rq_route = PostSavedOption, rq_body = hotel1_body\<rparr>"
          after_signup 2]
  by (simp add: after_signup_eq load_session_def session_user_def init_server_def maxAge_def Let_def)

text \<open>C11: In a reachable state with a live session of user \<open>u\<close>, the home page's
  \<open>isSaved(optionId)\<close>, computed on the \<open>GET /api/saved-options\<close> response, answers
  what the server's \<open>isSavedOption(u, optionId)\<close> answers.\<close>

theorem client_view_matches_check:
  assumes "reachable st" and "fst (load_session c st) = Some (s, se)" and "sess_userId se = Some u"
  shows "isSaved (saved_data (fst (serve (the (dispatch c saved_query)) st))) oid \<longleftrightarrow> isSavedOption u oid (db st)"
proof -
  obtain st1 where l: "load_session c st = (Some (s, se), st1)" and u: "0 < u"
    using live_request[OF assms] by blast
  have "saved_data (fst (serve \<lparr>rq_cookie = c, rq_route = GetSavedOptions, rq_body = []\<rparr> st)) =
          map saved_json (getSavedOptions u (db st))"
    using serve_live_result[of "\<lparr>rq_cookie = c, rq_route = GetSavedOptions, rq_body = []\<rparr>", simplified, OF l assms(3) u] u
    by (simp add: saved_data_def gated_auth isAuthenticated_def getSaved_handler_def)
  then show ?thesis
    by (simp add: isSaved_getSavedOptions)
qed

theorem client_view_matches_check_witness:
  "\<not> isSaved (saved_data (fst (serve (the (dispatch (Some 0) saved_query)) after_signup))) ''hotel1''"
  using client_view_matches_check[OF reachable_after_signup after_signup_live, of 1 "''hotel1''"]
  by (simp add: after_signup_eq alice_db_eq isSavedOption_def)

text \<open>C10: In a reachable state with a live session of user \<open>u\<close>, clicking the save button
  of any search result succeeds (200), and afterwards the option is saved for \<open>u\<close>
  exactly when the client's list did not show it saved: the card's button toggles.\<close>

theorem card_click_effect:
  assumes "reachable st" and "fst (load_session c st) = Some (s, se)" and "sess_userId se = Some u"
    and "t \<in> set search_results"
  shows "status (fst (serve (the (dispatch c (card_click saved t))) st)) = 200 \<and>
         (isSavedOption u (to_id t) (db (snd (serve (the (dispatch c (card_click saved t))) st))) \<longleftrightarrow>
          \<not> isSaved saved (to_id t))"
proof -
  obtain st1 where l: "load_session c st = (Some (s, se), st1)" and u: "0 < u" "u \<in> uids (db st)"
    and inv: "db_inv (db st)"
    using live_request[OF assms(1-3)] by blast
  note res = serve_live_result[OF _ assms(3) u(1)]
  show ?thesis
  proof (cases "isSaved saved (to_id t)")
    case True
    then show ?thesis
      using res[of "\<lparr>rq_cookie = c, rq_route = DeleteSavedOption (to_id t), rq_body = []\<rparr>", simplified, OF l] u(1)
        dispatch_card_click[OF assms(4), of c saved]
      by (simp add: gated_auth isAuthenticated_def deleteSaved_handler_def isSavedOption_removeSavedOption)
  next
    case False
    obtain r d' where sv: "saveOption \<lparr>ins_userId = of_int u, ins_optionId = to_id t,
        ins_optionType = kind_name (to_type t), ins_optionData = option_json t\<rparr> (clock st) (db st) = (Inr r, d')"
      using saveOption_succeeds[OF inv _ u(2)] by fastforce
    have "so_userId r = u" "optionId r = to_id t"
      using saveOption_Inr[OF sv] by simp_all
    then have "isSavedOption u (to_id t) d'"
      using isSavedOption_saveOption[OF sv] by simp
    moreover have "postSaved_handler (clock st) u (ac_body (save_call t)) (db st) = ((200, saved_json r), NoChange, d')"
      using sv by (simp add: postSaved_handler_def save_call_parse)
    ultimately show ?thesis
      using False res[of "\<lparr>rq_cookie = c, rq_route = PostSavedOption, rq_body = ac_body (save_call t)\<rparr>", simplified, OF l] u(1)
        dispatch_card_click[OF assms(4), of c saved]
      by (simp add: gated_auth isAuthenticated_def)
  qed
qed

theorem card_click_effect_witness:
  "status (fst (serve (the (dispatch (Some 0) (card_click [] (hd mockHotels)))) after_signup)) = 200 \<and>
   isSavedOption 1 (to_id (hd mockHotels)) (db (snd (serve (the (dispatch (Some 0) (card_click [] (hd mockHotels)))) after_signup)))"
  using card_click_effect[OF reachable_after_signup after_signup_live _ hotel1_in_results, of 1 "[]"]
  by (simp add: isSaved_def)

text \<open>C12: A search submitted from the form shows the mock results, but the search-history
  request it sends is answered 400 (or 401 without a session) and stores nothing, in
  every server state.\<close>

theorem ui_search_never_stored:
  assumes "search_onSubmit f = Some (rs, call)"
  shows "rs = search_results \<and>
         (\<exists>rq. dispatch c call = Some rq \<and> status (fst (serve rq st)) \<in> {400, 401} \<and> db (snd (serve rq st)) = db st)"
proof -
  have c: "rs = search_results" "call = history_call (search_data f)"
    using search_onSubmit_Some[OF assms] by simp_all
  let ?rq = "\<lparr>rq_cookie = c, rq_route = PostSearchHistory, rq_body = search_data f\<rparr>"
  let ?su = "session_user (fst (load_session c st))"
  have "fst (fst (handle PostSearchHistory (clock st) ?su (search_data f) (db st))) \<in> {400, 401} \<and>
        snd (snd (handle PostSearchHistory (clock st) ?su (search_data f) (db st))) = db st"
  proof (cases "isAuthenticated ?su")
    case True
    then show ?thesis
      using postHistory_search_data[of "clock st" "the ?su" f "db st"]
      by (auto simp: gated_auth invalid_data_def)
  next
    case False
    then show ?thesis by (simp add: gated_unauth unauthorized_def)
  qed
  then show ?thesis
    using c by (simp add: serve_status serve_db)
qed

theorem ui_search_never_stored_witness:
  "\<exists>rq. dispatch (Some 0) (history_call (search_data (search_defaults\<lparr>sf_destination := ''Paris''\<rparr>))) = Some rq \<and>
        status (fst (serve rq after_signup)) \<in> {400, 401} \<and> db (snd (serve rq after_signup)) = db after_signup"
  using ui_search_never_stored[of "search_defaults\<lparr>sf_destination := ''Paris''\<rparr>" search_results
          "history_call (search_data (search_defaults\<lparr>sf_destination := ''Paris''\<rparr>))" "Some 0" after_signup]
  by (simp add: search_onSubmit_def handleSearch_def search_defaults_def)


text \<open>C13: In every state, a registered user who submits the sign-in page with their username
  and password is taken to \<open>/\<close>, and the answer's cookie names a session bound to them
  for the next 24 hours: signing in is always possible.\<close>

theorem registered_user_can_sign_in:
  assumes "getUserByUsername n (db st) = Some usr" and "bcrypt_compare p (passwordHash usr)"
    and "n \<noteq> []" and "p \<noteq> []"
  shows "\<exists>rq. client_send c (SubmitSignIn \<lparr>sf_username = n, sf_password = p\<rparr>) = Some rq \<and>
           signin_outcome (fst (serve rq st)) = SignedIn ''/'' \<and>
           (\<exists>s. set_cookie (fst (serve rq st)) = Some s \<and>
                sessions (snd (serve rq st)) s = Some \<lparr>sess_userId = Some (uid usr), sess_expires = clock st + maxAge\<rparr>)"
proof -
  let ?f = "\<lparr>sf_username = n, sf_password = p\<rparr>"
  let ?rq = "\<lparr>rq_cookie = c, rq_route = SignIn, rq_body = signin_form_data ?f\<rparr>"
  have p: "signInSchema_parse (signin_form_data ?f) = Inr \<lparr>si_username = n, si_password = p\<rparr>"
    using signin_form_parse[of ?f] assms(3,4) by simp
  then have send: "client_send c (SubmitSignIn ?f) = Some ?rq"
    by (simp add: client_send_def signin_onSubmit_def)
  obtain cur st1 where l: "load_session c st = (cur, st1)"
    by fastforce
  have h: "handle SignIn (clock st) (session_user cur) (signin_form_data ?f) (db st) =
             ((200, user_without_password usr), SetUser (uid usr), db st)"
    using p assms(1,2) by (simp add: signin_handler_def)
  have e: "clock st1 = clock st" "db st1 = db st"
    using load_session_eqD[OF l] by simp_all
  obtain s where s: "fst (commit_session cur (SetUser (uid usr)) (st1\<lparr>db := db st\<rparr>)) = Some s"
    "sessions (snd (commit_session cur (SetUser (uid usr)) (st1\<lparr>db := db st\<rparr>))) s =
       Some \<lparr>sess_userId = Some (uid usr), sess_expires = clock st + maxAge\<rparr>"
    using commit_session_SetUser[of cur "uid usr" "st1\<lparr>db := db st\<rparr>"] e by auto
  have "serve ?rq st = (\<lparr>status = 200, payload = user_without_password usr,
                         set_cookie = fst (commit_session cur (SetUser (uid usr)) (st1\<lparr>db := db st\<rparr>))\<rparr>,
                        snd (commit_session cur (SetUser (uid usr)) (st1\<lparr>db := db st\<rparr>)))"
    using l h e by (simp add: serve_def split: prod.split)
  then show ?thesis
    using send s by (simp add: signin_outcome_def)
qed

theorem registered_user_can_sign_in_witness:
  "\<exists>rq. client_send None (SubmitSignIn \<lparr>sf_username = ''alice'', sf_password = ''secret1''\<rparr>) = Some rq \<and>
        signin_outcome (fst (serve rq after_signup)) = SignedIn ''/''"
  using registered_user_can_sign_in[of "''alice''" after_signup "new_user 1 alice 0" "''secret1''" None]
  by (auto simp: after_signup_eq alice_db_eq getUserByUsername_def alice_def new_user_def bcrypt_hash_def)

end
